theory Spec2Isabelle
  imports Main "HOL-Library.Sublist"
begin

section \<open>Data model (core/schemas.py)\<close>

text \<open>
  Python \<open>str\<close> is modelled as \<open>string\<close>, a list of code points below 256; \<open>int\<close> as
  \<open>int\<close>; \<open>list\<close> as \<open>list\<close>; \<open>X | None\<close> as \<open>X option\<close>; a \<open>dict\<close> as an association
  list in insertion order. Each pydantic model class is a record with the fields of the
  class, in the order of the class. Where two classes share a field name the later
  record prefixes it (\<open>feat_description\<close> for \<open>Feature.description\<close>, \<open>text_color\<close> for
  \<open>ColorPalette.text\<close>, \<open>ui_\<close> for \<open>UserInput\<close>, \<open>ctx_\<close> for the keyword arguments of
  \<open>template.render\<close>).
\<close>

datatype json =
  JNull | JBool bool | JInt int | JStr string | JArr "json list" | JObj "(string \<times> json) list"

record ProjectInfo =
  product_name :: string
  tagline :: string
  description :: string
  target_audience :: string
  value_proposition :: string
  tone :: string
  "keywords" :: "string list"

record ColorPalette =
  primary :: string
  secondary :: string
  accent :: string
  background :: string
  text_color :: string

record Typography =
  heading :: string
  body :: string

record BrandIdentity =
  colors :: ColorPalette
  fonts :: Typography
  tone_rules :: "string list"

record HeroSection =
  headline :: string
  subheadline :: string
  cta_text :: string

record Feature =
  title :: string
  feat_description :: string
  icon :: string

record Testimonial =
  quote :: string
  author :: string
  role :: string

record ContentVariants =
  headlines :: "string list"
  ctas :: "string list"

record SectionsConfig =
  pricing :: bool
  faq :: bool
  logos :: bool
  screenshots :: bool
  feature_grid :: bool
  stats :: bool

record LandingContent =
  hero :: HeroSection
  features :: "Feature list"
  testimonial :: Testimonial
  footer_cta :: string
  variants :: ContentVariants
  sections :: SectionsConfig
  faq_items :: "(string \<times> string) list list"
  pricing_plans :: "(string \<times> json) list list"

record AssetSlots =
  hero_image_prompt :: "string option"
  hero_image_alt :: "string option"
  og_image_prompt :: "string option"
  logo_url :: "string option"
  screenshot_prompts :: "string list"

record RenderConfig =
  template_type :: string
  variant_id :: int

record GenerationMeta =
  schema_version :: string
  generated_at :: string
  pipeline_steps :: "string list"

record CanonicalData =
  meta :: GenerationMeta
  project :: ProjectInfo
  brand :: "BrandIdentity option"
  content :: "LandingContent option"
  assets :: AssetSlots
  render :: RenderConfig

text \<open>\<open>ContentVariants.max_variant_id\<close>: \<open>len(self.headlines) if self.headlines else 0\<close>.\<close>

definition max_variant_id :: "ContentVariants \<Rightarrow> int" where
  "max_variant_id vs = (if headlines vs \<noteq> [] then int (length (headlines vs)) else 0)"

text \<open>\<open>CanonicalData.get_effective_variant_id\<close>.\<close>

definition get_effective_variant_id :: "CanonicalData \<Rightarrow> int" where
  "get_effective_variant_id d =
     (case content d of
        None \<Rightarrow> 0
      | Some c \<Rightarrow>
          (let max_variant = max_variant_id (variants c)
           in if variant_id (render d) > max_variant then 0 else variant_id (render d)))"

text \<open>\<open>DefaultBrand\<close>: the class attributes \<open>COLORS\<close>, \<open>FONTS\<close> and \<open>IDENTITY\<close>.\<close>

definition DefaultBrand_COLORS :: ColorPalette where
  "DefaultBrand_COLORS =
     \<lparr>primary = ''#6366F1'', secondary = ''#818CF8'', accent = ''#F59E0B'',
      background = ''#FAFAFA'', text_color = ''#1F2937''\<rparr>"

definition DefaultBrand_FONTS :: Typography where
  "DefaultBrand_FONTS = \<lparr>heading = ''Inter'', body = ''Inter''\<rparr>"

definition DefaultBrand_IDENTITY :: BrandIdentity where
  "DefaultBrand_IDENTITY =
     \<lparr>colors = DefaultBrand_COLORS, fonts = DefaultBrand_FONTS,
      tone_rules = [''Be clear and concise'', ''Focus on user benefits'', ''Use active voice'']\<rparr>"

section \<open>Error taxonomy (core/errors.py)\<close>

datatype ErrorCode =
  SCHEMA_VALIDATION | INVALID_TONE | INVALID_VARIANT_ID | INVALID_TEMPLATE_TYPE
  | INVALID_HEX_COLOR | MISSING_REQUIRED_FIELD
  | ONBOARDING_FAILED | BRAND_FAILED | LANDING_FAILED | LLM_GENERATION_FAILED
  | TEMPLATE_NOT_FOUND | RENDER_FAILED | MISSING_CONTENT
  | FILE_NOT_FOUND | FILE_WRITE_FAILED | JSON_PARSE_FAILED

text \<open>The \<open>value\<close> of each member of the \<open>ErrorCode\<close> enum.\<close>

fun ErrorCode_value :: "ErrorCode \<Rightarrow> string" where
  "ErrorCode_value SCHEMA_VALIDATION = ''E101''"
| "ErrorCode_value INVALID_TONE = ''E102''"
| "ErrorCode_value INVALID_VARIANT_ID = ''E103''"
| "ErrorCode_value INVALID_TEMPLATE_TYPE = ''E104''"
| "ErrorCode_value INVALID_HEX_COLOR = ''E105''"
| "ErrorCode_value MISSING_REQUIRED_FIELD = ''E106''"
| "ErrorCode_value ONBOARDING_FAILED = ''E201''"
| "ErrorCode_value BRAND_FAILED = ''E202''"
| "ErrorCode_value LANDING_FAILED = ''E203''"
| "ErrorCode_value LLM_GENERATION_FAILED = ''E204''"
| "ErrorCode_value TEMPLATE_NOT_FOUND = ''E301''"
| "ErrorCode_value RENDER_FAILED = ''E302''"
| "ErrorCode_value MISSING_CONTENT = ''E303''"
| "ErrorCode_value FILE_NOT_FOUND = ''E401''"
| "ErrorCode_value FILE_WRITE_FAILED = ''E402''"
| "ErrorCode_value JSON_PARSE_FAILED = ''E403''"

text \<open>
  \<open>PipelineError\<close> and its subclass \<open>RenderError\<close>: the attributes the constructor
  sets. \<open>RenderError.__init__\<close> records the template in \<open>details\<close> when it is given
  and non-empty, and always sets the step to \<open>render\<close>.
\<close>

record PipelineError =
  code :: ErrorCode
  message :: string
  details :: "(string \<times> string) list"
  step :: "string option"

definition RenderError :: "string \<Rightarrow> string option \<Rightarrow> ErrorCode \<Rightarrow> PipelineError" where
  "RenderError msg template c =
     \<lparr>code = c, message = msg,
      details = (case template of
                   None \<Rightarrow> []
                 | Some t \<Rightarrow> if t \<noteq> [] then [(''template'', t)] else []),
      step = Some ''render''\<rparr>"

section \<open>Renderer (core/renderer.py)\<close>

definition TEMPLATE_FILES :: "(string \<times> string) list" where
  "TEMPLATE_FILES =
     [(''saas'', ''saas.html.j2''), (''app'', ''app.html.j2''), (''agency'', ''agency.html.j2'')]"

definition TONE_STYLES :: "(string \<times> (string \<times> string) list) list" where
  "TONE_STYLES =
     [(''professional'', [(''hero_size'', ''text-5xl md:text-6xl''), (''cta_style'', ''rounded-lg'')]),
      (''friendly'', [(''hero_size'', ''text-4xl md:text-5xl''), (''cta_style'', ''rounded-full'')]),
      (''bold'', [(''hero_size'', ''text-6xl md:text-7xl font-black''),
                  (''cta_style'', ''rounded-none uppercase tracking-wider'')]),
      (''minimal'', [(''hero_size'', ''text-4xl md:text-5xl font-light''),
                     (''cta_style'', ''rounded-sm border'')])]"

text \<open>\<open>dict.get(key, default)\<close> on an association list.\<close>

definition dict_get :: "('k \<times> 'v) list \<Rightarrow> 'k \<Rightarrow> 'v \<Rightarrow> 'v" where
  "dict_get m k dflt = (case map_of m k of None \<Rightarrow> dflt | Some v \<Rightarrow> v)"

text \<open>
  A \<open>TemplateRenderer\<close> holds a Jinja2 environment over \<open>templates_dir\<close>. The template
  files and the Jinja2 engine are not part of the sources: the renderer is represented
  by the set of template names its loader finds (\<open>env.get_template\<close> raises
  \<open>TemplateNotFound\<close> for every other name) and by the year \<open>datetime.now()\<close> gives.
\<close>

record TemplateRenderer =
  templates_dir :: "string set"
  clock_year :: int

text \<open>
  A rendered page is represented by the call that produces it: the template file
  chosen and the keyword arguments handed to \<open>template.render\<close> (the constant icon
  table and default glyph are left out).
\<close>

record view_context =
  ctx_template :: string
  ctx_project :: ProjectInfo
  ctx_brand :: BrandIdentity
  ctx_content :: LandingContent
  ctx_headline :: string
  ctx_cta_text :: string
  ctx_current_year :: int
  ctx_sections :: SectionsConfig
  ctx_assets :: AssetSlots
  ctx_tone :: string
  ctx_tone_style :: "(string \<times> string) list"

text \<open>\<open>TemplateRenderer._resolve_variant\<close>.\<close>

definition resolve_variant :: "string \<Rightarrow> string list \<Rightarrow> int \<Rightarrow> string" where
  "resolve_variant dflt vs v =
     (if v = 0 \<or> vs = [] then dflt
      else (let idx = v - 1
            in if 0 \<le> idx \<and> idx < int (length vs) then vs ! nat idx else dflt))"

text \<open>
  \<open>TemplateRenderer._clamp_variant_id\<close>. Its \<open>variants\<close> argument is a
  \<open>ContentVariants\<close> instance, which is always truthy, so \<open>max_variant\<close> is
  \<open>variants.max_variant_id()\<close>.
\<close>

definition clamp_variant_id :: "int \<Rightarrow> ContentVariants \<Rightarrow> int" where
  "clamp_variant_id v vs =
     (if v = 0 then 0
      else (let max_variant = max_variant_id vs
            in if v > max_variant then 0 else v))"

text \<open>
  \<open>TemplateRenderer.render_landing\<close>. \<open>template_override or data.render.template_type\<close>
  takes the override unless it is \<open>None\<close> or empty. Model instances are truthy, so
  \<open>data.content.sections or SectionsConfig()\<close> and \<open>data.assets or AssetSlots()\<close> are
  their left operands.
\<close>

definition render_landing ::
  "TemplateRenderer \<Rightarrow> CanonicalData \<Rightarrow> string option \<Rightarrow> int option
     \<Rightarrow> PipelineError + view_context" where
  "render_landing self data template_override variant_override =
     (case content data of
        None \<Rightarrow>
          Inl (RenderError ''CanonicalData.content is required for rendering'' None MISSING_CONTENT)
      | Some c \<Rightarrow>
          (let template_type =
                 (case template_override of
                    None \<Rightarrow> template_type (render data)
                  | Some t \<Rightarrow> if t \<noteq> [] then t else template_type (render data));
               template_file = dict_get TEMPLATE_FILES template_type ''saas.html.j2''
           in if template_file \<notin> templates_dir self then
                Inl (RenderError (''Template '' @ [CHR 0x27] @ template_file @ [CHR 0x27] @ '' not found'')
                       (Some template_file) TEMPLATE_NOT_FOUND)
              else
                (let variant_id =
                       (case variant_override of
                          None \<Rightarrow> variant_id (render data)
                        | Some v \<Rightarrow> v);
                     effective_variant_id = clamp_variant_id variant_id (variants c);
                     headline = resolve_variant (headline (hero c)) (headlines (variants c))
                                  effective_variant_id;
                     cta_text = resolve_variant (cta_text (hero c)) (ctas (variants c))
                                  effective_variant_id;
                     brand = (case brand data of None \<Rightarrow> DefaultBrand_IDENTITY | Some b \<Rightarrow> b);
                     sections = sections c;
                     assets = assets data;
                     tone_style = dict_get TONE_STYLES (tone (project data))
                                    (dict_get TONE_STYLES ''professional'' [])
                 in Inr \<lparr>ctx_template = template_file, ctx_project = project data,
                          ctx_brand = brand, ctx_content = c, ctx_headline = headline,
                          ctx_cta_text = cta_text, ctx_current_year = clock_year self,
                          ctx_sections = sections, ctx_assets = assets,
                          ctx_tone = tone (project data), ctx_tone_style = tone_style\<rparr>)))"

section \<open>Test fixtures (tests/conftest.py)\<close>

text \<open>
  The fixtures \<open>valid_project_info\<close>, \<open>valid_brand_identity\<close>, \<open>valid_landing_content\<close>
  and \<open>valid_canonical_data\<close>. The fixture leaves \<open>generated_at\<close> to its default
  factory, the clock; it is a parameter here.
\<close>

definition valid_project_info :: ProjectInfo where
  "valid_project_info =
     \<lparr>product_name = ''TestProduct'', tagline = ''Test tagline here'',
      description = ''This is a test product description that is long enough.'',
      target_audience = ''Developers and testers'',
      value_proposition = ''Make testing easier'', tone = ''professional'',
      keywords = [''test'', ''fixture'', ''pytest'']\<rparr>"

definition valid_brand_identity :: BrandIdentity where
  "valid_brand_identity =
     \<lparr>colors = \<lparr>primary = ''#6366F1'', secondary = ''#818CF8'', accent = ''#F59E0B'',
                background = ''#FAFAFA'', text_color = ''#1F2937''\<rparr>,
      fonts = \<lparr>heading = ''Inter'', body = ''Inter''\<rparr>,
      tone_rules = [''Be clear'', ''Be concise'', ''Focus on benefits'']\<rparr>"

definition valid_landing_content :: LandingContent where
  "valid_landing_content =
     \<lparr>hero = \<lparr>headline = ''Welcome to TestProduct'',
               subheadline = ''This is the subheadline that explains what we do in detail.'',
               cta_text = ''Get Started''\<rparr>,
      features =
        [\<lparr>title = ''Feature One'', feat_description = ''This is the first feature description.'',
          icon = ''rocket''\<rparr>,
         \<lparr>title = ''Feature Two'', feat_description = ''This is the second feature description.'',
          icon = ''shield''\<rparr>,
         \<lparr>title = ''Feature Three'', feat_description = ''This is the third feature description.'',
          icon = ''zap''\<rparr>],
      testimonial = \<lparr>quote = ''This product changed everything for our team!'',
                      author = ''Jane Doe'', role = ''CTO, TechCorp''\<rparr>,
      footer_cta = ''Ready to get started?'',
      variants = \<lparr>headlines = [''Alternative Headline One'', ''Alternative Headline Two''],
                   ctas = [''Try It Free'', ''Start Now'']\<rparr>,
      sections = \<lparr>pricing = False, faq = True, logos = True, screenshots = False,
                   feature_grid = True, stats = True\<rparr>,
      faq_items = [], pricing_plans = []\<rparr>"

definition valid_canonical_data :: "string \<Rightarrow> CanonicalData" where
  "valid_canonical_data now =
     \<lparr>meta = \<lparr>schema_version = ''1.2.1'', generated_at = now,
               pipeline_steps = [''onboarding'', ''brand'', ''landing'']\<rparr>,
      project = valid_project_info,
      brand = Some valid_brand_identity,
      content = Some valid_landing_content,
      assets = \<lparr>hero_image_prompt = Some ''Test hero image prompt'',
                 hero_image_alt = Some ''Test hero alt text'',
                 og_image_prompt = None, logo_url = None, screenshot_prompts = []\<rparr>,
      render = \<lparr>template_type = ''saas'', variant_id = 0\<rparr>\<rparr>"

text \<open>
  The document of the end-to-end example: the fixture with the alternate headlines
  \<open>Alt One\<close> and \<open>Alt Two\<close>.
\<close>

definition example_document :: CanonicalData where
  "example_document =
     (valid_canonical_data ''2026-01-01T00:00:00'')
       \<lparr>content := Some (valid_landing_content
           \<lparr>variants := \<lparr>headlines = [''Alt One'', ''Alt Two''],
                          ctas = [''Try It Free'', ''Start Now'']\<rparr>\<rparr>)\<rparr>"

text \<open>A renderer whose loader finds the three template files of \<open>TEMPLATE_FILES\<close>.\<close>

definition installed_renderer :: TemplateRenderer where
  "installed_renderer =
     \<lparr>templates_dir = {''saas.html.j2'', ''app.html.j2'', ''agency.html.j2''},
      clock_year = 2026\<rparr>"

text \<open>The loader of a renderer finds every template file of \<open>TEMPLATE_FILES\<close>.\<close>

definition templates_installed :: "TemplateRenderer \<Rightarrow> bool" where
  "templates_installed self = (set (map snd TEMPLATE_FILES) \<subseteq> templates_dir self)"

section \<open>Bulk rendering (core/renderer.py, \<open>render_all_variants\<close>)\<close>

text \<open>\<open>str(n)\<close> for a natural number and for an integer: the decimal numeral.\<close>

fun str_nat :: "nat \<Rightarrow> string" where
  "str_nat n =
     (if n < 10 then [char_of (48 + n)]
      else str_nat (n div 10) @ [char_of (48 + n mod 10)])"

definition py_str_int :: "int \<Rightarrow> string" where
  "py_str_int i = (if i < 0 then CHR ''-'' # str_nat (nat (- i)) else str_nat (nat i))"

text \<open>
  \<open>d[k] = v\<close> on a dictionary in insertion order: an existing key keeps its place and
  takes the new value, a new key is appended.
\<close>

fun dict_set :: "('k \<times> 'v) list \<Rightarrow> 'k \<Rightarrow> 'v \<Rightarrow> ('k \<times> 'v) list" where
  "dict_set [] k v = [(k, v)]"
| "dict_set ((k', v') # m) k v = (if k' = k then (k, v) # m else (k', v') # dict_set m k v)"

text \<open>The key \<open>f"{template_type}_v{i}"\<close>.\<close>

definition variant_key :: "string \<Rightarrow> int \<Rightarrow> string" where
  "variant_key ttype i = ttype @ ''_v'' @ py_str_int i"

text \<open>
  The inner loop \<open>for i in range(1, num_variants + 1)\<close> over the remaining ids. An
  error raised by \<open>render_landing\<close> leaves the loop.
\<close>

fun render_variants_loop ::
  "TemplateRenderer \<Rightarrow> CanonicalData \<Rightarrow> string \<Rightarrow> int list \<Rightarrow> (string \<times> view_context) list
     \<Rightarrow> PipelineError + (string \<times> view_context) list" where
  "render_variants_loop self data ttype [] results = Inr results"
| "render_variants_loop self data ttype (i # rest) results =
     (case render_landing self data (Some ttype) (Some i) of
        Inl e \<Rightarrow> Inl e
      | Inr page \<Rightarrow>
          render_variants_loop self data ttype rest
            (dict_set results (variant_key ttype i) page))"

text \<open>The outer loop \<open>for template_type in TEMPLATE_FILES.keys()\<close>.\<close>

fun render_templates_loop ::
  "TemplateRenderer \<Rightarrow> CanonicalData \<Rightarrow> string list \<Rightarrow> int \<Rightarrow> (string \<times> view_context) list
     \<Rightarrow> PipelineError + (string \<times> view_context) list" where
  "render_templates_loop self data [] num_variants results = Inr results"
| "render_templates_loop self data (ttype # rest) num_variants results =
     (case render_landing self data (Some ttype) (Some 0) of
        Inl e \<Rightarrow> Inl e
      | Inr page \<Rightarrow>
          (case render_variants_loop self data ttype [1..num_variants]
                  (dict_set results (ttype @ ''_v0'') page) of
             Inl e \<Rightarrow> Inl e
           | Inr results' \<Rightarrow> render_templates_loop self data rest num_variants results'))"

definition render_all_variants ::
  "TemplateRenderer \<Rightarrow> CanonicalData \<Rightarrow> PipelineError + (string \<times> view_context) list" where
  "render_all_variants self data =
     (let num_variants =
            (case content data of
               None \<Rightarrow> 0
             | Some c \<Rightarrow>
                 if headlines (variants c) \<noteq> [] then int (length (headlines (variants c))) else 0)
      in render_templates_loop self data (map fst TEMPLATE_FILES) num_variants [])"

text \<open>Reading a decimal numeral back, used to show that \<open>str\<close> is injective.\<close>

fun nat_of_digits :: "string \<Rightarrow> nat \<Rightarrow> nat" where
  "nat_of_digits [] a = a"
| "nat_of_digits (c # cs) a = nat_of_digits cs (10 * a + (of_char c - 48))"

section \<open>Strings (the \<open>str\<close> methods the schema uses)\<close>

text \<open>
  \<open>str.isspace\<close> on one character, for code points below 256: tab to carriage return,
  the separators \<open>0x1c\<close> to \<open>0x1f\<close>, space, \<open>0x85\<close> and \<open>0xa0\<close>. \<open>str.strip()\<close> removes
  these characters at both ends.
\<close>

definition py_isspace :: "char \<Rightarrow> bool" where
  "py_isspace c =
     (let n = (of_char c :: nat)
      in (9 \<le> n \<and> n \<le> 13) \<or> (28 \<le> n \<and> n \<le> 32) \<or> n = 133 \<or> n = 160)"

definition strip_by :: "(char \<Rightarrow> bool) \<Rightarrow> string \<Rightarrow> string" where
  "strip_by sp s = rev (dropWhile sp (rev (dropWhile sp s)))"

definition py_strip :: "string \<Rightarrow> string" where
  "py_strip s = strip_by py_isspace s"

text \<open>
  The \<open>str_strip_whitespace=True\<close> setting of a model trims the Unicode white space
  from both ends of every string field: the characters of \<open>py_isspace\<close> but for the
  separators \<open>0x1c\<close> to \<open>0x1f\<close>.
\<close>

definition core_isspace :: "char \<Rightarrow> bool" where
  "core_isspace c =
     (let n = (of_char c :: nat)
      in (9 \<le> n \<and> n \<le> 13) \<or> n = 32 \<or> n = 133 \<or> n = 160)"

definition str_strip_whitespace :: "string \<Rightarrow> string" where
  "str_strip_whitespace s = strip_by core_isspace s"

text \<open>
  \<open>str.lower()\<close> for code points below 256: the letters \<open>A\<close> to \<open>Z\<close> and the Latin-1
  capitals \<open>0xc0\<close> to \<open>0xde\<close> (but the multiplication sign \<open>0xd7\<close>) move up by 32.
\<close>

definition py_lower_char :: "char \<Rightarrow> char" where
  "py_lower_char c =
     (let n = (of_char c :: nat)
      in if (65 \<le> n \<and> n \<le> 90) \<or> (192 \<le> n \<and> n \<le> 222 \<and> n \<noteq> 215)
         then char_of (n + 32) else c)"

definition py_lower :: "string \<Rightarrow> string" where
  "py_lower s = map py_lower_char s"

text \<open>\<open>s.split(".")\<close>: the parts between the dots; always at least one part.\<close>

fun split_dot :: "string \<Rightarrow> string list" where
  "split_dot [] = [[]]"
| "split_dot (c # cs) =
     (if c = CHR ''.'' then [] # split_dot cs
      else (case split_dot cs of
              [] \<Rightarrow> [[c]]
            | p # ps \<Rightarrow> (c # p) # ps))"

text \<open>
  \<open>sorted\<close> on a list of strings (code point order) and the \<open>repr\<close> of a list of
  strings, as an f-string prints it. \<open>py_repr_str\<close> is the \<open>repr\<close> of a string without
  quotes, backslashes or control characters, which is what the allow-lists hold.
\<close>

fun str_le :: "string \<Rightarrow> string \<Rightarrow> bool" where
  "str_le [] ys = True"
| "str_le (x # xs) [] = False"
| "str_le (x # xs) (y # ys) =
     ((of_char x :: nat) < of_char y \<or> (x = y \<and> str_le xs ys))"

fun insert_sorted :: "string \<Rightarrow> string list \<Rightarrow> string list" where
  "insert_sorted x [] = [x]"
| "insert_sorted x (y # ys) = (if str_le x y then x # y # ys else y # insert_sorted x ys)"

definition py_sorted :: "string list \<Rightarrow> string list" where
  "py_sorted xs = foldr insert_sorted xs []"

definition py_repr_str :: "string \<Rightarrow> string" where
  "py_repr_str s = [CHR 0x27] @ s @ [CHR 0x27]"

fun join_comma :: "string list \<Rightarrow> string" where
  "join_comma [] = []"
| "join_comma [x] = x"
| "join_comma (x # y # ys) = x @ '', '' @ join_comma (y # ys)"

definition py_repr_str_list :: "string list \<Rightarrow> string" where
  "py_repr_str_list xs = ''['' @ join_comma (map py_repr_str xs) @ '']''"

section \<open>Validation (pydantic, as core/schemas.py configures it)\<close>

text \<open>
  A validation error is the list of its entries, each with the location of the
  offending value (the path of field names and list indices) and the kind of the
  error. \<open>ValueError\<close> carries the message of a \<open>ValueError\<close> raised by a validator of
  the schema; the other kinds are the built-in checks of the field declarations.
  Validation collects the errors of all fields.
\<close>

datatype err_kind =
  Missing | ModelType | StringType | IntType | BoolType | ListType | DictType
  | StringTooShort nat | StringTooLong nat | StringPatternMismatch | LiteralError
  | TooShort nat | TooLong nat | GreaterThanEqual int | LessThanEqual int
  | ValueError string

type_synonym verr = "(string list \<times> err_kind) list"

text \<open>Two validated parts combine: the value when both are valid, all errors otherwise.\<close>

fun ap :: "verr + ('a \<Rightarrow> 'b) \<Rightarrow> verr + 'a \<Rightarrow> verr + 'b" where
  "ap (Inr f) (Inr x) = Inr (f x)"
| "ap (Inr f) (Inl e) = Inl e"
| "ap (Inl e) (Inr x) = Inl e"
| "ap (Inl e) (Inl e') = Inl (e @ e')"

text \<open>An after-validator runs on a value that passed the checks of the field.\<close>

fun and_then :: "verr + 'a \<Rightarrow> ('a \<Rightarrow> string + 'b) \<Rightarrow> verr + 'b" where
  "and_then (Inl e) f = Inl e"
| "and_then (Inr x) f = (case f x of Inl msg \<Rightarrow> Inl [([], ValueError msg)] | Inr y \<Rightarrow> Inr y)"

definition at_loc :: "string \<Rightarrow> verr + 'a \<Rightarrow> verr + 'a" where
  "at_loc name r = (case r of Inl e \<Rightarrow> Inl (map (\<lambda>(loc, k). (name # loc, k)) e) | Inr x \<Rightarrow> Inr x)"

text \<open>A required field, and a field with a default (defaults are not validated).\<close>

definition required :: "(string \<times> json) list \<Rightarrow> string \<Rightarrow> (json \<Rightarrow> verr + 'a) \<Rightarrow> verr + 'a" where
  "required kv name f =
     (case map_of kv name of None \<Rightarrow> Inl [([name], Missing)] | Some j \<Rightarrow> at_loc name (f j))"

definition with_default ::
  "(string \<times> json) list \<Rightarrow> string \<Rightarrow> 'a \<Rightarrow> (json \<Rightarrow> verr + 'a) \<Rightarrow> verr + 'a" where
  "with_default kv name dflt f =
     (case map_of kv name of None \<Rightarrow> Inr dflt | Some j \<Rightarrow> at_loc name (f j))"

text \<open>The items of a list, each validated at its index.\<close>

fun validate_items :: "(json \<Rightarrow> verr + 'a) \<Rightarrow> nat \<Rightarrow> json list \<Rightarrow> verr + 'a list" where
  "validate_items f i [] = Inr []"
| "validate_items f i (j # js) =
     ap (ap (Inr (#)) (at_loc (str_nat i) (f j))) (validate_items f (Suc i) js)"

text \<open>
  The field declarations: \<open>str\<close> with optional stripping and length bounds, \<open>str | None\<close>
  with a maximal length, a \<open>Literal\<close> of strings, \<open>int\<close> with bounds, \<open>bool\<close>, \<open>list\<close>
  with length bounds, \<open>dict[str, str]\<close>, \<open>dict[str, Any]\<close>, and a string matching
  \<open>HEX_COLOR_PATTERN\<close>. A value of another JSON type is a type error (the coercions
  pydantic applies between scalar types are not modelled).
\<close>

definition str_field :: "bool \<Rightarrow> nat \<Rightarrow> nat option \<Rightarrow> json \<Rightarrow> verr + string" where
  "str_field strip lo hi j =
     (case j of
        JStr s \<Rightarrow>
          (let s' = (if strip then str_strip_whitespace s else s)
           in if length s' < lo then Inl [([], StringTooShort lo)]
              else (case hi of
                      None \<Rightarrow> Inr s'
                    | Some h \<Rightarrow> if h < length s' then Inl [([], StringTooLong h)] else Inr s'))
      | _ \<Rightarrow> Inl [([], StringType)])"

definition opt_str_field :: "nat \<Rightarrow> json \<Rightarrow> verr + string option" where
  "opt_str_field hi j =
     (case j of
        JNull \<Rightarrow> Inr None
      | JStr s \<Rightarrow> if hi < length s then Inl [([], StringTooLong hi)] else Inr (Some s)
      | _ \<Rightarrow> Inl [([], StringType)])"

definition literal_field :: "string list \<Rightarrow> json \<Rightarrow> verr + string" where
  "literal_field allowed j =
     (case j of
        JStr s \<Rightarrow> if s \<in> set allowed then Inr s else Inl [([], LiteralError)]
      | _ \<Rightarrow> Inl [([], LiteralError)])"

definition int_field :: "int \<Rightarrow> int \<Rightarrow> json \<Rightarrow> verr + int" where
  "int_field lo hi j =
     (case j of
        JInt n \<Rightarrow>
          if n < lo then Inl [([], GreaterThanEqual lo)]
          else if hi < n then Inl [([], LessThanEqual hi)]
          else Inr n
      | _ \<Rightarrow> Inl [([], IntType)])"

definition bool_field :: "json \<Rightarrow> verr + bool" where
  "bool_field j = (case j of JBool b \<Rightarrow> Inr b | _ \<Rightarrow> Inl [([], BoolType)])"

definition list_field ::
  "nat \<Rightarrow> nat option \<Rightarrow> (json \<Rightarrow> verr + 'a) \<Rightarrow> json \<Rightarrow> verr + 'a list" where
  "list_field lo hi f j =
     (case j of
        JArr js \<Rightarrow>
          (if (case hi of None \<Rightarrow> False | Some h \<Rightarrow> h < length js)
           then Inl [([], TooLong (the hi))]
           else (case validate_items f 0 js of
                   Inl e \<Rightarrow> Inl e
                 | Inr xs \<Rightarrow> if length xs < lo then Inl [([], TooShort lo)] else Inr xs))
      | _ \<Rightarrow> Inl [([], ListType)])"

fun dict_items :: "(json \<Rightarrow> verr + 'a) \<Rightarrow> (string \<times> json) list \<Rightarrow> verr + (string \<times> 'a) list" where
  "dict_items f [] = Inr []"
| "dict_items f ((k, j) # kv) =
     ap (ap (Inr (\<lambda>x xs. (k, x) # xs)) (at_loc k (f j))) (dict_items f kv)"

definition dict_field :: "(json \<Rightarrow> verr + 'a) \<Rightarrow> json \<Rightarrow> verr + (string \<times> 'a) list" where
  "dict_field f j = (case j of JObj kv \<Rightarrow> dict_items f kv | _ \<Rightarrow> Inl [([], DictType)])"

definition any_field :: "json \<Rightarrow> verr + json" where
  "any_field j = Inr j"

definition is_hex_digit :: "char \<Rightarrow> bool" where
  "is_hex_digit c =
     (let n = (of_char c :: nat)
      in (48 \<le> n \<and> n \<le> 57) \<or> (65 \<le> n \<and> n \<le> 70) \<or> (97 \<le> n \<and> n \<le> 102))"

definition matches_hex_color :: "string \<Rightarrow> bool" where
  "matches_hex_color s =
     (case s of
        [] \<Rightarrow> False
      | c # cs \<Rightarrow> c = CHR ''#'' \<and> length cs = 6 \<and> list_all is_hex_digit cs)"

definition hex_color_field :: "json \<Rightarrow> verr + string" where
  "hex_color_field j =
     (case j of
        JStr s \<Rightarrow> if matches_hex_color s then Inr s else Inl [([], StringPatternMismatch)]
      | _ \<Rightarrow> Inl [([], StringType)])"

section \<open>The schema (core/schemas.py)\<close>

definition SCHEMA_VERSION :: string where
  "SCHEMA_VERSION = ''1.2.1''"

definition ToneType :: "string list" where
  "ToneType = [''professional'', ''friendly'', ''bold'', ''minimal'']"

definition TemplateType :: "string list" where
  "TemplateType = [''saas'', ''app'', ''agency'']"

definition ALLOWED_FONTS :: "string list" where
  "ALLOWED_FONTS =
     [''Inter'', ''Roboto'', ''Open Sans'', ''Lato'', ''Montserrat'', ''Poppins'',
      ''Source Sans Pro'', ''Nunito'', ''Raleway'', ''Work Sans'', ''DM Sans'',
      ''Plus Jakarta Sans'', ''Space Grotesk'', ''Outfit'', ''Sora'',
      ''Playfair Display'', ''Merriweather'', ''Lora'', ''Crimson Text'']"

definition ALLOWED_ICONS :: "string list" where
  "ALLOWED_ICONS =
     [''rocket'', ''shield'', ''zap'', ''star'', ''heart'', ''check'', ''lightning'',
      ''chart'', ''users'', ''clock'', ''lock'', ''globe'', ''mail'', ''phone'',
      ''settings'', ''layers'', ''target'', ''trending'', ''award'', ''briefcase'']"

text \<open>The keys of \<open>TONE_PRESETS\<close> (the presets themselves only feed the prompts).\<close>

definition TONE_PRESETS_keys :: "string list" where
  "TONE_PRESETS_keys = [''professional'', ''friendly'', ''bold'', ''minimal'']"

text \<open>
  The field validators of the schema. Each returns the validated value, or the
  message of the \<open>ValueError\<close> it raises.
\<close>

definition validate_keywords :: "string list \<Rightarrow> string + string list" where
  "validate_keywords v =
     (let normalized = map (\<lambda>kw. py_lower (py_strip kw)) (filter (\<lambda>kw. py_strip kw \<noteq> []) v)
      in if length normalized < 3
         then Inl (''At least 3 keywords required, got '' @ str_nat (length normalized))
         else Inr normalized)"

definition validate_tone_exists :: "string \<Rightarrow> string + string" where
  "validate_tone_exists v =
     (if v \<notin> set TONE_PRESETS_keys
      then Inl (''Tone '' @ [CHR 0x27] @ v @ [CHR 0x27] @ '' not in TONE_PRESETS'')
      else Inr v)"

definition validate_font :: "string \<Rightarrow> string + string" where
  "validate_font v =
     (if v \<notin> set ALLOWED_FONTS
      then Inl (''Font '' @ [CHR 0x27] @ v @ [CHR 0x27] @ '' not in ALLOWED_FONTS. ''
                @ ''Valid fonts: '' @ py_repr_str_list (py_sorted ALLOWED_FONTS))
      else Inr v)"

definition validate_tone_rules_not_empty :: "string list \<Rightarrow> string + string list" where
  "validate_tone_rules_not_empty v =
     (let validated = map py_strip (filter (\<lambda>rule. py_strip rule \<noteq> []) v)
      in if length validated < 2
         then Inl ''At least 2 non-empty tone_rules required''
         else Inr validated)"

definition validate_icon :: "string \<Rightarrow> string + string" where
  "validate_icon v =
     (let icon = py_strip (py_lower v)
      in if icon \<notin> set ALLOWED_ICONS
         then Inl (''Icon '' @ [CHR 0x27] @ icon @ [CHR 0x27] @ '' not in ALLOWED_ICONS. ''
                   @ ''Valid icons: '' @ py_repr_str_list (py_sorted ALLOWED_ICONS))
         else Inr icon)"

definition validate_variants_not_empty_strings :: "string list \<Rightarrow> string + string list" where
  "validate_variants_not_empty_strings v =
     (let validated = map py_strip (filter (\<lambda>item. py_strip item \<noteq> []) v)
      in Inr validated)"

definition validate_schema_version :: "string \<Rightarrow> string + string" where
  "validate_schema_version v =
     (let current_parts = split_dot SCHEMA_VERSION;
          input_parts = split_dot v
      in if length input_parts < 2
         then Inl (''Invalid schema_version format: '' @ v)
         else if input_parts ! 0 \<noteq> current_parts ! 0 \<or> input_parts ! 1 \<noteq> current_parts ! 1
         then Inl (''Schema version mismatch: got '' @ v @ '', expected '' @ SCHEMA_VERSION
                   @ ''. '' @ ''Major.minor must match.'')
         else Inr v)"

text \<open>
  Construction of each model from plain data (keyword arguments, a dictionary or a
  parsed JSON document): every field is checked as the class declares it, then its
  validator runs; a missing field takes its default.
\<close>

definition ProjectInfo_validate :: "json \<Rightarrow> verr + ProjectInfo" where
  "ProjectInfo_validate j =
     (case j of
        JObj kv \<Rightarrow>
          ap (ap (ap (ap (ap (ap (ap
            (Inr (\<lambda>a b c d e f g.
               \<lparr>product_name = a, tagline = b, description = c, target_audience = d,
                value_proposition = e, tone = f, keywords = g\<rparr>))
            (required kv ''product_name'' (str_field True 1 (Some 100))))
            (required kv ''tagline'' (str_field True 1 (Some 80))))
            (required kv ''description'' (str_field True 10 (Some 500))))
            (required kv ''target_audience'' (str_field True 1 None)))
            (required kv ''value_proposition'' (str_field True 1 None)))
            (required kv ''tone''
               (\<lambda>j. and_then (literal_field ToneType j) validate_tone_exists)))
            (with_default kv ''keywords'' []
               (\<lambda>j. and_then (list_field 3 (Some 7) (str_field True 0 None) j)
                      validate_keywords))
      | _ \<Rightarrow> Inl [([], ModelType)])"

definition ColorPalette_validate :: "json \<Rightarrow> verr + ColorPalette" where
  "ColorPalette_validate j =
     (case j of
        JObj kv \<Rightarrow>
          ap (ap (ap (ap (ap
            (Inr (\<lambda>a b c d e.
               \<lparr>primary = a, secondary = b, accent = c, background = d, text_color = e\<rparr>))
            (required kv ''primary'' hex_color_field))
            (required kv ''secondary'' hex_color_field))
            (required kv ''accent'' hex_color_field))
            (required kv ''background'' hex_color_field))
            (required kv ''text'' hex_color_field)
      | _ \<Rightarrow> Inl [([], ModelType)])"

definition Typography_validate :: "json \<Rightarrow> verr + Typography" where
  "Typography_validate j =
     (case j of
        JObj kv \<Rightarrow>
          ap (ap (Inr (\<lambda>a b. \<lparr>heading = a, body = b\<rparr>))
            (required kv ''heading'' (\<lambda>j. and_then (str_field False 0 None j) validate_font)))
            (required kv ''body'' (\<lambda>j. and_then (str_field False 0 None j) validate_font))
      | _ \<Rightarrow> Inl [([], ModelType)])"

definition BrandIdentity_validate :: "json \<Rightarrow> verr + BrandIdentity" where
  "BrandIdentity_validate j =
     (case j of
        JObj kv \<Rightarrow>
          ap (ap (ap (Inr (\<lambda>a b c. \<lparr>colors = a, fonts = b, tone_rules = c\<rparr>))
            (required kv ''colors'' ColorPalette_validate))
            (required kv ''fonts'' Typography_validate))
            (required kv ''tone_rules''
               (\<lambda>j. and_then (list_field 2 (Some 5) (str_field False 0 None) j)
                      validate_tone_rules_not_empty))
      | _ \<Rightarrow> Inl [([], ModelType)])"

definition HeroSection_validate :: "json \<Rightarrow> verr + HeroSection" where
  "HeroSection_validate j =
     (case j of
        JObj kv \<Rightarrow>
          ap (ap (ap (Inr (\<lambda>a b c. \<lparr>headline = a, subheadline = b, cta_text = c\<rparr>))
            (required kv ''headline'' (str_field True 5 (Some 100))))
            (required kv ''subheadline'' (str_field True 10 (Some 200))))
            (required kv ''cta_text'' (str_field True 2 (Some 30)))
      | _ \<Rightarrow> Inl [([], ModelType)])"

definition Feature_validate :: "json \<Rightarrow> verr + Feature" where
  "Feature_validate j =
     (case j of
        JObj kv \<Rightarrow>
          ap (ap (ap (Inr (\<lambda>a b c. \<lparr>title = a, feat_description = b, icon = c\<rparr>))
            (required kv ''title'' (str_field True 2 (Some 50))))
            (required kv ''description'' (str_field True 10 (Some 150))))
            (required kv ''icon'' (\<lambda>j. and_then (str_field True 0 None j) validate_icon))
      | _ \<Rightarrow> Inl [([], ModelType)])"

definition Testimonial_validate :: "json \<Rightarrow> verr + Testimonial" where
  "Testimonial_validate j =
     (case j of
        JObj kv \<Rightarrow>
          ap (ap (ap (Inr (\<lambda>a b c. \<lparr>quote = a, author = b, role = c\<rparr>))
            (required kv ''quote'' (str_field True 20 (Some 300))))
            (required kv ''author'' (str_field True 2 (Some 50))))
            (required kv ''role'' (str_field True 2 (Some 80)))
      | _ \<Rightarrow> Inl [([], ModelType)])"

definition ContentVariants_default :: ContentVariants where
  "ContentVariants_default = \<lparr>headlines = [], ctas = []\<rparr>"

definition ContentVariants_validate :: "json \<Rightarrow> verr + ContentVariants" where
  "ContentVariants_validate j =
     (case j of
        JObj kv \<Rightarrow>
          ap (ap (Inr (\<lambda>a b. \<lparr>headlines = a, ctas = b\<rparr>))
            (with_default kv ''headlines'' []
               (\<lambda>j. and_then (list_field 0 (Some 3) (str_field False 0 None) j)
                      validate_variants_not_empty_strings)))
            (with_default kv ''ctas'' []
               (\<lambda>j. and_then (list_field 0 (Some 3) (str_field False 0 None) j)
                      validate_variants_not_empty_strings))
      | _ \<Rightarrow> Inl [([], ModelType)])"

definition SectionsConfig_default :: SectionsConfig where
  "SectionsConfig_default =
     \<lparr>pricing = False, faq = False, logos = False, screenshots = False,
      feature_grid = True, stats = True\<rparr>"

definition SectionsConfig_validate :: "json \<Rightarrow> verr + SectionsConfig" where
  "SectionsConfig_validate j =
     (case j of
        JObj kv \<Rightarrow>
          ap (ap (ap (ap (ap (ap
            (Inr (\<lambda>a b c d e f.
               \<lparr>pricing = a, faq = b, logos = c, screenshots = d, feature_grid = e, stats = f\<rparr>))
            (with_default kv ''pricing'' False bool_field))
            (with_default kv ''faq'' False bool_field))
            (with_default kv ''logos'' False bool_field))
            (with_default kv ''screenshots'' False bool_field))
            (with_default kv ''feature_grid'' True bool_field))
            (with_default kv ''stats'' True bool_field)
      | _ \<Rightarrow> Inl [([], ModelType)])"

definition LandingContent_validate :: "json \<Rightarrow> verr + LandingContent" where
  "LandingContent_validate j =
     (case j of
        JObj kv \<Rightarrow>
          ap (ap (ap (ap (ap (ap (ap (ap
            (Inr (\<lambda>a b c d e f g h.
               \<lparr>hero = a, features = b, testimonial = c, footer_cta = d, variants = e,
                sections = f, faq_items = g, pricing_plans = h\<rparr>))
            (required kv ''hero'' HeroSection_validate))
            (required kv ''features'' (list_field 3 (Some 6) Feature_validate)))
            (required kv ''testimonial'' Testimonial_validate))
            (required kv ''footer_cta'' (str_field False 5 (Some 100))))
            (with_default kv ''variants'' ContentVariants_default ContentVariants_validate))
            (with_default kv ''sections'' SectionsConfig_default SectionsConfig_validate))
            (with_default kv ''faq_items'' []
               (list_field 0 (Some 6) (dict_field (str_field False 0 None)))))
            (with_default kv ''pricing_plans'' []
               (list_field 0 (Some 3) (dict_field any_field)))
      | _ \<Rightarrow> Inl [([], ModelType)])"

definition AssetSlots_default :: AssetSlots where
  "AssetSlots_default =
     \<lparr>hero_image_prompt = None, hero_image_alt = None, og_image_prompt = None,
      logo_url = None, screenshot_prompts = []\<rparr>"

definition AssetSlots_validate :: "json \<Rightarrow> verr + AssetSlots" where
  "AssetSlots_validate j =
     (case j of
        JObj kv \<Rightarrow>
          ap (ap (ap (ap (ap
            (Inr (\<lambda>a b c d e.
               \<lparr>hero_image_prompt = a, hero_image_alt = b, og_image_prompt = c,
                logo_url = d, screenshot_prompts = e\<rparr>))
            (with_default kv ''hero_image_prompt'' None (opt_str_field 500)))
            (with_default kv ''hero_image_alt'' None (opt_str_field 200)))
            (with_default kv ''og_image_prompt'' None (opt_str_field 500)))
            (with_default kv ''logo_url'' None (opt_str_field 500)))
            (with_default kv ''screenshot_prompts'' []
               (list_field 0 (Some 4) (str_field False 0 None)))
      | _ \<Rightarrow> Inl [([], ModelType)])"

definition RenderConfig_default :: RenderConfig where
  "RenderConfig_default = \<lparr>template_type = ''saas'', variant_id = 0\<rparr>"

definition RenderConfig_validate :: "json \<Rightarrow> verr + RenderConfig" where
  "RenderConfig_validate j =
     (case j of
        JObj kv \<Rightarrow>
          ap (ap (Inr (\<lambda>a b. \<lparr>template_type = a, variant_id = b\<rparr>))
            (with_default kv ''template_type'' ''saas'' (literal_field TemplateType)))
            (with_default kv ''variant_id'' 0 (int_field 0 10))
      | _ \<Rightarrow> Inl [([], ModelType)])"

text \<open>
  \<open>GenerationMeta\<close>: the default of \<open>generated_at\<close> is the clock
  (\<open>datetime.utcnow().isoformat()\<close>), a parameter \<open>now\<close> here.
\<close>

definition GenerationMeta_default :: "string \<Rightarrow> GenerationMeta" where
  "GenerationMeta_default now =
     \<lparr>schema_version = SCHEMA_VERSION, generated_at = now, pipeline_steps = []\<rparr>"

definition GenerationMeta_validate :: "string \<Rightarrow> json \<Rightarrow> verr + GenerationMeta" where
  "GenerationMeta_validate now j =
     (case j of
        JObj kv \<Rightarrow>
          ap (ap (ap
            (Inr (\<lambda>a b c. \<lparr>schema_version = a, generated_at = b, pipeline_steps = c\<rparr>))
            (with_default kv ''schema_version'' SCHEMA_VERSION
               (\<lambda>j. and_then (str_field False 0 None j) validate_schema_version)))
            (with_default kv ''generated_at'' now (str_field False 0 None)))
            (with_default kv ''pipeline_steps'' []
               (list_field 0 None (str_field False 0 None)))
      | _ \<Rightarrow> Inl [([], ModelType)])"

text \<open>
  The model validator \<open>validate_variant_id_bounds\<close> of \<open>CanonicalData\<close>: an id beyond
  the variants is let through (\<open>pass\<close>), the renderer falls back.
\<close>

definition validate_variant_id_bounds :: "CanonicalData \<Rightarrow> CanonicalData" where
  "validate_variant_id_bounds self =
     (case content self of
        None \<Rightarrow> self
      | Some c \<Rightarrow>
          if variant_id (render self) > 0
          then (let max_variant = max_variant_id (variants c)
                in if variant_id (render self) > max_variant then self else self)
          else self)"

text \<open>An optional model field: \<open>null\<close> is \<open>None\<close>.\<close>

definition optional_model :: "(json \<Rightarrow> verr + 'a) \<Rightarrow> json \<Rightarrow> verr + 'a option" where
  "optional_model f j = (case j of JNull \<Rightarrow> Inr None | _ \<Rightarrow> map_sum id Some (f j))"

definition CanonicalData_validate :: "string \<Rightarrow> json \<Rightarrow> verr + CanonicalData" where
  "CanonicalData_validate now j =
     (case j of
        JObj kv \<Rightarrow>
          map_sum id validate_variant_id_bounds
            (ap (ap (ap (ap (ap (ap
              (Inr (\<lambda>a b c d e f.
                 \<lparr>meta = a, project = b, brand = c, content = d, assets = e, render = f\<rparr>))
              (with_default kv ''meta'' (GenerationMeta_default now) (GenerationMeta_validate now)))
              (required kv ''project'' ProjectInfo_validate))
              (with_default kv ''brand'' None (optional_model BrandIdentity_validate)))
              (with_default kv ''content'' None (optional_model LandingContent_validate)))
              (with_default kv ''assets'' AssetSlots_default AssetSlots_validate))
              (with_default kv ''render'' RenderConfig_default RenderConfig_validate))
      | _ \<Rightarrow> Inl [([], ModelType)])"

section \<open>Serialization (\<open>to_json\<close> and \<open>from_json\<close>)\<close>

text \<open>
  \<open>model_dump_json\<close> writes every field of every model, \<open>None\<close> as \<open>null\<close>; the JSON
  text itself is not modelled, a document is the tree of its values.
\<close>

definition opt_str_dump :: "string option \<Rightarrow> json" where
  "opt_str_dump s = (case s of None \<Rightarrow> JNull | Some x \<Rightarrow> JStr x)"

definition ProjectInfo_dump :: "ProjectInfo \<Rightarrow> json" where
  "ProjectInfo_dump p =
     JObj [(''product_name'', JStr (product_name p)), (''tagline'', JStr (tagline p)),
           (''description'', JStr (description p)),
           (''target_audience'', JStr (target_audience p)),
           (''value_proposition'', JStr (value_proposition p)), (''tone'', JStr (tone p)),
           (''keywords'', JArr (map JStr (keywords p)))]"

definition ColorPalette_dump :: "ColorPalette \<Rightarrow> json" where
  "ColorPalette_dump c =
     JObj [(''primary'', JStr (primary c)), (''secondary'', JStr (secondary c)),
           (''accent'', JStr (accent c)), (''background'', JStr (background c)),
           (''text'', JStr (text_color c))]"

definition Typography_dump :: "Typography \<Rightarrow> json" where
  "Typography_dump t = JObj [(''heading'', JStr (heading t)), (''body'', JStr (body t))]"

definition BrandIdentity_dump :: "BrandIdentity \<Rightarrow> json" where
  "BrandIdentity_dump b =
     JObj [(''colors'', ColorPalette_dump (colors b)), (''fonts'', Typography_dump (fonts b)),
           (''tone_rules'', JArr (map JStr (tone_rules b)))]"

definition HeroSection_dump :: "HeroSection \<Rightarrow> json" where
  "HeroSection_dump h =
     JObj [(''headline'', JStr (headline h)), (''subheadline'', JStr (subheadline h)),
           (''cta_text'', JStr (cta_text h))]"

definition Feature_dump :: "Feature \<Rightarrow> json" where
  "Feature_dump f =
     JObj [(''title'', JStr (title f)), (''description'', JStr (feat_description f)),
           (''icon'', JStr (icon f))]"

definition Testimonial_dump :: "Testimonial \<Rightarrow> json" where
  "Testimonial_dump t =
     JObj [(''quote'', JStr (quote t)), (''author'', JStr (author t)), (''role'', JStr (role t))]"

definition ContentVariants_dump :: "ContentVariants \<Rightarrow> json" where
  "ContentVariants_dump v =
     JObj [(''headlines'', JArr (map JStr (headlines v))), (''ctas'', JArr (map JStr (ctas v)))]"

definition SectionsConfig_dump :: "SectionsConfig \<Rightarrow> json" where
  "SectionsConfig_dump s =
     JObj [(''pricing'', JBool (pricing s)), (''faq'', JBool (faq s)), (''logos'', JBool (logos s)),
           (''screenshots'', JBool (screenshots s)),
           (''feature_grid'', JBool (feature_grid s)), (''stats'', JBool (stats s))]"

definition LandingContent_dump :: "LandingContent \<Rightarrow> json" where
  "LandingContent_dump c =
     JObj [(''hero'', HeroSection_dump (hero c)),
           (''features'', JArr (map Feature_dump (features c))),
           (''testimonial'', Testimonial_dump (testimonial c)),
           (''footer_cta'', JStr (footer_cta c)),
           (''variants'', ContentVariants_dump (variants c)),
           (''sections'', SectionsConfig_dump (sections c)),
           (''faq_items'', JArr (map (\<lambda>kv. JObj (map (\<lambda>(k, v). (k, JStr v)) kv)) (faq_items c))),
           (''pricing_plans'', JArr (map JObj (pricing_plans c)))]"

definition AssetSlots_dump :: "AssetSlots \<Rightarrow> json" where
  "AssetSlots_dump a =
     JObj [(''hero_image_prompt'', opt_str_dump (hero_image_prompt a)),
           (''hero_image_alt'', opt_str_dump (hero_image_alt a)),
           (''og_image_prompt'', opt_str_dump (og_image_prompt a)),
           (''logo_url'', opt_str_dump (logo_url a)),
           (''screenshot_prompts'', JArr (map JStr (screenshot_prompts a)))]"

definition RenderConfig_dump :: "RenderConfig \<Rightarrow> json" where
  "RenderConfig_dump r =
     JObj [(''template_type'', JStr (template_type r)), (''variant_id'', JInt (variant_id r))]"

definition GenerationMeta_dump :: "GenerationMeta \<Rightarrow> json" where
  "GenerationMeta_dump m =
     JObj [(''schema_version'', JStr (schema_version m)),
           (''generated_at'', JStr (generated_at m)),
           (''pipeline_steps'', JArr (map JStr (pipeline_steps m)))]"

definition to_json :: "CanonicalData \<Rightarrow> json" where
  "to_json d =
     JObj [(''meta'', GenerationMeta_dump (meta d)),
           (''project'', ProjectInfo_dump (project d)),
           (''brand'', (case brand d of None \<Rightarrow> JNull | Some b \<Rightarrow> BrandIdentity_dump b)),
           (''content'', (case content d of None \<Rightarrow> JNull | Some c \<Rightarrow> LandingContent_dump c)),
           (''assets'', AssetSlots_dump (assets d)),
           (''render'', RenderConfig_dump (render d))]"

text \<open>\<open>CanonicalData.from_json\<close>, on the parsed document.\<close>

definition from_json :: "string \<Rightarrow> json \<Rightarrow> verr + CanonicalData" where
  "from_json now j = CanonicalData_validate now j"

text \<open>
  The fixture \<open>minimal_canonical_json\<close> of tests/conftest.py, with the schema version
  it writes into \<open>meta\<close> as a parameter.
\<close>

definition minimal_canonical_json :: "string \<Rightarrow> json" where
  "minimal_canonical_json version =
     JObj [(''meta'', JObj [(''schema_version'', JStr version)]),
           (''project'',
            JObj [(''product_name'', JStr ''MinimalTest''),
                  (''tagline'', JStr ''A minimal test''),
                  (''description'', JStr ''This is a minimal test product for validation.''),
                  (''target_audience'', JStr ''Testers''),
                  (''value_proposition'', JStr ''Test validation''),
                  (''tone'', JStr ''professional''),
                  (''keywords'', JArr [JStr ''test'', JStr ''minimal'', JStr ''validation''])])]"

text \<open>
  The same document without the \<open>keywords\<close> key of \<open>project\<close>: the field then takes its
  default, \<open>default_factory=list\<close>.
\<close>

definition canonical_json_without_keywords :: json where
  "canonical_json_without_keywords =
     JObj [(''meta'', JObj [(''schema_version'', JStr ''1.2.1'')]),
           (''project'',
            JObj [(''product_name'', JStr ''MinimalTest''),
                  (''tagline'', JStr ''A minimal test''),
                  (''description'', JStr ''This is a minimal test product for validation.''),
                  (''target_audience'', JStr ''Testers''),
                  (''value_proposition'', JStr ''Test validation''),
                  (''tone'', JStr ''professional'')])]"

text \<open>The document \<open>from_json\<close> builds from it (at the time \<open>2026-01-01T00:00:00\<close>).\<close>

definition document_without_keywords :: CanonicalData where
  "document_without_keywords =
     \<lparr>meta = \<lparr>schema_version = ''1.2.1'', generated_at = ''2026-01-01T00:00:00'',
              pipeline_steps = []\<rparr>,
      project = \<lparr>product_name = ''MinimalTest'', tagline = ''A minimal test'',
                 description = ''This is a minimal test product for validation.'',
                 target_audience = ''Testers'', value_proposition = ''Test validation'',
                 tone = ''professional'', keywords = []\<rparr>,
      brand = None, content = None,
      assets = \<lparr>hero_image_prompt = None, hero_image_alt = None, og_image_prompt = None,
                logo_url = None, screenshot_prompts = []\<rparr>,
      render = \<lparr>template_type = ''saas'', variant_id = 0\<rparr>\<rparr>"

section \<open>Attribute assignment\<close>

text \<open>
  The value of an assignment to a model field is an instance of the field's class, or
  plain data (a dictionary, \<open>None\<close>). Only \<open>CanonicalData\<close> is configured with
  \<open>validate_assignment=True\<close>: an assignment to one of its fields validates the value as
  the construction of the field does (an instance of the field's class passes as it
  is), runs the model validator, and on a validation error raises and leaves the
  document as it was. The result is the document after the assignment and the error
  raised, if any.
\<close>

datatype 'a assigned = Instance 'a | Plain json

definition assigned_value :: "(json \<Rightarrow> verr + 'a) \<Rightarrow> 'a assigned \<Rightarrow> verr + 'a" where
  "assigned_value f a = (case a of Instance x \<Rightarrow> Inr x | Plain j \<Rightarrow> f j)"

definition CanonicalData_setattr ::
  "string \<Rightarrow> verr + 'v \<Rightarrow> ('v \<Rightarrow> CanonicalData) \<Rightarrow> CanonicalData
     \<Rightarrow> CanonicalData \<times> verr option" where
  "CanonicalData_setattr name checked store self =
     (case at_loc name checked of
        Inl e \<Rightarrow> (self, Some e)
      | Inr v \<Rightarrow> (validate_variant_id_bounds (store v), None))"

definition CanonicalData_setattr_meta ::
  "string \<Rightarrow> CanonicalData \<Rightarrow> GenerationMeta assigned \<Rightarrow> CanonicalData \<times> verr option" where
  "CanonicalData_setattr_meta now self a =
     CanonicalData_setattr ''meta'' (assigned_value (GenerationMeta_validate now) a)
       (\<lambda>v. self\<lparr>meta := v\<rparr>) self"

definition CanonicalData_setattr_project ::
  "CanonicalData \<Rightarrow> ProjectInfo assigned \<Rightarrow> CanonicalData \<times> verr option" where
  "CanonicalData_setattr_project self a =
     CanonicalData_setattr ''project'' (assigned_value ProjectInfo_validate a)
       (\<lambda>v. self\<lparr>project := v\<rparr>) self"

definition CanonicalData_setattr_brand ::
  "CanonicalData \<Rightarrow> BrandIdentity option assigned \<Rightarrow> CanonicalData \<times> verr option" where
  "CanonicalData_setattr_brand self a =
     CanonicalData_setattr ''brand'' (assigned_value (optional_model BrandIdentity_validate) a)
       (\<lambda>v. self\<lparr>brand := v\<rparr>) self"

definition CanonicalData_setattr_content ::
  "CanonicalData \<Rightarrow> LandingContent option assigned \<Rightarrow> CanonicalData \<times> verr option" where
  "CanonicalData_setattr_content self a =
     CanonicalData_setattr ''content'' (assigned_value (optional_model LandingContent_validate) a)
       (\<lambda>v. self\<lparr>content := v\<rparr>) self"

definition CanonicalData_setattr_assets ::
  "CanonicalData \<Rightarrow> AssetSlots assigned \<Rightarrow> CanonicalData \<times> verr option" where
  "CanonicalData_setattr_assets self a =
     CanonicalData_setattr ''assets'' (assigned_value AssetSlots_validate a)
       (\<lambda>v. self\<lparr>assets := v\<rparr>) self"

definition CanonicalData_setattr_render ::
  "CanonicalData \<Rightarrow> RenderConfig assigned \<Rightarrow> CanonicalData \<times> verr option" where
  "CanonicalData_setattr_render self a =
     CanonicalData_setattr ''render'' (assigned_value RenderConfig_validate a)
       (\<lambda>v. self\<lparr>render := v\<rparr>) self"

text \<open>
  \<open>RenderConfig\<close> has no \<open>model_config\<close> and \<open>HeroSection\<close> sets only
  \<open>str_strip_whitespace\<close>: an assignment to their fields stores the value as it is (it
  is neither checked nor stripped) and raises nothing.
\<close>

definition RenderConfig_setattr_variant_id ::
  "RenderConfig \<Rightarrow> int \<Rightarrow> RenderConfig \<times> verr option" where
  "RenderConfig_setattr_variant_id self v = (self\<lparr>variant_id := v\<rparr>, None)"

definition HeroSection_setattr_headline ::
  "HeroSection \<Rightarrow> string \<Rightarrow> HeroSection \<times> verr option" where
  "HeroSection_setattr_headline self v = (self\<lparr>headline := v\<rparr>, None)"

text \<open>\<open>CanonicalData.add_step\<close> appends to the list \<open>meta.pipeline_steps\<close> in place.\<close>

definition add_step :: "CanonicalData \<Rightarrow> string \<Rightarrow> CanonicalData" where
  "add_step self step_name =
     self\<lparr>meta := (meta self)\<lparr>pipeline_steps := pipeline_steps (meta self) @ [step_name]\<rparr>\<rparr>"

section \<open>Pipeline (orchestrator.py, agents/landing.py)\<close>

record UserInput =
  ui_product_name :: string
  ui_target_audience :: string
  ui_value_proposition :: string
  ui_tone :: string
  ui_additional_context :: string
  ui_template_type :: string

text \<open>\<open>PipelineError._format_message\<close>, the \<open>str\<close> of a pipeline error.\<close>

definition PipelineError_str :: "PipelineError \<Rightarrow> string" where
  "PipelineError_str e =
     ''['' @ ErrorCode_value (code e) @ '']''
     @ (case step e of
          None \<Rightarrow> []
        | Some s \<Rightarrow> if s \<noteq> [] then '' ['' @ s @ '']'' else [])
     @ '' '' @ message e"

text \<open>
  The exceptions a stage can raise: a failure of the language model client (the
  request, or a response that is not JSON) with its message, a pydantic validation
  error, a pipeline error.
\<close>

datatype exn = LLMError string | ValidationFailure verr | PipelineFailure PipelineError

text \<open>
  The collaborators of a \<open>LandingPipeline\<close>. The onboarding and brand agents only
  prompt the language model and validate its answer: each is the function from its
  input to its result or to the exception it raises. Of the landing agent the call
  of the language model in \<open>_generate_content\<close> is such a function; the rest of the
  agent is modelled below. \<open>str_validation_error\<close> is the \<open>str\<close> of a pydantic validation
  error.
\<close>

record LandingPipeline =
  onboarding_agent :: "UserInput \<Rightarrow> exn + ProjectInfo"
  brand_agent :: "ProjectInfo \<Rightarrow> exn + BrandIdentity"
  landing_llm :: "CanonicalData \<Rightarrow> exn + LandingContent"
  str_validation_error :: "verr \<Rightarrow> string"

definition exn_str :: "LandingPipeline \<Rightarrow> exn \<Rightarrow> string" where
  "exn_str self e =
     (case e of
        LLMError m \<Rightarrow> m
      | ValidationFailure v \<Rightarrow> str_validation_error self v
      | PipelineFailure p \<Rightarrow> PipelineError_str p)"

text \<open>\<open>LandingAgent._get_default_sections\<close>.\<close>

definition get_default_sections :: "string \<Rightarrow> SectionsConfig" where
  "get_default_sections ttype =
     dict_get
       [(''saas'', \<lparr>pricing = False, faq = True, logos = True, screenshots = False,
                    feature_grid = True, stats = False\<rparr>),
        (''app'', \<lparr>pricing = False, faq = False, logos = False, screenshots = True,
                   feature_grid = True, stats = True\<rparr>),
        (''agency'', \<lparr>pricing = False, faq = False, logos = False, screenshots = False,
                      feature_grid = True, stats = False\<rparr>)]
       ttype SectionsConfig_default"

text \<open>
  \<open>LandingAgent._generate_content\<close>: the answer of the language model, with the
  default sections of the template assigned (\<open>LandingContent\<close> does not validate
  assignments).
\<close>

definition generate_content :: "LandingPipeline \<Rightarrow> CanonicalData \<Rightarrow> exn + LandingContent" where
  "generate_content self data =
     (case landing_llm self data of
        Inl e \<Rightarrow> Inl e
      | Inr c \<Rightarrow> Inr (c\<lparr>sections := get_default_sections (template_type (render data))\<rparr>))"

text \<open>\<open>LandingAgent._generate_asset_prompts\<close>: the construction of \<open>AssetSlots\<close>.\<close>

definition generate_asset_prompts :: "CanonicalData \<Rightarrow> verr + AssetSlots" where
  "generate_asset_prompts data =
     (let product = product_name (project data);
          visual_style =
            dict_get
              [(''professional'', ''clean, corporate, trustworthy, blue tones''),
               (''friendly'', ''warm, colorful, welcoming, soft gradients''),
               (''bold'', ''high contrast, dynamic, striking, vibrant colors''),
               (''minimal'', ''simple, elegant, lots of whitespace, monochrome accents'')]
              (tone (project data)) ''modern and clean''
      in AssetSlots_validate
           (JObj [(''hero_image_prompt'',
                   JStr (''Modern '' @ product @ '' dashboard interface, '' @ visual_style
                         @ '', UI mockup, 16:9 aspect ratio'')),
                  (''hero_image_alt'', JStr (product @ '' application interface preview'')),
                  (''og_image_prompt'',
                   JStr (product @ '' logo on gradient background, '' @ visual_style
                         @ '', social media card, 1200x630'')),
                  (''screenshot_prompts'',
                   JArr [JStr (product @ '' main dashboard view, '' @ visual_style),
                         JStr (product @ '' feature highlight, '' @ visual_style)])]))"

text \<open>
  \<open>LandingAgent.run\<close>: it assigns \<open>assets\<close> and \<open>content\<close> on the document it is given
  and renders it. The result is the document as the agent leaves it, and the content
  and page it returns or the exception it raises.
\<close>

definition LandingAgent_run ::
  "LandingPipeline \<Rightarrow> TemplateRenderer \<Rightarrow> CanonicalData
     \<Rightarrow> CanonicalData \<times> (exn + LandingContent \<times> view_context)" where
  "LandingAgent_run self renderer data =
     (case generate_content self data of
        Inl e \<Rightarrow> (data, Inl e)
      | Inr c \<Rightarrow>
          (case generate_asset_prompts data of
             Inl v \<Rightarrow> (data, Inl (ValidationFailure v))
           | Inr a \<Rightarrow>
               (case CanonicalData_setattr_assets data (Instance a) of
                  (data1, Some v) \<Rightarrow> (data1, Inl (ValidationFailure v))
                | (data1, None) \<Rightarrow>
                    (case CanonicalData_setattr_content data1 (Instance (Some c)) of
                       (data2, Some v) \<Rightarrow> (data2, Inl (ValidationFailure v))
                     | (data2, None) \<Rightarrow>
                         (case render_landing renderer data2 None None of
                            Inl e \<Rightarrow> (data2, Inl (PipelineFailure e))
                          | Inr page \<Rightarrow> (data2, Inr (c, page)))))))"

text \<open>
  \<open>PipelineResult\<close>. The page \<open>html\<close> is \<open>None\<close> where the source has the empty string.
\<close>

record PipelineResult =
  canonical_data :: "CanonicalData option"
  html :: "view_context option"
  success :: bool
  errors :: "string list"

text \<open>\<open>CanonicalData(project=project_info, render=render_config)\<close>, on two instances.\<close>

definition CanonicalData_init :: "string \<Rightarrow> ProjectInfo \<Rightarrow> RenderConfig \<Rightarrow> CanonicalData" where
  "CanonicalData_init now p r =
     validate_variant_id_bounds
       \<lparr>meta = GenerationMeta_default now, project = p, brand = None, content = None,
        assets = AssetSlots_default, render = r\<rparr>"

text \<open>
  Stage 2 of \<open>LandingPipeline.run\<close>: the \<open>try\<close> block around the brand agent and its
  \<open>except\<close> block, which records the failure, assigns \<open>DefaultBrand.IDENTITY\<close> and logs
  the step \<open>brand:fallback\<close>. The result is the document and the list of errors after
  the stage, or an exception raised in the \<open>except\<close> block.
\<close>

definition brand_fallback ::
  "LandingPipeline \<Rightarrow> exn \<Rightarrow> CanonicalData \<Rightarrow> exn + CanonicalData \<times> string list" where
  "brand_fallback self e canonical =
     (let errs = [''BrandAgent failed (using defaults): '' @ exn_str self e]
      in case CanonicalData_setattr_brand canonical (Instance (Some DefaultBrand_IDENTITY)) of
           (c, Some v) \<Rightarrow> Inl (ValidationFailure v)
         | (c, None) \<Rightarrow> Inr (add_step c ''brand:fallback'', errs))"

definition brand_stage ::
  "LandingPipeline \<Rightarrow> ProjectInfo \<Rightarrow> CanonicalData \<Rightarrow> exn + CanonicalData \<times> string list" where
  "brand_stage self project_info canonical =
     (case brand_agent self project_info of
        Inl e \<Rightarrow> brand_fallback self e canonical
      | Inr brand_identity \<Rightarrow>
          (case CanonicalData_setattr_brand canonical (Instance (Some brand_identity)) of
             (c, Some v) \<Rightarrow> brand_fallback self (ValidationFailure v) c
           | (c, None) \<Rightarrow> Inr (add_step c ''brand'', [])))"

text \<open>
  \<open>LandingPipeline.run\<close>, without an output directory. The construction of
  \<open>RenderConfig\<close> stands outside every \<open>try\<close> block: its validation error leaves \<open>run\<close>.
\<close>

definition run ::
  "LandingPipeline \<Rightarrow> TemplateRenderer \<Rightarrow> string \<Rightarrow> UserInput \<Rightarrow> exn + PipelineResult" where
  "run self renderer now user_input =
     (case onboarding_agent self user_input of
        Inl e \<Rightarrow>
          Inr \<lparr>canonical_data = None, html = None, success = False,
               errors = [''OnboardingAgent failed: '' @ exn_str self e]\<rparr>
      | Inr project_info \<Rightarrow>
          (case RenderConfig_validate
                  (JObj [(''template_type'', JStr (ui_template_type user_input))]) of
             Inl v \<Rightarrow> Inl (ValidationFailure v)
           | Inr render_config \<Rightarrow>
               (case brand_stage self project_info
                       (add_step (CanonicalData_init now project_info render_config)
                          ''onboarding'') of
                  Inl e \<Rightarrow> Inl e
                | Inr (canonical, errs) \<Rightarrow>
                    (case LandingAgent_run self renderer canonical of
                       (canonical', Inl e) \<Rightarrow>
                         Inr \<lparr>canonical_data = Some canonical', html = None, success = False,
                              errors = errs @ [''LandingAgent failed: '' @ exn_str self e]\<rparr>
                     | (canonical', Inr (c, page)) \<Rightarrow>
                         (case CanonicalData_setattr_content canonical' (Instance (Some c)) of
                            (canonical'', Some v) \<Rightarrow>
                              Inr \<lparr>canonical_data = Some canonical'', html = None,
                                   success = False,
                                   errors = errs @ [''LandingAgent failed: ''
                                              @ exn_str self (ValidationFailure v)]\<rparr>
                          | (canonical'', None) \<Rightarrow>
                              Inr \<lparr>canonical_data = Some (add_step canonical'' ''landing''),
                                   html = Some page, success = (length errs = 0),
                                   errors = errs\<rparr>)))))"

text \<open>
  An example run: the user input of tests/test_schemas.py, an onboarding agent that
  answers with the fixture project, a brand agent whose request fails, and a language
  model that answers the landing agent with the fixture content.
\<close>

definition example_user_input :: UserInput where
  "example_user_input =
     \<lparr>ui_product_name = ''MyProduct'', ui_target_audience = ''Developers'',
      ui_value_proposition = ''Save time'', ui_tone = ''professional'',
      ui_additional_context = [], ui_template_type = ''saas''\<rparr>"

definition example_pipeline :: LandingPipeline where
  "example_pipeline =
     \<lparr>onboarding_agent = (\<lambda>u. Inr valid_project_info),
      brand_agent = (\<lambda>p. Inl (LLMError ''timeout'')),
      landing_llm = (\<lambda>d. Inr valid_landing_content),
      str_validation_error = (\<lambda>v. ''validation error'')\<rparr>"

section \<open>Valid documents\<close>

text \<open>
  The constraints the schema declares, as predicates on the entities: a document is
  valid when every field satisfies the bounds of its declaration and has the form its
  validator gives it (stripped, lowercased, without empty items). These are the
  declared constraints, not the set of documents the loader returns: a project loaded
  without \<open>keywords\<close> has the empty default and is outside them.
\<close>

definition stripped :: "string \<Rightarrow> bool" where
  "stripped s = (s = [] \<or> (\<not> core_isspace (hd s) \<and> \<not> core_isspace (last s)))"

definition py_stripped :: "string \<Rightarrow> bool" where
  "py_stripped s = (s = [] \<or> (\<not> py_isspace (hd s) \<and> \<not> py_isspace (last s)))"

definition str_ok :: "nat \<Rightarrow> nat \<Rightarrow> string \<Rightarrow> bool" where
  "str_ok lo hi s = (stripped s \<and> lo \<le> length s \<and> length s \<le> hi)"

definition opt_str_ok :: "nat \<Rightarrow> string option \<Rightarrow> bool" where
  "opt_str_ok hi s = (case s of None \<Rightarrow> True | Some x \<Rightarrow> length x \<le> hi)"

definition keyword_ok :: "string \<Rightarrow> bool" where
  "keyword_ok kw = (kw \<noteq> [] \<and> py_stripped kw \<and> py_lower kw = kw)"

definition item_ok :: "string \<Rightarrow> bool" where
  "item_ok s = (s \<noteq> [] \<and> py_stripped s)"

definition ProjectInfo_valid :: "ProjectInfo \<Rightarrow> bool" where
  "ProjectInfo_valid p =
     (str_ok 1 100 (product_name p) \<and> str_ok 1 80 (tagline p)
      \<and> str_ok 10 500 (description p)
      \<and> stripped (target_audience p) \<and> 1 \<le> length (target_audience p)
      \<and> stripped (value_proposition p) \<and> 1 \<le> length (value_proposition p)
      \<and> tone p \<in> set ToneType
      \<and> 3 \<le> length (keywords p) \<and> length (keywords p) \<le> 7
      \<and> list_all keyword_ok (keywords p))"

definition ColorPalette_valid :: "ColorPalette \<Rightarrow> bool" where
  "ColorPalette_valid c =
     (matches_hex_color (primary c) \<and> matches_hex_color (secondary c)
      \<and> matches_hex_color (accent c) \<and> matches_hex_color (background c)
      \<and> matches_hex_color (text_color c))"

definition Typography_valid :: "Typography \<Rightarrow> bool" where
  "Typography_valid t = (heading t \<in> set ALLOWED_FONTS \<and> body t \<in> set ALLOWED_FONTS)"

definition BrandIdentity_valid :: "BrandIdentity \<Rightarrow> bool" where
  "BrandIdentity_valid b =
     (ColorPalette_valid (colors b) \<and> Typography_valid (fonts b)
      \<and> 2 \<le> length (tone_rules b) \<and> length (tone_rules b) \<le> 5
      \<and> list_all item_ok (tone_rules b))"

definition HeroSection_valid :: "HeroSection \<Rightarrow> bool" where
  "HeroSection_valid h =
     (str_ok 5 100 (headline h) \<and> str_ok 10 200 (subheadline h) \<and> str_ok 2 30 (cta_text h))"

definition Feature_valid :: "Feature \<Rightarrow> bool" where
  "Feature_valid f =
     (str_ok 2 50 (title f) \<and> str_ok 10 150 (feat_description f)
      \<and> icon f \<in> set ALLOWED_ICONS)"

definition Testimonial_valid :: "Testimonial \<Rightarrow> bool" where
  "Testimonial_valid t =
     (str_ok 20 300 (quote t) \<and> str_ok 2 50 (author t) \<and> str_ok 2 80 (role t))"

definition ContentVariants_valid :: "ContentVariants \<Rightarrow> bool" where
  "ContentVariants_valid v =
     (length (headlines v) \<le> 3 \<and> list_all item_ok (headlines v)
      \<and> length (ctas v) \<le> 3 \<and> list_all item_ok (ctas v))"

definition LandingContent_valid :: "LandingContent \<Rightarrow> bool" where
  "LandingContent_valid c =
     (HeroSection_valid (hero c)
      \<and> 3 \<le> length (features c) \<and> length (features c) \<le> 6
      \<and> list_all Feature_valid (features c)
      \<and> Testimonial_valid (testimonial c)
      \<and> 5 \<le> length (footer_cta c) \<and> length (footer_cta c) \<le> 100
      \<and> ContentVariants_valid (variants c)
      \<and> length (faq_items c) \<le> 6 \<and> length (pricing_plans c) \<le> 3)"

definition AssetSlots_valid :: "AssetSlots \<Rightarrow> bool" where
  "AssetSlots_valid a =
     (opt_str_ok 500 (hero_image_prompt a) \<and> opt_str_ok 200 (hero_image_alt a)
      \<and> opt_str_ok 500 (og_image_prompt a) \<and> opt_str_ok 500 (logo_url a)
      \<and> length (screenshot_prompts a) \<le> 4)"

definition RenderConfig_valid :: "RenderConfig \<Rightarrow> bool" where
  "RenderConfig_valid r =
     (template_type r \<in> set TemplateType \<and> 0 \<le> variant_id r \<and> variant_id r \<le> 10)"

definition GenerationMeta_valid :: "GenerationMeta \<Rightarrow> bool" where
  "GenerationMeta_valid m =
     (2 \<le> length (split_dot (schema_version m))
      \<and> split_dot (schema_version m) ! 0 = split_dot SCHEMA_VERSION ! 0
      \<and> split_dot (schema_version m) ! 1 = split_dot SCHEMA_VERSION ! 1)"

definition CanonicalData_valid :: "CanonicalData \<Rightarrow> bool" where
  "CanonicalData_valid d =
     (GenerationMeta_valid (meta d) \<and> ProjectInfo_valid (project d)
      \<and> (case brand d of None \<Rightarrow> True | Some b \<Rightarrow> BrandIdentity_valid b)
      \<and> (case content d of None \<Rightarrow> True | Some c \<Rightarrow> LandingContent_valid c)
      \<and> AssetSlots_valid (assets d) \<and> RenderConfig_valid (render d))"

section \<open>Properties of the renderer\<close>

subsection \<open>Auxiliary facts\<close>

lemma template_file_cases:
  "dict_get TEMPLATE_FILES t ''saas.html.j2'' \<in> set (map snd TEMPLATE_FILES)"
  by (simp add: dict_get_def TEMPLATE_FILES_def)

lemma template_file_installed:
  "templates_installed self \<Longrightarrow> dict_get TEMPLATE_FILES t ''saas.html.j2'' \<in> templates_dir self"
  using template_file_cases [of t] unfolding templates_installed_def by blast

lemma render_landing_installed:
  assumes "templates_installed self" and "content d = Some c"
  shows "\<exists>ctx. render_landing self d t vo = Inr ctx
     \<and> ctx_headline ctx = resolve_variant (headline (hero c)) (headlines (variants c))
          (clamp_variant_id (case vo of None \<Rightarrow> variant_id (render d) | Some v \<Rightarrow> v) (variants c))
     \<and> ctx_cta_text ctx = resolve_variant (cta_text (hero c)) (ctas (variants c))
          (clamp_variant_id (case vo of None \<Rightarrow> variant_id (render d) | Some v \<Rightarrow> v) (variants c))"
  using assms template_file_installed [OF assms(1)]
  by (simp add: render_landing_def Let_def)

lemma render_landing_page:
  assumes "content d = Some c" and "render_landing self d t vo = Inr ctx"
  shows "ctx_headline ctx = resolve_variant (headline (hero c)) (headlines (variants c))
          (clamp_variant_id (case vo of None \<Rightarrow> variant_id (render d) | Some v \<Rightarrow> v) (variants c))
     \<and> ctx_cta_text ctx = resolve_variant (cta_text (hero c)) (ctas (variants c))
          (clamp_variant_id (case vo of None \<Rightarrow> variant_id (render d) | Some v \<Rightarrow> v) (variants c))"
  using assms by (auto simp add: render_landing_def Let_def split: if_splits)

lemma render_landing_returns:
  assumes "templates_installed self" and "content d = Some c"
  shows "\<exists>ctx. render_landing self d t vo = Inr ctx"
  using render_landing_installed [OF assms] by blast

lemma resolve_headline_clamped:
  "resolve_variant dflt (headlines vs) (clamp_variant_id v vs) =
     (if 1 \<le> v \<and> v \<le> int (length (headlines vs)) then headlines vs ! nat (v - 1) else dflt)"
  by (auto simp add: resolve_variant_def clamp_variant_id_def max_variant_id_def Let_def)

lemma installed_renderer_installed: "templates_installed installed_renderer"
  by (simp add: templates_installed_def installed_renderer_def TEMPLATE_FILES_def)

lemma example_document_content:
  "content example_document =
     Some (valid_landing_content
        \<lparr>variants := \<lparr>headlines = [''Alt One'', ''Alt Two''],
                       ctas = [''Try It Free'', ''Start Now'']\<rparr>\<rparr>)"
  by (simp add: example_document_def)

subsection \<open>Variant resolution\<close>

text \<open>
  Claim C1. For a document whose content is present and a requested variant id \<open>v\<close>
  (the override, or \<open>render.variant_id\<close> without one), the headline of every page
  \<open>render_landing\<close> returns is resolved as follows: \<open>v = 0\<close> gives \<open>content.hero.headline\<close>;
  \<open>v\<close> between 1 and the number of alternate headlines gives
  \<open>content.variants.headlines[v-1]\<close>; every other \<open>v\<close>, in particular every \<open>v\<close> above
  the number of alternate headlines, gives \<open>content.hero.headline\<close>. Whatever the
  variant id, the page is returned and no error is raised when the loader of the
  renderer finds the template files.
\<close>

theorem headline_resolution:
  assumes "content d = Some c"
    and "v = (case vo of None \<Rightarrow> variant_id (render d) | Some x \<Rightarrow> x)"
  shows "(\<forall>ctx. render_landing self d t vo = Inr ctx \<longrightarrow>
            ctx_headline ctx =
              (if v = 0 then headline (hero c)
               else if 1 \<le> v \<and> v \<le> int (length (headlines (variants c)))
                    then headlines (variants c) ! nat (v - 1)
               else headline (hero c)))
     \<and> (templates_installed self \<longrightarrow> (\<exists>ctx. render_landing self d t vo = Inr ctx))"
  using render_landing_page [OF assms(1), of self t vo] render_landing_returns [OF _ assms(1)]
    assms(2)
  by (auto simp add: resolve_headline_clamped)

text \<open>
  The end-to-end example: with the headline \<open>Welcome to TestProduct\<close> and the
  alternates \<open>Alt One\<close> and \<open>Alt Two\<close>, variant 1 gives \<open>Alt One\<close>, variant 2 gives
  \<open>Alt Two\<close> and variant 99 gives \<open>Welcome to TestProduct\<close>.
\<close>

theorem headline_resolution_witness:
  "(\<exists>ctx. render_landing installed_renderer example_document None (Some 1) = Inr ctx
       \<and> ctx_headline ctx = ''Alt One'')
   \<and> (\<exists>ctx. render_landing installed_renderer example_document None (Some 2) = Inr ctx
       \<and> ctx_headline ctx = ''Alt Two'')
   \<and> (\<exists>ctx. render_landing installed_renderer example_document None (Some 99) = Inr ctx
       \<and> ctx_headline ctx = ''Welcome to TestProduct'')"
proof -
  note h = headline_resolution [OF example_document_content refl, of installed_renderer None]
  have 1: "\<exists>ctx. render_landing installed_renderer example_document None (Some 1) = Inr ctx
       \<and> ctx_headline ctx = ''Alt One''"
    using h [of "Some 1"] installed_renderer_installed
    by (auto simp add: valid_landing_content_def)
  have 2: "\<exists>ctx. render_landing installed_renderer example_document None (Some 2) = Inr ctx
       \<and> ctx_headline ctx = ''Alt Two''"
    using h [of "Some 2"] installed_renderer_installed
    by (auto simp add: valid_landing_content_def)
  have 3: "\<exists>ctx. render_landing installed_renderer example_document None (Some 99) = Inr ctx
       \<and> ctx_headline ctx = ''Welcome to TestProduct''"
    using h [of "Some 99"] installed_renderer_installed
    by (auto simp add: valid_landing_content_def)
  from 1 2 3 show ?thesis by blast
qed

text \<open>
  The clamp and the resolution on non-negative ids. For a document with content
  present and a requested variant id \<open>v \<ge> 0\<close>, let \<open>e\<close> be the effective id the clamp
  step reports. Then \<open>e\<close> is 0 or an in-range id, and for every page \<open>render_landing\<close>
  returns: if \<open>e = 0\<close> the resolved headline is the default headline; if \<open>e > 0\<close> then
  \<open>e\<close> is the requested id, it is at most \<open>max_variant_id\<close>, and the resolved headline
  is \<open>variants.headlines[e-1]\<close>. Moreover \<open>e = 0\<close> exactly when \<open>v\<close> is 0 or exceeds
  \<open>max_variant_id\<close>, and \<open>CanonicalData.get_effective_variant_id\<close> computes the
  renderer's clamp of \<open>render.variant_id\<close>.
\<close>

lemma clamp_resolution_nonneg:
  assumes "content d = Some c"
    and "v = (case vo of None \<Rightarrow> variant_id (render d) | Some x \<Rightarrow> x)"
    and "e = clamp_variant_id v (variants c)"
    and "0 \<le> v"
  shows "(\<forall>ctx. render_landing self d t vo = Inr ctx \<longrightarrow>
            (e = 0 \<longrightarrow> ctx_headline ctx = headline (hero c))
            \<and> (0 < e \<longrightarrow> e = v \<and> e \<le> max_variant_id (variants c)
                        \<and> ctx_headline ctx = headlines (variants c) ! nat (e - 1)))
     \<and> (e = 0 \<or> (0 < e \<and> e \<le> max_variant_id (variants c)))
     \<and> (e = 0 \<longleftrightarrow> v = 0 \<or> v > max_variant_id (variants c))
     \<and> get_effective_variant_id d = clamp_variant_id (variant_id (render d)) (variants c)
     \<and> (templates_installed self \<longrightarrow> (\<exists>ctx. render_landing self d t vo = Inr ctx))"
proof -
  have page: "\<forall>ctx. render_landing self d t vo = Inr ctx \<longrightarrow>
            (e = 0 \<longrightarrow> ctx_headline ctx = headline (hero c))
            \<and> (0 < e \<longrightarrow> e = v \<and> e \<le> max_variant_id (variants c)
                        \<and> ctx_headline ctx = headlines (variants c) ! nat (e - 1))"
  proof (intro allI impI)
    fix ctx
    assume r: "render_landing self d t vo = Inr ctx"
    have h: "ctx_headline ctx = resolve_variant (headline (hero c)) (headlines (variants c)) e"
      using render_landing_page [OF assms(1) r] assms(2,3) by simp
    have 1: "e = 0 \<longrightarrow> ctx_headline ctx = headline (hero c)"
      using h by (simp add: resolve_variant_def)
    have 2: "0 < e \<longrightarrow> e = v \<and> e \<le> max_variant_id (variants c)
                 \<and> ctx_headline ctx = headlines (variants c) ! nat (e - 1)"
      using h assms(3)
      by (auto simp add: resolve_variant_def clamp_variant_id_def max_variant_id_def Let_def
          split: if_splits)
    from 1 2 show "(e = 0 \<longrightarrow> ctx_headline ctx = headline (hero c))
            \<and> (0 < e \<longrightarrow> e = v \<and> e \<le> max_variant_id (variants c)
                        \<and> ctx_headline ctx = headlines (variants c) ! nat (e - 1))"
      by blast
  qed
  have 0: "e = 0 \<or> (0 < e \<and> e \<le> max_variant_id (variants c))"
    using assms(3,4) by (auto simp add: clamp_variant_id_def Let_def)
  have 3: "e = 0 \<longleftrightarrow> v = 0 \<or> v > max_variant_id (variants c)"
    using assms(3) by (auto simp add: clamp_variant_id_def Let_def)
  have 5: "get_effective_variant_id d = clamp_variant_id (variant_id (render d)) (variants c)"
    using assms(1)
    by (auto simp add: get_effective_variant_id_def clamp_variant_id_def max_variant_id_def Let_def)
  have 6: "templates_installed self \<longrightarrow> (\<exists>ctx. render_landing self d t vo = Inr ctx)"
    using render_landing_returns [OF _ assms(1)] by blast
  from page 0 3 5 6 show ?thesis by blast
qed

lemma valid_canonical_data_content:
  "content (valid_canonical_data now) = Some valid_landing_content"
  by (simp add: valid_canonical_data_def)

text \<open>
  Claim C2. Clamp consistency, that the clamped effective variant id and the resolved
  headline agree for every requested variant id, and that the effective-id computation
  and the value resolution implement one and the same fallback rule, does not hold of
  the code at a negative requested id. For the override \<open>-1\<close> (the command line's
  \<open>--variant\<close> takes any integer) on the example document, whose \<open>max_variant_id\<close> is 2,
  \<open>_clamp_variant_id\<close> reports the effective id \<open>-1\<close>, which is neither 0 nor an in-range
  id, against its docstring (the id when valid, 0 otherwise); \<open>_resolve_variant\<close> falls
  back and the page carries the default headline. \<open>get_effective_variant_id\<close>, whose
  docstring promises the id when in bounds and 0 otherwise, returns \<open>-1\<close> as well for a
  document whose \<open>render.variant_id\<close> has been assigned \<open>-1\<close>.
\<close>

theorem clamp_negative_id:
  "max_variant_id \<lparr>headlines = [''Alt One'', ''Alt Two''],
                    ctas = [''Try It Free'', ''Start Now'']\<rparr> = 2
   \<and> clamp_variant_id (- 1) \<lparr>headlines = [''Alt One'', ''Alt Two''],
                               ctas = [''Try It Free'', ''Start Now'']\<rparr> = - 1
   \<and> (\<exists>ctx. render_landing installed_renderer example_document None (Some (- 1)) = Inr ctx
         \<and> ctx_headline ctx = ''Welcome to TestProduct''
         \<and> ctx_headline ctx = headline (hero valid_landing_content))
   \<and> get_effective_variant_id
         (example_document\<lparr>render := (render example_document)\<lparr>variant_id := - 1\<rparr>\<rparr>) = - 1"
proof -
  let ?vs = "\<lparr>headlines = [''Alt One'', ''Alt Two''], ctas = [''Try It Free'', ''Start Now'']\<rparr>"
  have m: "max_variant_id ?vs = 2" by (simp add: max_variant_id_def)
  have c: "clamp_variant_id (- 1) ?vs = - 1"
    by (simp add: clamp_variant_id_def max_variant_id_def)
  obtain ctx where r: "render_landing installed_renderer example_document None (Some (- 1)) = Inr ctx"
    using render_landing_returns [OF installed_renderer_installed example_document_content]
    by blast
  have h: "ctx_headline ctx = ''Welcome to TestProduct''"
    using render_landing_page [OF example_document_content r] c
    by (simp add: resolve_variant_def valid_landing_content_def)
  have h': "ctx_headline ctx = headline (hero valid_landing_content)"
    using h by (simp add: valid_landing_content_def)
  have g: "get_effective_variant_id
         (example_document\<lparr>render := (render example_document)\<lparr>variant_id := - 1\<rparr>\<rparr>) = - 1"
    using example_document_content
    by (simp add: get_effective_variant_id_def max_variant_id_def)
  from m c r h h' g show ?thesis by blast
qed

text \<open>
  Claim C10. Headline and call-to-action fall back independently: when the requested
  id \<open>v\<close> is in range for the alternate headlines but beyond the alternate CTAs, every
  page \<open>render_landing\<close> returns has the headline \<open>variants.headlines[v-1]\<close> and the
  default \<open>hero.cta_text\<close>, and the clamp leaves \<open>v\<close> unchanged; the page is returned,
  nothing is raised, when the loader finds the template files.
\<close>

theorem independent_fallback:
  assumes "content d = Some c"
    and "v = (case vo of None \<Rightarrow> variant_id (render d) | Some x \<Rightarrow> x)"
    and "1 \<le> v" and "v \<le> int (length (headlines (variants c)))"
    and "int (length (ctas (variants c))) < v"
  shows "(\<forall>ctx. render_landing self d t vo = Inr ctx \<longrightarrow>
            ctx_headline ctx = headlines (variants c) ! nat (v - 1)
            \<and> ctx_cta_text ctx = cta_text (hero c))
     \<and> clamp_variant_id v (variants c) = v
     \<and> (templates_installed self \<longrightarrow> (\<exists>ctx. render_landing self d t vo = Inr ctx))"
proof -
  have k: "clamp_variant_id v (variants c) = v"
    using assms(3,4) by (auto simp add: clamp_variant_id_def max_variant_id_def Let_def)
  have page: "\<forall>ctx. render_landing self d t vo = Inr ctx \<longrightarrow>
            ctx_headline ctx = headlines (variants c) ! nat (v - 1)
            \<and> ctx_cta_text ctx = cta_text (hero c)"
  proof (intro allI impI)
    fix ctx
    assume r: "render_landing self d t vo = Inr ctx"
    have h: "ctx_headline ctx = resolve_variant (headline (hero c)) (headlines (variants c)) v"
      and a: "ctx_cta_text ctx = resolve_variant (cta_text (hero c)) (ctas (variants c)) v"
      using render_landing_page [OF assms(1) r] assms(2) k by simp_all
    have "ctx_headline ctx = headlines (variants c) ! nat (v - 1)"
      using h assms(3,4) by (auto simp add: resolve_variant_def Let_def)
    moreover have "ctx_cta_text ctx = cta_text (hero c)"
      using a assms(3,5) by (auto simp add: resolve_variant_def Let_def)
    ultimately show "ctx_headline ctx = headlines (variants c) ! nat (v - 1)
            \<and> ctx_cta_text ctx = cta_text (hero c)" by blast
  qed
  have "templates_installed self \<longrightarrow> (\<exists>ctx. render_landing self d t vo = Inr ctx)"
    using render_landing_returns [OF _ assms(1)] by blast
  with page k show ?thesis by blast
qed

theorem independent_fallback_witness:
  "(\<exists>ctx. render_landing installed_renderer
        (example_document\<lparr>content := Some (valid_landing_content
            \<lparr>variants := \<lparr>headlines = [''H1'', ''H2'', ''H3''], ctas = [''C1'', ''C2'']\<rparr>\<rparr>)\<rparr>)
        None (Some 3) = Inr ctx
      \<and> ctx_headline ctx = ''H3'' \<and> ctx_cta_text ctx = ''Get Started'')
   \<and> clamp_variant_id 3 \<lparr>headlines = [''H1'', ''H2'', ''H3''], ctas = [''C1'', ''C2'']\<rparr> = 3"
  using independent_fallback [of
      "example_document\<lparr>content := Some (valid_landing_content
            \<lparr>variants := \<lparr>headlines = [''H1'', ''H2'', ''H3''], ctas = [''C1'', ''C2'']\<rparr>\<rparr>)\<rparr>"
      "valid_landing_content
            \<lparr>variants := \<lparr>headlines = [''H1'', ''H2'', ''H3''], ctas = [''C1'', ''C2'']\<rparr>\<rparr>"
      3 "Some 3" installed_renderer None]
    installed_renderer_installed
  by (auto simp add: valid_landing_content_def)

subsection \<open>Failure semantics\<close>

text \<open>
  Claim C3, as stated, fails: \<open>render_landing\<close> also raises when the content is
  present, namely \<open>TEMPLATE_NOT_FOUND\<close> (E301) when the loader does not find the selected
  template file. Here the example document, whose content is present, is rendered by
  a renderer over an empty template directory.
\<close>

theorem render_landing_missing_template:
  "content example_document \<noteq> None
   \<and> render_landing \<lparr>templates_dir = {}, clock_year = 2026\<rparr> example_document None None =
       Inl (RenderError (''Template '' @ [CHR 0x27] @ ''saas.html.j2'' @ [CHR 0x27] @ '' not found'')
              (Some ''saas.html.j2'') TEMPLATE_NOT_FOUND)"
  by (simp add: render_landing_def example_document_def valid_canonical_data_def
      dict_get_def TEMPLATE_FILES_def)

text \<open>
  Claim C3, amended. \<open>render_landing\<close> raises the missing-content error (code
  \<open>MISSING_CONTENT\<close>, E303) if and only if the content of the document is absent. Every
  error it raises is either that one, or \<open>TEMPLATE_NOT_FOUND\<close> for a document with
  content whose selected template file the loader does not find. With content present
  and the template files installed no template override and no variant override makes
  it raise: unknown template types and out-of-range variant ids fall back.
\<close>

theorem render_landing_errors:
  "(render_landing self d t vo =
      Inl (RenderError ''CanonicalData.content is required for rendering'' None MISSING_CONTENT)
      \<longleftrightarrow> content d = None)
   \<and> (\<forall>e. render_landing self d t vo = Inl e \<longrightarrow>
         code e = MISSING_CONTENT \<and> content d = None
         \<or> code e = TEMPLATE_NOT_FOUND \<and> content d \<noteq> None
            \<and> dict_get TEMPLATE_FILES
                 (case t of None \<Rightarrow> template_type (render d)
                  | Some x \<Rightarrow> if x \<noteq> [] then x else template_type (render d))
                 ''saas.html.j2'' \<notin> templates_dir self)
   \<and> (content d \<noteq> None \<and> templates_installed self \<longrightarrow>
         (\<exists>ctx. render_landing self d t vo = Inr ctx))
   \<and> ErrorCode_value MISSING_CONTENT = ''E303''"
proof -
  have 1: "render_landing self d t vo =
      Inl (RenderError ''CanonicalData.content is required for rendering'' None MISSING_CONTENT)
      \<longleftrightarrow> content d = None"
    by (auto simp add: render_landing_def Let_def RenderError_def split: option.splits)
  have 2: "\<forall>e. render_landing self d t vo = Inl e \<longrightarrow>
         code e = MISSING_CONTENT \<and> content d = None
         \<or> code e = TEMPLATE_NOT_FOUND \<and> content d \<noteq> None
            \<and> dict_get TEMPLATE_FILES
                 (case t of None \<Rightarrow> template_type (render d)
                  | Some x \<Rightarrow> if x \<noteq> [] then x else template_type (render d))
                 ''saas.html.j2'' \<notin> templates_dir self"
    by (auto simp add: render_landing_def Let_def RenderError_def split: option.splits if_splits)
  have 3: "content d \<noteq> None \<and> templates_installed self \<longrightarrow>
         (\<exists>ctx. render_landing self d t vo = Inr ctx)"
    using render_landing_installed [of self d _ t vo] by auto
  show ?thesis using 1 2 3 by simp
qed

theorem render_landing_errors_witness:
  "render_landing installed_renderer (example_document\<lparr>content := None\<rparr>) None (Some 99) =
      Inl (RenderError ''CanonicalData.content is required for rendering'' None MISSING_CONTENT)
   \<and> (\<exists>ctx. render_landing installed_renderer example_document (Some ''unknown'') (Some 99)
         = Inr ctx)"
  using render_landing_errors [of installed_renderer "example_document\<lparr>content := None\<rparr>" None "Some 99"]
    render_landing_errors [of installed_renderer example_document "Some ''unknown''" "Some 99"]
    installed_renderer_installed example_document_content
  by simp

section \<open>Properties of bulk rendering\<close>

lemma nat_of_digits_append: "nat_of_digits (xs @ ys) a = nat_of_digits ys (nat_of_digits xs a)"
  by (induction xs arbitrary: a) auto

lemma of_char_digit: "n < 10 \<Longrightarrow> (of_char (char_of (48 + n)) :: nat) = 48 + n"
  by (simp add: take_bit_eq_mod)

lemma nat_of_digits_str_nat: "nat_of_digits (str_nat n) 0 = n"
proof (induction n rule: str_nat.induct)
  case (1 n)
  show ?case
  proof (cases "n < 10")
    case True
    then show ?thesis by (simp add: of_char_digit)
  next
    case False
    then have "nat_of_digits (str_nat (n div 10)) 0 = n div 10" using 1 by simp
    with False show ?thesis
      by (subst str_nat.simps) (simp add: nat_of_digits_append of_char_digit)
  qed
qed

lemma str_nat_inj: "str_nat m = str_nat n \<Longrightarrow> m = n"
  by (metis nat_of_digits_str_nat)

lemma py_str_int_inj: "0 \<le> i \<Longrightarrow> 0 \<le> j \<Longrightarrow> py_str_int i = py_str_int j \<Longrightarrow> i = j"
  using str_nat_inj [of "nat i" "nat j"] by (simp add: py_str_int_def)

lemma variant_key_inj:
  assumes "t \<in> set (map fst TEMPLATE_FILES)" and "t' \<in> set (map fst TEMPLATE_FILES)"
    and "0 \<le> i" and "0 \<le> j" and "variant_key t i = variant_key t' j"
  shows "t = t' \<and> i = j"
proof -
  have "t = t'"
    using assms(1,2,5) by (auto simp add: TEMPLATE_FILES_def variant_key_def)
  then have "py_str_int i = py_str_int j"
    using assms(5) by (simp add: variant_key_def)
  with \<open>t = t'\<close> show ?thesis using py_str_int_inj [OF assms(3,4)] by simp
qed

lemma str_nat_zero: "str_nat 0 = ''0''"
  by code_simp

lemma variant_key_zero: "variant_key t 0 = t @ ''_v0''"
  by (simp add: variant_key_def py_str_int_def str_nat_zero del: str_nat.simps)

lemma dict_set_fresh: "k \<notin> fst ` set m \<Longrightarrow> dict_set m k v = m @ [(k, v)]"
  by (induction m) auto

lemma render_variants_loop_ok:
  assumes "\<forall>i \<in> set ids. render_landing self d (Some t) (Some i) = Inr (P i)"
    and "distinct (map (variant_key t) ids)"
    and "\<forall>i \<in> set ids. variant_key t i \<notin> fst ` set acc"
  shows "render_variants_loop self d t ids acc = Inr (acc @ map (\<lambda>i. (variant_key t i, P i)) ids)"
  using assms
proof (induction ids arbitrary: acc)
  case Nil
  then show ?case by simp
next
  case (Cons i ids)
  have fresh: "variant_key t i \<notin> fst ` set acc" using Cons.prems(3) by simp
  have "\<forall>j \<in> set ids. variant_key t j \<notin> fst ` set (acc @ [(variant_key t i, P i)])"
    using Cons.prems(2,3) by (auto simp add: image_iff)
  then have "render_variants_loop self d t ids (acc @ [(variant_key t i, P i)]) =
      Inr ((acc @ [(variant_key t i, P i)]) @ map (\<lambda>i. (variant_key t i, P i)) ids)"
    using Cons.IH [of "acc @ [(variant_key t i, P i)]"] Cons.prems(1,2) by simp
  then show ?case using Cons.prems(1) fresh by (simp add: dict_set_fresh)
qed


lemma render_templates_loop_ok:
  assumes "\<forall>t \<in> set ts. \<forall>i \<in> set (0 # [1..n]). render_landing self d (Some t) (Some i) = Inr (P t i)"
    and "distinct ts"
    and "\<forall>t \<in> set ts. \<forall>t' \<in> set ts. \<forall>i \<in> set (0 # [1..n]). \<forall>j \<in> set (0 # [1..n]).
           variant_key t i = variant_key t' j \<longrightarrow> t = t' \<and> i = j"
    and "\<forall>t \<in> set ts. \<forall>i \<in> set (0 # [1..n]). variant_key t i \<notin> fst ` set acc"
  shows "render_templates_loop self d ts n acc =
     Inr (acc @ concat (map (\<lambda>t. map (\<lambda>i. (variant_key t i, P t i)) (0 # [1..n])) ts))"
  using assms
proof (induction ts arbitrary: acc)
  case Nil
  then show ?case by simp
next
  case (Cons t ts)
  let ?ids = "0 # [1..n]"
  let ?row = "map (\<lambda>i. (variant_key t i, P t i)) ?ids"
  have inj: "\<And>t1 t2 i j. t1 \<in> set (t # ts) \<Longrightarrow> t2 \<in> set (t # ts) \<Longrightarrow> i \<in> set ?ids \<Longrightarrow> j \<in> set ?ids
      \<Longrightarrow> variant_key t1 i = variant_key t2 j \<Longrightarrow> t1 = t2 \<and> i = j"
    using Cons.prems(3) by blast
  have "distinct ?ids" by simp
  moreover have "inj_on (variant_key t) (set ?ids)"
    by (rule inj_onI) (use inj [of t t] in auto)
  ultimately have d0: "distinct (map (variant_key t) ?ids)"
    by (simp only: distinct_map)
  have disj: "\<And>t' i j. t' \<in> set ts \<Longrightarrow> i \<in> set ?ids \<Longrightarrow> j \<in> set ?ids
      \<Longrightarrow> variant_key t' i \<noteq> variant_key t j"
  proof
    fix t' i j
    assume a: "t' \<in> set ts" "i \<in> set ?ids" "j \<in> set ?ids" "variant_key t' i = variant_key t j"
    then have "t' = t" using inj [of t' t i j] by simp
    with a(1) Cons.prems(2) show False by simp
  qed
  have r0: "render_landing self d (Some t) (Some 0) = Inr (P t 0)"
    using Cons.prems(1) by simp
  have f0: "variant_key t 0 \<notin> fst ` set acc" using Cons.prems(4) by simp
  have inner: "render_variants_loop self d t [1..n] (acc @ [(variant_key t 0, P t 0)]) =
      Inr ((acc @ [(variant_key t 0, P t 0)]) @ map (\<lambda>i. (variant_key t i, P t i)) [1..n])"
  proof (rule render_variants_loop_ok)
    show "\<forall>i\<in>set [1..n]. render_landing self d (Some t) (Some i) = Inr (P t i)"
      using Cons.prems(1) by simp
    show "distinct (map (variant_key t) [1..n])" using d0 by simp
    show "\<forall>i\<in>set [1..n]. variant_key t i \<notin> fst ` set (acc @ [(variant_key t 0, P t 0)])"
      using d0 Cons.prems(4) by (auto simp add: image_iff)
  qed
  have rest: "render_templates_loop self d ts n (acc @ ?row) =
      Inr ((acc @ ?row) @ concat (map (\<lambda>t. map (\<lambda>i. (variant_key t i, P t i)) ?ids) ts))"
  proof (rule Cons.IH)
    show "\<forall>t\<in>set ts. \<forall>i\<in>set ?ids. render_landing self d (Some t) (Some i) = Inr (P t i)"
      using Cons.prems(1) by simp
    show "distinct ts" using Cons.prems(2) by simp
    show "\<forall>t\<in>set ts. \<forall>t'\<in>set ts. \<forall>i\<in>set ?ids. \<forall>j\<in>set ?ids.
            variant_key t i = variant_key t' j \<longrightarrow> t = t' \<and> i = j"
      using inj by (meson list.set_intros(2))
    show "\<forall>t'\<in>set ts. \<forall>i\<in>set ?ids. variant_key t' i \<notin> fst ` set (acc @ ?row)"
    proof (intro ballI)
      fix t' i assume a: "t' \<in> set ts" "i \<in> set ?ids"
      have "variant_key t' i \<notin> fst ` set acc"
        using Cons.prems(4) a by (meson list.set_intros(2))
      moreover have "variant_key t' i \<notin> fst ` set ?row"
        using disj [OF a] by (auto simp add: image_iff)
      ultimately show "variant_key t' i \<notin> fst ` set (acc @ ?row)" by auto
    qed
  qed
  show ?case
    using r0 f0 inner rest
    by (simp add: dict_set_fresh variant_key_zero [symmetric])
qed


lemma keys_of_rows:
  "map fst (concat (map (\<lambda>t. map (\<lambda>i. (f t i, g t i)) ids) ts)) =
     map (\<lambda>(t, i). f t i) (List.product ts ids)"
  by (induction ts) (simp_all add: comp_def)

lemma row_member:
  "t \<in> set ts \<Longrightarrow> i \<in> set ids
     \<Longrightarrow> (f t i, g t i) \<in> set (concat (map (\<lambda>t. map (\<lambda>i. (f t i, g t i)) ids) ts))"
  by auto

text \<open>
  Claim C7. For a document with content present and \<open>k\<close> alternate headlines, rendered
  by a renderer whose loader finds the template files, \<open>render_all_variants\<close> returns a
  dictionary with exactly \<open>3 * (k + 1)\<close> entries; its keys are distinct and are exactly
  the keys \<open>f"{template_type}_v{variant_id}"\<close> for the templates \<open>saas\<close>, \<open>app\<close>, \<open>agency\<close> and
  the variant ids \<open>0..k\<close>; and the entry of each pair is the page
  \<open>render_landing(data, template_type, variant_id)\<close> returns.
\<close>

theorem bulk_resolution:
  assumes "templates_installed self" and "content d = Some c"
    and "k = length (headlines (variants c))"
  shows "\<exists>m. render_all_variants self d = Inr m
     \<and> length m = 3 * (k + 1)
     \<and> distinct (map fst m)
     \<and> set (map fst m) =
         (\<lambda>(t, i). variant_key t i) ` ({''saas'', ''app'', ''agency''} \<times> {0..int k})
     \<and> (\<forall>t \<in> {''saas'', ''app'', ''agency''}. \<forall>i \<in> {0..int k}.
           \<exists>page. render_landing self d (Some t) (Some i) = Inr page
              \<and> map_of m (variant_key t i) = Some page)"
proof -
  let ?ts = "map fst TEMPLATE_FILES"
  let ?ids = "0 # [1..int k]"
  define P where "P t i = projr (render_landing self d (Some t) (Some i))" for t i
  let ?m = "concat (map (\<lambda>t. map (\<lambda>i. (variant_key t i, P t i)) ?ids) ?ts)"
  have ts: "?ts = [''saas'', ''app'', ''agency'']" by (simp add: TEMPLATE_FILES_def)
  have ids: "set ?ids = {0..int k}" by auto
  have ok: "render_landing self d (Some t) (Some i) = Inr (P t i)" for t i
    using render_landing_installed [OF assms(1,2), of "Some t" "Some i"] by (auto simp add: P_def)
  have inj: "\<forall>t \<in> set ?ts. \<forall>t' \<in> set ?ts. \<forall>i \<in> set ?ids. \<forall>j \<in> set ?ids.
           variant_key t i = variant_key t' j \<longrightarrow> t = t' \<and> i = j"
  proof (intro ballI impI)
    fix t t' i j
    assume "t \<in> set ?ts" "t' \<in> set ?ts" "i \<in> set ?ids" "j \<in> set ?ids"
      "variant_key t i = variant_key t' j"
    then show "t = t' \<and> i = j"
      using variant_key_inj [of t t' i j] ids by auto
  qed
  have num: "(case content d of None \<Rightarrow> 0
      | Some c \<Rightarrow> if headlines (variants c) \<noteq> [] then int (length (headlines (variants c))) else 0)
      = int k"
    using assms(2,3) by simp
  have "render_templates_loop self d ?ts (int k) [] = Inr ([] @ ?m)"
    by (rule render_templates_loop_ok) (use ok inj in \<open>simp_all add: TEMPLATE_FILES_def\<close>)
  then have run: "render_all_variants self d = Inr ?m"
    by (simp add: render_all_variants_def num)
  have keys: "map fst ?m = map (\<lambda>(t, i). variant_key t i) (List.product ?ts ?ids)"
    by (rule keys_of_rows)
  have "inj_on (\<lambda>(t, i). variant_key t i) (set (List.product ?ts ?ids))"
  proof (rule inj_onI)
    fix x y
    assume x: "x \<in> set (List.product ?ts ?ids)" and y: "y \<in> set (List.product ?ts ?ids)"
      and e: "(case x of (t, i) \<Rightarrow> variant_key t i) = (case y of (t, i) \<Rightarrow> variant_key t i)"
    obtain t i where xe: "x = (t, i)" by (cases x)
    obtain t' j where ye: "y = (t', j)" by (cases y)
    have "t \<in> set ?ts" "i \<in> set ?ids" "t' \<in> set ?ts" "j \<in> set ?ids"
      using x y unfolding xe ye set_product by blast+
    moreover have "variant_key t i = variant_key t' j" using e unfolding xe ye by simp
    ultimately have "t = t' \<and> i = j" using inj by blast
    then show "x = y" by (simp add: xe ye)
  qed
  moreover have "distinct (List.product ?ts ?ids)"
  proof (rule distinct_product)
    show "distinct ?ts" by (simp add: ts)
    show "distinct ?ids" by simp
  qed
  ultimately have dist: "distinct (map fst ?m)"
    by (simp only: keys distinct_map)
  have len: "length ?m = 3 * (k + 1)"
    by (simp add: ts)
  have keyset: "set (map fst ?m) =
      (\<lambda>(t, i). variant_key t i) ` ({''saas'', ''app'', ''agency''} \<times> {0..int k})"
  proof -
    have tsset: "set ?ts = {''saas'', ''app'', ''agency''}" by (simp add: ts)
    have sp: "set (List.product ?ts ?ids) = {''saas'', ''app'', ''agency''} \<times> {0..int k}"
      unfolding set_product tsset ids ..
    show ?thesis unfolding keys set_map [of "case_prod variant_key"] sp ..
  qed
  have look: "\<forall>t \<in> {''saas'', ''app'', ''agency''}. \<forall>i \<in> {0..int k}.
           \<exists>page. render_landing self d (Some t) (Some i) = Inr page
              \<and> map_of ?m (variant_key t i) = Some page"
  proof (intro ballI)
    fix t i
    assume t: "t \<in> {''saas'', ''app'', ''agency''}" and i: "i \<in> {0..int k}"
    have "t \<in> set ?ts" using t by (simp add: ts)
    moreover have "i \<in> set ?ids" using i ids by simp
    ultimately have "(variant_key t i, P t i) \<in> set ?m"
      by (rule row_member)
    then have "map_of ?m (variant_key t i) = Some (P t i)"
      using dist by (rule map_of_is_SomeI [rotated])
    with ok show "\<exists>page. render_landing self d (Some t) (Some i) = Inr page
              \<and> map_of ?m (variant_key t i) = Some page" by blast
  qed
  from run len dist keyset look show ?thesis by blast
qed

text \<open>Three templates and two alternate headlines give nine entries.\<close>

theorem bulk_resolution_witness:
  "\<exists>m. render_all_variants installed_renderer example_document = Inr m
     \<and> length m = 9 \<and> distinct (map fst m)"
  using bulk_resolution [OF installed_renderer_installed example_document_content refl]
  by (auto simp add: valid_landing_content_def)

section \<open>Properties of the string operations\<close>

lemma dropWhile_sub:
  "(\<And>c. q c \<Longrightarrow> p c) \<Longrightarrow> dropWhile p (dropWhile q s) = dropWhile p s"
  by (induction s) auto

lemma rstrip_Cons:
  "rev (dropWhile p (rev (c # b))) =
     (if \<forall>x \<in> set (c # b). p x then [] else c # rev (dropWhile p (rev b)))"
  by (auto simp add: dropWhile_append)

lemma lstrip_rstrip_commute:
  assumes "\<And>c. q c \<Longrightarrow> p c"
  shows "dropWhile p (rev (dropWhile q (rev s))) = rev (dropWhile q (rev (dropWhile p s)))"
proof (induction s)
  case Nil
  then show ?case by simp
next
  case (Cons c b)
  show ?case
  proof (cases "p c")
    case True
    show ?thesis
    proof (cases "\<forall>x \<in> set (c # b). q x")
      case allq: True
      then have "\<forall>x \<in> set b. p x" using assms by auto
      then have d: "dropWhile p (c # b) = []" using True by simp
      have L: "rev (dropWhile q (rev (c # b))) = []"
        unfolding rstrip_Cons using allq by (rule if_P)
      show ?thesis by (simp only: L d) simp
    next
      case False
      then have R: "rev (dropWhile q (rev (c # b))) = c # rev (dropWhile q (rev b))"
        unfolding rstrip_Cons by (rule if_not_P)
      have d: "dropWhile p (c # b) = dropWhile p b" using True by simp
      show ?thesis unfolding R d by (simp add: True Cons.IH)
    qed
  next
    case False
    then have "\<not> q c" using assms by auto
    then have "\<not> (\<forall>x \<in> set (c # b). q x)" by simp
    then have R: "rev (dropWhile q (rev (c # b))) = c # rev (dropWhile q (rev b))"
      unfolding rstrip_Cons by (rule if_not_P)
    have d: "dropWhile p (c # b) = c # b" using False by simp
    show ?thesis unfolding d unfolding R by (simp add: False)
  qed
qed

lemma strip_by_sub:
  assumes "\<And>c. q c \<Longrightarrow> p c"
  shows "strip_by p (strip_by q s) = strip_by p s"
proof -
  have "dropWhile p (rev (dropWhile q (rev (dropWhile q s)))) =
      rev (dropWhile q (rev (dropWhile p s)))"
    using assms by (simp add: lstrip_rstrip_commute dropWhile_sub)
  then show ?thesis
    using assms by (simp add: strip_by_def dropWhile_sub)
qed

lemma strip_by_idem: "strip_by p (strip_by p s) = strip_by p s"
  by (rule strip_by_sub) simp

lemma strip_by_map:
  assumes "\<And>c. p (f c) = p c"
  shows "strip_by p (map f s) = map f (strip_by p s)"
proof -
  have "p \<circ> f = p" using assms by auto
  then show ?thesis by (simp add: strip_by_def dropWhile_map rev_map)
qed

lemma strip_by_fixed_iff:
  "strip_by p s = s \<longleftrightarrow> s = [] \<or> (\<not> p (hd s) \<and> \<not> p (last s))"
proof (cases s)
  case Nil
  then show ?thesis by (simp add: strip_by_def)
next
  case (Cons c b)
  show ?thesis
  proof (cases "p (hd s)")
    case True
    then have "length (strip_by p s) < length s"
      using Cons length_dropWhile_le [of p b] length_dropWhile_le [of p "rev (dropWhile p b)"]
      by (simp add: strip_by_def)
    then show ?thesis using True by auto
  next
    case False
    then have l: "dropWhile p s = s" by (simp add: Cons)
    have "rev (dropWhile p (rev s)) = s \<longleftrightarrow> \<not> p (last s)"
      using Cons by (metis dropWhile_eq_self_iff hd_rev rev_is_Nil_conv rev_rev_ident list.distinct(1))
    then show ?thesis using False Cons l by (simp add: strip_by_def)
  qed
qed

lemma core_isspace_py: "core_isspace c \<Longrightarrow> py_isspace c"
  by (auto simp add: core_isspace_def py_isspace_def Let_def)

lemma py_isspace_lower: "py_isspace (py_lower_char c) = py_isspace c"
proof -
  have "(of_char c :: nat) < 256" by (rule nat_of_char_less_256)
  then show ?thesis
    by (auto simp add: py_isspace_def py_lower_char_def Let_def)
qed


lemma icon_normal_form:
  "py_strip (py_lower (str_strip_whitespace v)) = py_strip (py_lower v)"
proof -
  have "strip_by py_isspace (map py_lower_char (strip_by core_isspace v)) =
      map py_lower_char (strip_by py_isspace (strip_by core_isspace v))"
    by (rule strip_by_map) (rule py_isspace_lower)
  also have "\<dots> = map py_lower_char (strip_by py_isspace v)"
    by (simp add: strip_by_sub core_isspace_py)
  also have "\<dots> = strip_by py_isspace (map py_lower_char v)"
    by (rule strip_by_map [symmetric]) (rule py_isspace_lower)
  finally show ?thesis
    by (simp add: py_strip_def py_lower_def str_strip_whitespace_def)
qed

lemma ap_Inl_right: "\<exists>pre. ap a (Inl e) = Inl (pre @ e)"
  by (cases a) auto

lemma ap_Inl_left: "\<exists>post. ap (Inl e) b = Inl (e @ post)"
  by (cases b) auto

section \<open>Properties of the schema\<close>

subsection \<open>Schema version\<close>

lemma split_dot_not_Nil: "split_dot s \<noteq> []"
  by (induction s) (auto split: list.splits)

lemma split_dot_no_dot: "CHR ''.'' \<notin> set s \<Longrightarrow> split_dot s = [s]"
  by (induction s) auto

lemma split_dot_component:
  "CHR ''.'' \<notin> set a \<Longrightarrow> split_dot (a @ CHR ''.'' # r) = a # split_dot r"
  by (induction a) auto

lemma split_dot_SCHEMA_VERSION: "split_dot SCHEMA_VERSION = [''1'', ''2'', ''1'']"
  by (simp add: SCHEMA_VERSION_def)

lemma validate_schema_version_no_dot:
  "CHR ''.'' \<notin> set v \<Longrightarrow>
     validate_schema_version v = Inl (''Invalid schema_version format: '' @ v)"
  by (simp add: validate_schema_version_def split_dot_no_dot Let_def)

lemma validate_schema_version_components:
  assumes "CHR ''.'' \<notin> set major" and "CHR ''.'' \<notin> set minor"
    and "rest = [] \<or> hd rest = CHR ''.''"
    and "v = major @ CHR ''.'' # minor @ rest"
  shows "validate_schema_version v =
     (if major = ''1'' \<and> minor = ''2'' then Inr v
      else Inl (''Schema version mismatch: got '' @ v @ '', expected '' @ SCHEMA_VERSION
                @ ''. '' @ ''Major.minor must match.''))"
proof -
  have "\<exists>ps. split_dot (minor @ rest) = minor # ps"
  proof (cases rest)
    case Nil
    then show ?thesis using assms(2) by (simp add: split_dot_no_dot)
  next
    case (Cons c r)
    then have "rest = CHR ''.'' # r" using assms(3) by simp
    then show ?thesis using assms(2) by (simp add: split_dot_component)
  qed
  then obtain ps where "split_dot v = major # minor # ps"
    using assms(1,4) by (auto simp add: split_dot_component)
  then show ?thesis
    by (simp add: validate_schema_version_def split_dot_SCHEMA_VERSION Let_def)
qed


lemma isl_ap: "isl (ap a b) \<longleftrightarrow> isl a \<or> isl b"
  by (cases a; cases b) auto

lemma isl_at_loc: "isl (at_loc n r) \<longleftrightarrow> isl r"
  by (cases r) (auto simp add: at_loc_def)

lemma isl_map_sum: "isl (map_sum f g r) \<longleftrightarrow> isl r"
  by (cases r) auto

lemma GenerationMeta_validate_version:
  "GenerationMeta_validate now (JObj [(''schema_version'', JStr v)]) =
     (case validate_schema_version v of
        Inl msg \<Rightarrow> Inl [([''schema_version''], ValueError msg)]
      | Inr x \<Rightarrow> Inr \<lparr>schema_version = x, generated_at = now, pipeline_steps = []\<rparr>)"
  by (simp add: GenerationMeta_validate_def with_default_def at_loc_def str_field_def
      split: sum.splits)

lemma minimal_project_valid:
  "ProjectInfo_validate
     (JObj [(''product_name'', JStr ''MinimalTest''),
            (''tagline'', JStr ''A minimal test''),
            (''description'', JStr ''This is a minimal test product for validation.''),
            (''target_audience'', JStr ''Testers''),
            (''value_proposition'', JStr ''Test validation''),
            (''tone'', JStr ''professional''),
            (''keywords'', JArr [JStr ''test'', JStr ''minimal'', JStr ''validation''])]) =
   Inr \<lparr>product_name = ''MinimalTest'', tagline = ''A minimal test'',
        description = ''This is a minimal test product for validation.'',
        target_audience = ''Testers'', value_proposition = ''Test validation'',
        tone = ''professional'', keywords = [''test'', ''minimal'', ''validation'']\<rparr>"
  by code_simp

lemma from_json_minimal:
  "from_json now (minimal_canonical_json v) =
     (case validate_schema_version v of
        Inl msg \<Rightarrow> Inl [([''meta'', ''schema_version''], ValueError msg)]
      | Inr x \<Rightarrow>
          Inr \<lparr>meta = \<lparr>schema_version = x, generated_at = now, pipeline_steps = []\<rparr>,
               project =
                 \<lparr>product_name = ''MinimalTest'', tagline = ''A minimal test'',
                  description = ''This is a minimal test product for validation.'',
                  target_audience = ''Testers'', value_proposition = ''Test validation'',
                  tone = ''professional'', keywords = [''test'', ''minimal'', ''validation'']\<rparr>,
               brand = None, content = None, assets = AssetSlots_default,
               render = RenderConfig_default\<rparr>)"
  by (simp add: from_json_def CanonicalData_validate_def minimal_canonical_json_def
      with_default_def required_def minimal_project_valid GenerationMeta_validate_version
      at_loc_def validate_variant_id_bounds_def split: sum.splits)

lemma from_json_bad_version:
  assumes "map_of kv ''meta'' = Some (JObj mkv)"
    and "map_of mkv ''schema_version'' = Some (JStr v)"
    and "validate_schema_version v = Inl msg"
  shows "isl (from_json now (JObj kv))"
proof -
  have "isl (GenerationMeta_validate now (JObj mkv))"
    using assms(2,3)
    by (simp add: GenerationMeta_validate_def isl_ap with_default_def isl_at_loc str_field_def)
  then show ?thesis
    using assms(1)
    by (simp add: from_json_def CanonicalData_validate_def isl_map_sum isl_ap with_default_def
        isl_at_loc)
qed


text \<open>
  Claim C4. Schema version gate. A version string \<open>v\<close> made of a first component
  \<open>major\<close>, a second component \<open>minor\<close> and possibly further components is accepted
  by the construction of \<open>GenerationMeta\<close>, and the document carrying it is loaded,
  when \<open>major\<close> and \<open>minor\<close> are those of \<open>SCHEMA_VERSION\<close>, whatever the patch component
  and what follows it; when \<open>major\<close> or \<open>minor\<close> differs the construction fails with the
  mismatch error and every document whose \<open>meta\<close> carries \<open>v\<close> fails to load. A version
  string \<open>w\<close> without a dot (fewer than two components) fails with the format error,
  and so does loading a document that carries it.
\<close>

theorem schema_version_gate:
  assumes "CHR ''.'' \<notin> set major" and "CHR ''.'' \<notin> set minor"
    and "rest = [] \<or> hd rest = CHR ''.''"
    and "v = major @ CHR ''.'' # minor @ rest"
    and "CHR ''.'' \<notin> set w"
  shows "(major = split_dot SCHEMA_VERSION ! 0 \<and> minor = split_dot SCHEMA_VERSION ! 1 \<longrightarrow>
            GenerationMeta_validate now (JObj [(''schema_version'', JStr v)]) =
              Inr \<lparr>schema_version = v, generated_at = now, pipeline_steps = []\<rparr>
            \<and> (\<exists>d. from_json now (minimal_canonical_json v) = Inr d
                   \<and> schema_version (meta d) = v))
     \<and> (major \<noteq> split_dot SCHEMA_VERSION ! 0 \<or> minor \<noteq> split_dot SCHEMA_VERSION ! 1 \<longrightarrow>
            (\<exists>msg. GenerationMeta_validate now (JObj [(''schema_version'', JStr v)]) =
                      Inl [([''schema_version''], ValueError msg)]
                  \<and> sublist ''Schema version mismatch'' msg)
            \<and> isl (from_json now (minimal_canonical_json v))
            \<and> (\<forall>kv mkv. map_of kv ''meta'' = Some (JObj mkv)
                  \<and> map_of mkv ''schema_version'' = Some (JStr v)
                  \<longrightarrow> isl (from_json now (JObj kv))))
     \<and> (\<exists>msg. GenerationMeta_validate now (JObj [(''schema_version'', JStr w)]) =
                 Inl [([''schema_version''], ValueError msg)]
             \<and> sublist ''Invalid schema_version format'' msg)
     \<and> isl (from_json now (minimal_canonical_json w))
     \<and> (\<forall>kv mkv. map_of kv ''meta'' = Some (JObj mkv)
                  \<and> map_of mkv ''schema_version'' = Some (JStr w)
                  \<longrightarrow> isl (from_json now (JObj kv)))"
proof -
  let ?mismatch = "''Schema version mismatch: got '' @ v @ '', expected '' @ SCHEMA_VERSION
                @ ''. '' @ ''Major.minor must match.''"
  have cur: "split_dot SCHEMA_VERSION ! 0 = ''1''" "split_dot SCHEMA_VERSION ! 1 = ''2''"
    by (simp_all add: split_dot_SCHEMA_VERSION)
  have v: "validate_schema_version v =
     (if major = ''1'' \<and> minor = ''2'' then Inr v else Inl ?mismatch)"
    by (rule validate_schema_version_components [OF assms(1-4)])
  have w: "validate_schema_version w = Inl (''Invalid schema_version format: '' @ w)"
    by (rule validate_schema_version_no_dot [OF assms(5)])
  have sm: "sublist ''Schema version mismatch'' ?mismatch"
    using sublist_appendI [of "''Schema version mismatch''" "[]"] by simp
  have sf: "sublist ''Invalid schema_version format'' (''Invalid schema_version format: '' @ w)"
    using sublist_appendI [of "''Invalid schema_version format''" "[]"] by simp
  have ok: "major = ''1'' \<and> minor = ''2'' \<longrightarrow>
            GenerationMeta_validate now (JObj [(''schema_version'', JStr v)]) =
              Inr \<lparr>schema_version = v, generated_at = now, pipeline_steps = []\<rparr>
            \<and> (\<exists>d. from_json now (minimal_canonical_json v) = Inr d
                   \<and> schema_version (meta d) = v)"
    using v by (simp add: GenerationMeta_validate_version from_json_minimal)
  have bad: "major \<noteq> ''1'' \<or> minor \<noteq> ''2'' \<longrightarrow>
            (\<exists>msg. GenerationMeta_validate now (JObj [(''schema_version'', JStr v)]) =
                      Inl [([''schema_version''], ValueError msg)]
                  \<and> sublist ''Schema version mismatch'' msg)
            \<and> isl (from_json now (minimal_canonical_json v))
            \<and> (\<forall>kv mkv. map_of kv ''meta'' = Some (JObj mkv)
                  \<and> map_of mkv ''schema_version'' = Some (JStr v)
                  \<longrightarrow> isl (from_json now (JObj kv)))"
  proof
    assume "major \<noteq> ''1'' \<or> minor \<noteq> ''2''"
    then have e: "validate_schema_version v = Inl ?mismatch" using v by auto
    then have "GenerationMeta_validate now (JObj [(''schema_version'', JStr v)]) =
        Inl [([''schema_version''], ValueError ?mismatch)]"
      by (simp add: GenerationMeta_validate_version)
    moreover have "isl (from_json now (minimal_canonical_json v))"
      using e by (simp add: from_json_minimal)
    moreover have "\<forall>kv mkv. map_of kv ''meta'' = Some (JObj mkv)
                  \<and> map_of mkv ''schema_version'' = Some (JStr v)
                  \<longrightarrow> isl (from_json now (JObj kv))"
      using from_json_bad_version [OF _ _ e] by blast
    ultimately show "(\<exists>msg. GenerationMeta_validate now (JObj [(''schema_version'', JStr v)]) =
                      Inl [([''schema_version''], ValueError msg)]
                  \<and> sublist ''Schema version mismatch'' msg)
            \<and> isl (from_json now (minimal_canonical_json v))
            \<and> (\<forall>kv mkv. map_of kv ''meta'' = Some (JObj mkv)
                  \<and> map_of mkv ''schema_version'' = Some (JStr v)
                  \<longrightarrow> isl (from_json now (JObj kv)))"
      using sm by blast
  qed
  have fmt: "\<exists>msg. GenerationMeta_validate now (JObj [(''schema_version'', JStr w)]) =
                 Inl [([''schema_version''], ValueError msg)]
             \<and> sublist ''Invalid schema_version format'' msg"
    using w sf by (simp add: GenerationMeta_validate_version)
  have fmt2: "isl (from_json now (minimal_canonical_json w))"
    using w by (simp add: from_json_minimal)
  have fmt3: "\<forall>kv mkv. map_of kv ''meta'' = Some (JObj mkv)
                  \<and> map_of mkv ''schema_version'' = Some (JStr w)
                  \<longrightarrow> isl (from_json now (JObj kv))"
    using from_json_bad_version [OF _ _ w] by blast
  show ?thesis
    unfolding cur using ok bad fmt fmt2 fmt3 by blast
qed

theorem schema_version_gate_witness:
  "GenerationMeta_validate ''2026-01-01T00:00:00'' (JObj [(''schema_version'', JStr ''1.2.9'')]) =
     Inr \<lparr>schema_version = ''1.2.9'', generated_at = ''2026-01-01T00:00:00'', pipeline_steps = []\<rparr>
   \<and> isl (from_json ''2026-01-01T00:00:00'' (minimal_canonical_json ''2.2.0''))
   \<and> isl (from_json ''2026-01-01T00:00:00'' (minimal_canonical_json ''1.0.0''))
   \<and> isl (from_json ''2026-01-01T00:00:00'' (minimal_canonical_json ''invalid''))"
proof -
  have w: "CHR ''.'' \<notin> set ''invalid''" by simp
  have n: "CHR ''.'' \<notin> set ''0''" "CHR ''.'' \<notin> set ''1''" "CHR ''.'' \<notin> set ''2''" by simp_all
  have r: "''.9'' = [] \<or> hd ''.9'' = CHR ''.''" "''.0'' = [] \<or> hd ''.0'' = CHR ''.''" by simp_all
  have a: "GenerationMeta_validate ''2026-01-01T00:00:00'' (JObj [(''schema_version'', JStr ''1.2.9'')]) =
     Inr \<lparr>schema_version = ''1.2.9'', generated_at = ''2026-01-01T00:00:00'', pipeline_steps = []\<rparr>"
    using schema_version_gate [OF n(2) n(3) r(1) _ w, of "''1.2.9''" "''2026-01-01T00:00:00''"]
    by (simp add: split_dot_SCHEMA_VERSION)
  have b: "isl (from_json ''2026-01-01T00:00:00'' (minimal_canonical_json ''2.2.0''))"
    using schema_version_gate [OF n(3) n(3) r(2) _ w, of "''2.2.0''" "''2026-01-01T00:00:00''"]
    by (simp add: split_dot_SCHEMA_VERSION)
  have c: "isl (from_json ''2026-01-01T00:00:00'' (minimal_canonical_json ''1.0.0''))"
    using schema_version_gate [OF n(2) n(1) r(2) _ w, of "''1.0.0''" "''2026-01-01T00:00:00''"]
    by (simp add: split_dot_SCHEMA_VERSION)
  have d: "isl (from_json ''2026-01-01T00:00:00'' (minimal_canonical_json ''invalid''))"
    using schema_version_gate [OF n(2) n(3) r(1) _ w, of "''1.2.9''" "''2026-01-01T00:00:00''"]
    by simp
  from a b c d show ?thesis by simp
qed

subsection \<open>Fonts and icons\<close>

lemma allowed_icons_normal: "i \<in> set ALLOWED_ICONS \<Longrightarrow> py_strip (py_lower i) = i"
  by (auto simp add: ALLOWED_ICONS_def py_strip_def py_lower_def strip_by_def py_lower_char_def
      py_isspace_def)

lemma validate_font_message:
  "v \<notin> set ALLOWED_FONTS \<Longrightarrow>
     \<exists>msg. validate_font v = Inl msg \<and> sublist ''ALLOWED_FONTS'' msg
        \<and> sublist (py_repr_str_list (py_sorted ALLOWED_FONTS)) msg"
proof -
  assume a: "v \<notin> set ALLOWED_FONTS"
  let ?pre = "''Font '' @ [CHR 0x27] @ v @ [CHR 0x27] @ '' not in ''"
  let ?lst = "py_repr_str_list (py_sorted ALLOWED_FONTS)"
  have e: "validate_font v = Inl (?pre @ ''ALLOWED_FONTS'' @ ''. Valid fonts: '' @ ?lst)"
    using a by (simp add: validate_font_def)
  have "sublist ''ALLOWED_FONTS'' (?pre @ ''ALLOWED_FONTS'' @ ''. Valid fonts: '' @ ?lst)"
    by (rule sublist_appendI)
  moreover have "sublist ?lst ((?pre @ ''ALLOWED_FONTS'' @ ''. Valid fonts: '') @ ?lst @ [])"
    by (rule sublist_appendI)
  ultimately show ?thesis using e by simp
qed

lemma validate_icon_message:
  "py_strip (py_lower v) \<notin> set ALLOWED_ICONS \<Longrightarrow>
     \<exists>msg. validate_icon v = Inl msg \<and> sublist ''ALLOWED_ICONS'' msg
        \<and> sublist (py_repr_str_list (py_sorted ALLOWED_ICONS)) msg"
proof -
  assume a: "py_strip (py_lower v) \<notin> set ALLOWED_ICONS"
  let ?pre = "''Icon '' @ [CHR 0x27] @ py_strip (py_lower v) @ [CHR 0x27] @ '' not in ''"
  let ?lst = "py_repr_str_list (py_sorted ALLOWED_ICONS)"
  have e: "validate_icon v = Inl (?pre @ ''ALLOWED_ICONS'' @ ''. Valid icons: '' @ ?lst)"
    using a by (simp add: validate_icon_def Let_def)
  have "sublist ''ALLOWED_ICONS'' (?pre @ ''ALLOWED_ICONS'' @ ''. Valid icons: '' @ ?lst)"
    by (rule sublist_appendI)
  moreover have "sublist ?lst ((?pre @ ''ALLOWED_ICONS'' @ ''. Valid icons: '') @ ?lst @ [])"
    by (rule sublist_appendI)
  ultimately show ?thesis using e by simp
qed

lemma Typography_validate_doc:
  "Typography_validate (JObj [(''heading'', JStr h), (''body'', JStr b)]) =
     ap (ap (Inr (\<lambda>a b. \<lparr>heading = a, body = b\<rparr>))
          (at_loc ''heading'' (and_then (Inr h) validate_font)))
        (at_loc ''body'' (and_then (Inr b) validate_font))"
  by (simp add: Typography_validate_def required_def str_field_def)

lemma Feature_validate_doc:
  "Feature_validate (JObj [(''title'', JStr t), (''description'', JStr d), (''icon'', JStr i)]) =
     ap (ap (ap (Inr (\<lambda>a b c. \<lparr>title = a, feat_description = b, icon = c\<rparr>))
          (at_loc ''title'' (str_field True 2 (Some 50) (JStr t))))
          (at_loc ''description'' (str_field True 10 (Some 150) (JStr d))))
        (at_loc ''icon'' (and_then (Inr (str_strip_whitespace i)) validate_icon))"
  by (simp add: Feature_validate_def required_def str_field_def)


text \<open>
  Claim C5. Closed-world enforcement of fonts and icons. Constructing \<open>Typography\<close>
  with a heading and a body that are members of \<open>ALLOWED_FONTS\<close> succeeds; with a
  heading or a body outside it the construction fails, and every entry of the
  validation error is a \<open>ValueError\<close> whose message names \<open>ALLOWED_FONTS\<close>. Constructing
  \<open>Feature\<close> with an icon whose lowercased, stripped form is outside \<open>ALLOWED_ICONS\<close>
  fails with an entry for \<open>icon\<close> whose message names \<open>ALLOWED_ICONS\<close>; with that form in
  \<open>ALLOWED_ICONS\<close> (and a title and a description within their length bounds) it
  succeeds and the stored icon is the lowercased, stripped form of the input; every
  member of \<open>ALLOWED_ICONS\<close> is its own lowercased, stripped form.
\<close>

theorem closed_world_enforcement:
  "(h \<in> set ALLOWED_FONTS \<and> b \<in> set ALLOWED_FONTS \<longrightarrow>
      Typography_validate (JObj [(''heading'', JStr h), (''body'', JStr b)]) =
        Inr \<lparr>heading = h, body = b\<rparr>)
   \<and> (h \<notin> set ALLOWED_FONTS \<or> b \<notin> set ALLOWED_FONTS \<longrightarrow>
      (\<exists>es. Typography_validate (JObj [(''heading'', JStr h), (''body'', JStr b)]) = Inl es
         \<and> es \<noteq> []
         \<and> (\<forall>e \<in> set es. \<exists>msg. snd e = ValueError msg \<and> sublist ''ALLOWED_FONTS'' msg)))
   \<and> (py_strip (py_lower i) \<notin> set ALLOWED_ICONS \<longrightarrow>
      (\<exists>es msg.
         Feature_validate (JObj [(''title'', JStr t), (''description'', JStr d), (''icon'', JStr i)])
           = Inl es
         \<and> ([''icon''], ValueError msg) \<in> set es \<and> sublist ''ALLOWED_ICONS'' msg))
   \<and> (py_strip (py_lower i) \<in> set ALLOWED_ICONS
        \<and> 2 \<le> length (str_strip_whitespace t) \<and> length (str_strip_whitespace t) \<le> 50
        \<and> 10 \<le> length (str_strip_whitespace d) \<and> length (str_strip_whitespace d) \<le> 150 \<longrightarrow>
      Feature_validate (JObj [(''title'', JStr t), (''description'', JStr d), (''icon'', JStr i)])
        = Inr \<lparr>title = str_strip_whitespace t, feat_description = str_strip_whitespace d,
               icon = py_strip (py_lower i)\<rparr>)
   \<and> (i \<in> set ALLOWED_ICONS \<longrightarrow> py_strip (py_lower i) = i)"
proof -
  let ?T = "Typography_validate (JObj [(''heading'', JStr h), (''body'', JStr b)])"
  let ?F = "Feature_validate (JObj [(''title'', JStr t), (''description'', JStr d), (''icon'', JStr i)])"
  have vf: "\<And>v. v \<in> set ALLOWED_FONTS \<Longrightarrow> validate_font v = Inr v"
    by (simp add: validate_font_def)
  have T_ok: "h \<in> set ALLOWED_FONTS \<and> b \<in> set ALLOWED_FONTS \<longrightarrow> ?T = Inr \<lparr>heading = h, body = b\<rparr>"
    by (simp add: Typography_validate_doc vf at_loc_def)
  have T_bad: "h \<notin> set ALLOWED_FONTS \<or> b \<notin> set ALLOWED_FONTS \<longrightarrow>
      (\<exists>es. ?T = Inl es \<and> es \<noteq> []
         \<and> (\<forall>e \<in> set es. \<exists>msg. snd e = ValueError msg \<and> sublist ''ALLOWED_FONTS'' msg))"
  proof
    assume bad: "h \<notin> set ALLOWED_FONTS \<or> b \<notin> set ALLOWED_FONTS"
    show "\<exists>es. ?T = Inl es \<and> es \<noteq> []
         \<and> (\<forall>e \<in> set es. \<exists>msg. snd e = ValueError msg \<and> sublist ''ALLOWED_FONTS'' msg)"
    proof (cases "h \<in> set ALLOWED_FONTS")
      case True
      then have nb: "b \<notin> set ALLOWED_FONTS" using bad by simp
      obtain m where "validate_font b = Inl m" "sublist ''ALLOWED_FONTS'' m"
        using validate_font_message [OF nb] by blast
      then show ?thesis using True by (simp add: Typography_validate_doc vf at_loc_def)
    next
      case nh: False
      obtain m where m: "validate_font h = Inl m" "sublist ''ALLOWED_FONTS'' m"
        using validate_font_message [OF nh] by blast
      show ?thesis
      proof (cases "b \<in> set ALLOWED_FONTS")
        case True
        then show ?thesis using m by (simp add: Typography_validate_doc vf at_loc_def)
      next
        case nb: False
        obtain m' where "validate_font b = Inl m'" "sublist ''ALLOWED_FONTS'' m'"
          using validate_font_message [OF nb] by blast
        then show ?thesis using m by (simp add: Typography_validate_doc at_loc_def)
      qed
    qed
  qed
  have F_bad: "py_strip (py_lower i) \<notin> set ALLOWED_ICONS \<longrightarrow>
      (\<exists>es msg. ?F = Inl es \<and> ([''icon''], ValueError msg) \<in> set es
         \<and> sublist ''ALLOWED_ICONS'' msg)"
  proof
    assume "py_strip (py_lower i) \<notin> set ALLOWED_ICONS"
    then have "py_strip (py_lower (str_strip_whitespace i)) \<notin> set ALLOWED_ICONS"
      by (simp add: icon_normal_form)
    then obtain m where m: "validate_icon (str_strip_whitespace i) = Inl m"
        "sublist ''ALLOWED_ICONS'' m"
      using validate_icon_message by blast
    have "at_loc ''icon'' (and_then (Inr (str_strip_whitespace i)) validate_icon) =
        Inl [([''icon''], ValueError m)]"
      using m(1) by (simp add: at_loc_def)
    then obtain pre where "?F = Inl (pre @ [([''icon''], ValueError m)])"
      unfolding Feature_validate_doc using ap_Inl_right by metis
    then show "\<exists>es msg. ?F = Inl es \<and> ([''icon''], ValueError msg) \<in> set es
         \<and> sublist ''ALLOWED_ICONS'' msg"
      using m(2) by auto
  qed
  have F_ok: "py_strip (py_lower i) \<in> set ALLOWED_ICONS
        \<and> 2 \<le> length (str_strip_whitespace t) \<and> length (str_strip_whitespace t) \<le> 50
        \<and> 10 \<le> length (str_strip_whitespace d) \<and> length (str_strip_whitespace d) \<le> 150 \<longrightarrow>
      ?F = Inr \<lparr>title = str_strip_whitespace t, feat_description = str_strip_whitespace d,
               icon = py_strip (py_lower i)\<rparr>"
  proof
    assume a: "py_strip (py_lower i) \<in> set ALLOWED_ICONS
        \<and> 2 \<le> length (str_strip_whitespace t) \<and> length (str_strip_whitespace t) \<le> 50
        \<and> 10 \<le> length (str_strip_whitespace d) \<and> length (str_strip_whitespace d) \<le> 150"
    then have "validate_icon (str_strip_whitespace i) = Inr (py_strip (py_lower i))"
      by (simp add: validate_icon_def Let_def icon_normal_form)
    then show "?F = Inr \<lparr>title = str_strip_whitespace t, feat_description = str_strip_whitespace d,
               icon = py_strip (py_lower i)\<rparr>"
      using a by (simp add: Feature_validate_doc str_field_def at_loc_def)
  qed
  have F_mem: "i \<in> set ALLOWED_ICONS \<longrightarrow> py_strip (py_lower i) = i"
    using allowed_icons_normal by blast
  from T_ok T_bad F_bad F_ok F_mem show ?thesis by blast
qed


theorem closed_world_enforcement_witness:
  "Typography_validate (JObj [(''heading'', JStr ''Inter''), (''body'', JStr ''Roboto'')]) =
     Inr \<lparr>heading = ''Inter'', body = ''Roboto''\<rparr>
   \<and> isl (Typography_validate (JObj [(''heading'', JStr ''Comic Sans''), (''body'', JStr ''Inter'')]))
   \<and> Feature_validate (JObj [(''title'', JStr ''Test Feature''),
         (''description'', JStr ''This is a test feature description.''),
         (''icon'', JStr ''ROCKET'')]) =
       Inr \<lparr>title = ''Test Feature'', feat_description = ''This is a test feature description.'',
            icon = ''rocket''\<rparr>
   \<and> isl (Feature_validate (JObj [(''title'', JStr ''Test Feature''),
         (''description'', JStr ''This is a test feature description.''),
         (''icon'', JStr ''invalid_icon'')]))"
proof -
  have f: "''Inter'' \<in> set ALLOWED_FONTS" "''Roboto'' \<in> set ALLOWED_FONTS"
      "''Comic Sans'' \<notin> set ALLOWED_FONTS"
    by (simp_all add: ALLOWED_FONTS_def)
  have t: "str_strip_whitespace ''Test Feature'' = ''Test Feature''"
      "str_strip_whitespace ''This is a test feature description.'' =
         ''This is a test feature description.''"
    by (simp_all add: str_strip_whitespace_def strip_by_def core_isspace_def)
  have i: "py_strip (py_lower ''ROCKET'') = ''rocket''"
      "py_strip (py_lower ''invalid_icon'') = ''invalid_icon''"
    by code_simp+
  have m: "''rocket'' \<in> set ALLOWED_ICONS" "''invalid_icon'' \<notin> set ALLOWED_ICONS"
    by (simp_all add: ALLOWED_ICONS_def)
  have 1: "Typography_validate (JObj [(''heading'', JStr ''Inter''), (''body'', JStr ''Roboto'')]) =
     Inr \<lparr>heading = ''Inter'', body = ''Roboto''\<rparr>"
    using closed_world_enforcement [of "''Inter''" "''Roboto''" "[]" "[]" "[]"] f by blast
  have 2: "isl (Typography_validate (JObj [(''heading'', JStr ''Comic Sans''), (''body'', JStr ''Inter'')]))"
    using closed_world_enforcement [of "''Comic Sans''" "''Inter''" "[]" "[]" "[]"] f by auto
  have 3: "Feature_validate (JObj [(''title'', JStr ''Test Feature''),
         (''description'', JStr ''This is a test feature description.''),
         (''icon'', JStr ''ROCKET'')]) =
       Inr \<lparr>title = ''Test Feature'', feat_description = ''This is a test feature description.'',
            icon = ''rocket''\<rparr>"
    using closed_world_enforcement [of "[]" "[]" "''ROCKET''" "''Test Feature''"
        "''This is a test feature description.''"] m
    by (simp add: t i)
  have 4: "isl (Feature_validate (JObj [(''title'', JStr ''Test Feature''),
         (''description'', JStr ''This is a test feature description.''),
         (''icon'', JStr ''invalid_icon'')]))"
    using closed_world_enforcement [of "[]" "[]" "''invalid_icon''" "''Test Feature''"
        "''This is a test feature description.''"] m
    by (auto simp add: i)
  from 1 2 3 4 show ?thesis by blast
qed

section \<open>Properties of attribute assignment\<close>

lemma validate_variant_id_bounds_id: "validate_variant_id_bounds d = d"
  by (simp add: validate_variant_id_bounds_def Let_def split: option.splits)

text \<open>
  Claim C9, as stated, fails on the nested entities: the variant id 99 violates the
  bound of \<open>RenderConfig.variant_id\<close> (the construction rejects it) and the two-character
  headline violates the bound of \<open>HeroSection.headline\<close>, yet assigning them to an
  existing \<open>RenderConfig\<close> and an existing \<open>HeroSection\<close> raises nothing and changes the
  entity.
\<close>

theorem nested_assignment_not_validated:
  "RenderConfig_validate (JObj [(''template_type'', JStr ''saas''), (''variant_id'', JInt 99)]) =
     Inl [([''variant_id''], LessThanEqual 10)]
   \<and> RenderConfig_setattr_variant_id \<lparr>template_type = ''saas'', variant_id = 0\<rparr> 99 =
       (\<lparr>template_type = ''saas'', variant_id = 99\<rparr>, None)
   \<and> HeroSection_validate (JObj [(''headline'', JStr ''Hi''),
         (''subheadline'', JStr ''This is the subheadline that explains what we do in detail.''),
         (''cta_text'', JStr ''Get Started'')]) =
       Inl [([''headline''], StringTooShort 5)]
   \<and> HeroSection_setattr_headline (hero valid_landing_content) ''Hi'' =
       (\<lparr>headline = ''Hi'',
         subheadline = ''This is the subheadline that explains what we do in detail.'',
         cta_text = ''Get Started''\<rparr>, None)"
  by code_simp

lemma setattr_content_rejects:
  "isl (LandingContent_validate j) \<Longrightarrow> j \<noteq> JNull \<Longrightarrow>
     fst (CanonicalData_setattr_content d (Plain j)) = d
     \<and> snd (CanonicalData_setattr_content d (Plain j)) \<noteq> None"
  by (cases "LandingContent_validate j"; cases j)
     (auto simp add: CanonicalData_setattr_content_def CanonicalData_setattr_def
        assigned_value_def at_loc_def optional_model_def)

text \<open>
  Claim C9, amended. Validation on assignment is performed by the aggregate
  \<open>CanonicalData\<close> only. Assigning plain data to its field \<open>render\<close> validates it as the
  construction of \<open>RenderConfig\<close> does: when that fails the assignment raises the
  validation error, located under \<open>render\<close>, and the document is unchanged; when it
  succeeds the field takes the validated value; an instance of \<open>RenderConfig\<close> is
  stored as it is. In particular an out-of-bounds variant id, or content whose
  headline is under-length, assigned as plain data to the document is rejected and
  leaves it unchanged. An assignment to \<open>variant_id\<close> of a \<open>RenderConfig\<close> or to \<open>headline\<close>
  of a \<open>HeroSection\<close> is not validated: it raises nothing and the entity takes the value.
\<close>

theorem assignment_validation:
  "(RenderConfig_validate j = Inl e \<longrightarrow>
      CanonicalData_setattr_render d (Plain j) =
        (d, Some (map (\<lambda>(loc, k). (''render'' # loc, k)) e)))
   \<and> (RenderConfig_validate j = Inr rc \<longrightarrow>
      CanonicalData_setattr_render d (Plain j) = (d\<lparr>render := rc\<rparr>, None))
   \<and> CanonicalData_setattr_render d (Instance rc') = (d\<lparr>render := rc'\<rparr>, None)
   \<and> (v < 0 \<or> 10 < v \<longrightarrow>
      fst (CanonicalData_setattr_render d (Plain (JObj [(''variant_id'', JInt v)]))) = d
      \<and> snd (CanonicalData_setattr_render d (Plain (JObj [(''variant_id'', JInt v)]))) \<noteq> None)
   \<and> (length (str_strip_whitespace s) < 5 \<longrightarrow>
      fst (CanonicalData_setattr_content d (Plain (LandingContent_dump (c\<lparr>hero := (hero c)\<lparr>headline := s\<rparr>\<rparr>)))) = d
      \<and> snd (CanonicalData_setattr_content d (Plain (LandingContent_dump (c\<lparr>hero := (hero c)\<lparr>headline := s\<rparr>\<rparr>)))) \<noteq> None)
   \<and> RenderConfig_setattr_variant_id r v = (r\<lparr>variant_id := v\<rparr>, None)
   \<and> HeroSection_setattr_headline h s = (h\<lparr>headline := s\<rparr>, None)"
proof -
  have 1: "RenderConfig_validate j = Inl e \<longrightarrow>
      CanonicalData_setattr_render d (Plain j) =
        (d, Some (map (\<lambda>(loc, k). (''render'' # loc, k)) e))"
    by (simp add: CanonicalData_setattr_render_def CanonicalData_setattr_def assigned_value_def
        at_loc_def)
  have 2: "RenderConfig_validate j = Inr rc \<longrightarrow>
      CanonicalData_setattr_render d (Plain j) = (d\<lparr>render := rc\<rparr>, None)"
    by (simp add: CanonicalData_setattr_render_def CanonicalData_setattr_def assigned_value_def
        at_loc_def validate_variant_id_bounds_id)
  have 3: "CanonicalData_setattr_render d (Instance rc') = (d\<lparr>render := rc'\<rparr>, None)"
    by (simp add: CanonicalData_setattr_render_def CanonicalData_setattr_def assigned_value_def
        at_loc_def validate_variant_id_bounds_id)
  have 4: "v < 0 \<or> 10 < v \<longrightarrow>
      fst (CanonicalData_setattr_render d (Plain (JObj [(''variant_id'', JInt v)]))) = d
      \<and> snd (CanonicalData_setattr_render d (Plain (JObj [(''variant_id'', JInt v)]))) \<noteq> None"
    by (auto simp add: CanonicalData_setattr_render_def CanonicalData_setattr_def assigned_value_def
        at_loc_def RenderConfig_validate_def with_default_def int_field_def)
  have "length (str_strip_whitespace s) < 5 \<Longrightarrow>
      isl (LandingContent_validate (LandingContent_dump (c\<lparr>hero := (hero c)\<lparr>headline := s\<rparr>\<rparr>)))"
    by (simp add: LandingContent_validate_def LandingContent_dump_def isl_ap required_def
        isl_at_loc HeroSection_validate_def HeroSection_dump_def str_field_def)
  moreover have "LandingContent_dump (c\<lparr>hero := (hero c)\<lparr>headline := s\<rparr>\<rparr>) \<noteq> JNull"
    by (simp add: LandingContent_dump_def)
  ultimately have 5: "length (str_strip_whitespace s) < 5 \<longrightarrow>
      fst (CanonicalData_setattr_content d (Plain (LandingContent_dump (c\<lparr>hero := (hero c)\<lparr>headline := s\<rparr>\<rparr>)))) = d
      \<and> snd (CanonicalData_setattr_content d (Plain (LandingContent_dump (c\<lparr>hero := (hero c)\<lparr>headline := s\<rparr>\<rparr>)))) \<noteq> None"
    using setattr_content_rejects by blast
  have 6: "RenderConfig_setattr_variant_id r v = (r\<lparr>variant_id := v\<rparr>, None)"
    by (simp add: RenderConfig_setattr_variant_id_def)
  have 7: "HeroSection_setattr_headline h s = (h\<lparr>headline := s\<rparr>, None)"
    by (simp add: HeroSection_setattr_headline_def)
  from 1 2 3 4 5 6 7 show ?thesis by blast
qed


theorem assignment_validation_witness:
  "CanonicalData_setattr_render example_document (Plain (JObj [(''variant_id'', JInt 99)])) =
     (example_document, Some [([''render'', ''variant_id''], LessThanEqual 10)])
   \<and> RenderConfig_setattr_variant_id RenderConfig_default 99 =
       (RenderConfig_default\<lparr>variant_id := 99\<rparr>, None)
   \<and> HeroSection_setattr_headline (hero valid_landing_content) ''Hi'' =
       ((hero valid_landing_content)\<lparr>headline := ''Hi''\<rparr>, None)"
proof -
  have e: "RenderConfig_validate (JObj [(''variant_id'', JInt 99)]) =
      Inl [([''variant_id''], LessThanEqual 10)]"
    by (simp add: RenderConfig_validate_def with_default_def int_field_def at_loc_def)
  show ?thesis
    using assignment_validation [of "JObj [(''variant_id'', JInt 99)]"
        "[([''variant_id''], LessThanEqual 10)]" example_document RenderConfig_default
        RenderConfig_default 99 "''Hi''" valid_landing_content RenderConfig_default
        "hero valid_landing_content"] e
    by simp
qed

section \<open>Properties of the pipeline\<close>

lemma setattr_brand_instance:
  "CanonicalData_setattr_brand d (Instance x) = (d\<lparr>brand := x\<rparr>, None)"
  by (simp add: CanonicalData_setattr_brand_def CanonicalData_setattr_def assigned_value_def
      at_loc_def validate_variant_id_bounds_id)

lemma setattr_content_instance:
  "CanonicalData_setattr_content d (Instance x) = (d\<lparr>content := x\<rparr>, None)"
  by (simp add: CanonicalData_setattr_content_def CanonicalData_setattr_def assigned_value_def
      at_loc_def validate_variant_id_bounds_id)

lemma setattr_assets_instance:
  "CanonicalData_setattr_assets d (Instance x) = (d\<lparr>assets := x\<rparr>, None)"
  by (simp add: CanonicalData_setattr_assets_def CanonicalData_setattr_def assigned_value_def
      at_loc_def validate_variant_id_bounds_id)

lemma LandingAgent_run_keeps:
  assumes "LandingAgent_run self renderer d = (d', res)"
  shows "brand d' = brand d \<and> meta d' = meta d \<and> project d' = project d \<and> render d' = render d"
  using assms
  by (auto simp add: LandingAgent_run_def setattr_assets_instance setattr_content_instance
      split: sum.splits)

lemma LandingAgent_run_content:
  assumes "LandingAgent_run self renderer d = (d', Inr (c, page))"
  shows "content d' = Some c"
  using assms
  by (auto simp add: LandingAgent_run_def setattr_assets_instance setattr_content_instance
      split: sum.splits)

lemma RenderConfig_of_template_type:
  "t \<in> set TemplateType \<Longrightarrow>
     RenderConfig_validate (JObj [(''template_type'', JStr t)]) =
       Inr \<lparr>template_type = t, variant_id = 0\<rparr>"
  by (simp add: RenderConfig_validate_def with_default_def literal_field_def at_loc_def)

text \<open>
  Claim C8. Stage 2 failure recovery: in a run where the onboarding agent returns a
  project, the brand agent raises, and the landing agent succeeds on the document the
  first two stages leave (the project, the default brand, the steps \<open>onboarding\<close> and
  \<open>brand:fallback\<close>), \<open>run\<close> returns a result: its document carries
  \<open>DefaultBrand.IDENTITY\<close> as brand and the content of the landing agent, its step log
  is \<open>onboarding\<close>, \<open>brand:fallback\<close>, \<open>landing\<close>, its list of errors holds the one
  message of the brand failure, and its page is the page the landing agent rendered. The flag
  \<open>success\<close> of the result is false, the list of errors being non-empty.
\<close>

theorem stage2_failure_recovery:
  assumes "onboarding_agent self ui = Inr p"
    and "ui_template_type ui \<in> set TemplateType"
    and "brand_agent self p = Inl e"
    and "LandingAgent_run self renderer
           \<lparr>meta = \<lparr>schema_version = SCHEMA_VERSION, generated_at = now,
                     pipeline_steps = [''onboarding'', ''brand:fallback'']\<rparr>,
            project = p, brand = Some DefaultBrand_IDENTITY, content = None,
            assets = AssetSlots_default,
            render = \<lparr>template_type = ui_template_type ui, variant_id = 0\<rparr>\<rparr>
         = (d3, Inr (c, page))"
  shows "\<exists>res d. run self renderer now ui = Inr res
     \<and> canonical_data res = Some d
     \<and> brand d = Some DefaultBrand_IDENTITY
     \<and> pipeline_steps (meta d) = [''onboarding'', ''brand:fallback'', ''landing'']
     \<and> errors res = [''BrandAgent failed (using defaults): '' @ exn_str self e]
     \<and> html res = Some page
     \<and> content d = Some c
     \<and> success res = False"
proof -
  let ?d2 = "\<lparr>meta = \<lparr>schema_version = SCHEMA_VERSION, generated_at = now,
                     pipeline_steps = [''onboarding'', ''brand:fallback'']\<rparr>,
            project = p, brand = Some DefaultBrand_IDENTITY, content = None,
            assets = AssetSlots_default,
            render = \<lparr>template_type = ui_template_type ui, variant_id = 0\<rparr>\<rparr>"
  have stage2: "brand_stage self p
      (add_step (CanonicalData_init now p \<lparr>template_type = ui_template_type ui, variant_id = 0\<rparr>)
         ''onboarding'')
      = Inr (?d2, [''BrandAgent failed (using defaults): '' @ exn_str self e])"
    using assms(3)
    by (simp add: brand_stage_def brand_fallback_def setattr_brand_instance add_step_def
        CanonicalData_init_def validate_variant_id_bounds_id GenerationMeta_default_def)
  have keep: "brand d3 = Some DefaultBrand_IDENTITY"
      "meta d3 = \<lparr>schema_version = SCHEMA_VERSION, generated_at = now,
                     pipeline_steps = [''onboarding'', ''brand:fallback'']\<rparr>"
    using LandingAgent_run_keeps [OF assms(4)] by simp_all
  have "run self renderer now ui =
      Inr \<lparr>canonical_data = Some (add_step (d3\<lparr>content := Some c\<rparr>) ''landing''),
           html = Some page, success = False,
           errors = [''BrandAgent failed (using defaults): '' @ exn_str self e]\<rparr>"
    using assms(1,4) stage2
    by (simp add: run_def RenderConfig_of_template_type [OF assms(2)] setattr_content_instance)
  then show ?thesis using keep by (simp add: add_step_def)
qed

theorem stage2_failure_recovery_witness:
  "\<exists>res d. run example_pipeline installed_renderer ''2026-01-01T00:00:00'' example_user_input
        = Inr res
     \<and> canonical_data res = Some d
     \<and> brand d = Some DefaultBrand_IDENTITY
     \<and> pipeline_steps (meta d) = [''onboarding'', ''brand:fallback'', ''landing'']
     \<and> errors res = [''BrandAgent failed (using defaults): timeout'']
     \<and> html res \<noteq> None"
proof -
  let ?d2 = "\<lparr>meta = \<lparr>schema_version = SCHEMA_VERSION, generated_at = ''2026-01-01T00:00:00'',
                     pipeline_steps = [''onboarding'', ''brand:fallback'']\<rparr>,
            project = valid_project_info, brand = Some DefaultBrand_IDENTITY, content = None,
            assets = AssetSlots_default,
            render = \<lparr>template_type = ui_template_type example_user_input, variant_id = 0\<rparr>\<rparr>"
  have "\<not> isl (snd (LandingAgent_run example_pipeline installed_renderer ?d2))"
    by code_simp
  then obtain d3 c page where
    s3: "LandingAgent_run example_pipeline installed_renderer ?d2 = (d3, Inr (c, page))"
    by (cases "LandingAgent_run example_pipeline installed_renderer ?d2";
        cases "snd (LandingAgent_run example_pipeline installed_renderer ?d2)") auto
  have s1: "onboarding_agent example_pipeline example_user_input = Inr valid_project_info"
    by (simp add: example_pipeline_def)
  have tt: "ui_template_type example_user_input \<in> set TemplateType"
    by (simp add: example_user_input_def TemplateType_def)
  have s2: "brand_agent example_pipeline valid_project_info = Inl (LLMError ''timeout'')"
    by (simp add: example_pipeline_def)
  have "exn_str example_pipeline (LLMError ''timeout'') = ''timeout''"
    by (simp add: exn_str_def)
  then show ?thesis
    using stage2_failure_recovery [OF s1 tt s2 s3] by auto
qed

section \<open>Serialization round trip\<close>

lemma stripped_fixed: "stripped s \<Longrightarrow> str_strip_whitespace s = s"
  by (simp add: stripped_def str_strip_whitespace_def strip_by_fixed_iff)

lemma py_stripped_fixed: "py_stripped s \<Longrightarrow> py_strip s = s"
  by (simp add: py_stripped_def py_strip_def strip_by_fixed_iff)

lemma py_stripped_stripped: "py_stripped s \<Longrightarrow> stripped s"
  using core_isspace_py by (auto simp add: py_stripped_def stripped_def)

lemma str_field_ok:
  "str_ok lo hi s \<Longrightarrow> str_field True lo (Some hi) (JStr s) = Inr s"
  by (simp add: str_ok_def str_field_def stripped_fixed)

lemma str_field_min_ok:
  "stripped s \<Longrightarrow> lo \<le> length s \<Longrightarrow> str_field True lo None (JStr s) = Inr s"
  by (simp add: str_field_def stripped_fixed)

lemma str_field_plain: "str_field False 0 None (JStr s) = Inr s"
  by (simp add: str_field_def)

lemma str_field_strip_any: "str_field True 0 None (JStr s) = Inr (str_strip_whitespace s)"
  by (simp add: str_field_def)

lemma at_loc_Inr: "at_loc n (Inr x) = Inr x"
  by (simp add: at_loc_def)

lemma validate_items_dump:
  "(\<And>x. x \<in> set xs \<Longrightarrow> f (g x) = Inr x) \<Longrightarrow> validate_items f i (map g xs) = Inr xs"
  by (induction xs arbitrary: i) (simp_all add: at_loc_Inr)

lemma list_field_dump:
  assumes "\<And>x. x \<in> set xs \<Longrightarrow> f (g x) = Inr x"
    and "lo \<le> length xs" and "case hi of None \<Rightarrow> True | Some h \<Rightarrow> length xs \<le> h"
  shows "list_field lo hi f (JArr (map g xs)) = Inr xs"
  using assms(2,3) validate_items_dump [of xs f g 0, OF assms(1)]
  by (auto simp add: list_field_def split: option.splits)


lemma validate_keywords_ok:
  assumes "3 \<le> length kws" and "list_all keyword_ok kws"
  shows "validate_keywords kws = Inr kws"
proof -
  have k: "\<And>kw. kw \<in> set kws \<Longrightarrow> py_strip kw = kw \<and> kw \<noteq> [] \<and> py_lower kw = kw"
    using assms(2) by (auto simp add: list_all_iff keyword_ok_def py_stripped_fixed)
  then have "filter (\<lambda>kw. py_strip kw \<noteq> []) kws = kws"
    by (simp add: filter_id_conv)
  moreover have "map (\<lambda>kw. py_lower (py_strip kw)) kws = kws"
    using k by (simp add: map_idI)
  ultimately show ?thesis using assms(1) by (simp add: validate_keywords_def)
qed

lemma strip_items_ok:
  assumes "list_all item_ok xs"
  shows "map py_strip (filter (\<lambda>x. py_strip x \<noteq> []) xs) = xs"
proof -
  have k: "\<And>x. x \<in> set xs \<Longrightarrow> py_strip x = x \<and> x \<noteq> []"
    using assms by (auto simp add: list_all_iff item_ok_def py_stripped_fixed)
  then have "filter (\<lambda>x. py_strip x \<noteq> []) xs = xs"
    by (simp add: filter_id_conv)
  then show ?thesis using k by (simp add: map_idI)
qed

lemma ProjectInfo_roundtrip:
  assumes "ProjectInfo_valid p"
  shows "ProjectInfo_validate (ProjectInfo_dump p) = Inr p"
proof -
  have kw: "list_field 3 (Some 7) (str_field True 0 None) (JArr (map JStr (keywords p)))
      = Inr (keywords p)"
  proof (rule list_field_dump)
    fix x assume "x \<in> set (keywords p)"
    then have "stripped x"
      using assms by (auto simp add: ProjectInfo_valid_def list_all_iff keyword_ok_def
          py_stripped_stripped)
    then show "str_field True 0 None (JStr x) = Inr x" by (simp add: str_field_min_ok)
  qed (use assms in \<open>simp_all add: ProjectInfo_valid_def\<close>)
  have vk: "validate_keywords (keywords p) = Inr (keywords p)"
    using assms by (simp add: validate_keywords_ok ProjectInfo_valid_def)
  have tn: "literal_field ToneType (JStr (tone p)) = Inr (tone p)"
      "validate_tone_exists (tone p) = Inr (tone p)"
    using assms
    by (simp_all add: ProjectInfo_valid_def literal_field_def validate_tone_exists_def
        ToneType_def TONE_PRESETS_keys_def)
  show ?thesis
    using assms kw vk tn
    by (simp add: ProjectInfo_validate_def ProjectInfo_dump_def ProjectInfo_valid_def
        required_def with_default_def at_loc_Inr str_field_ok str_field_min_ok)
qed

lemma ColorPalette_roundtrip:
  "ColorPalette_valid c \<Longrightarrow> ColorPalette_validate (ColorPalette_dump c) = Inr c"
  by (simp add: ColorPalette_validate_def ColorPalette_dump_def ColorPalette_valid_def
      required_def at_loc_Inr hex_color_field_def)

lemma Typography_roundtrip:
  "Typography_valid t \<Longrightarrow> Typography_validate (Typography_dump t) = Inr t"
  by (simp add: Typography_validate_def Typography_dump_def Typography_valid_def
      required_def at_loc_Inr str_field_plain validate_font_def)

lemma BrandIdentity_roundtrip:
  assumes "BrandIdentity_valid b"
  shows "BrandIdentity_validate (BrandIdentity_dump b) = Inr b"
proof -
  have l: "list_field 2 (Some 5) (str_field False 0 None) (JArr (map JStr (tone_rules b)))
      = Inr (tone_rules b)"
    by (rule list_field_dump) (use assms in \<open>simp_all add: BrandIdentity_valid_def str_field_plain\<close>)
  have v: "validate_tone_rules_not_empty (tone_rules b) = Inr (tone_rules b)"
    using assms
    by (simp add: validate_tone_rules_not_empty_def strip_items_ok BrandIdentity_valid_def)
  show ?thesis
    using assms l v
    by (simp add: BrandIdentity_validate_def BrandIdentity_dump_def BrandIdentity_valid_def
        required_def at_loc_Inr ColorPalette_roundtrip Typography_roundtrip)
qed

lemma HeroSection_roundtrip:
  "HeroSection_valid h \<Longrightarrow> HeroSection_validate (HeroSection_dump h) = Inr h"
  by (simp add: HeroSection_validate_def HeroSection_dump_def HeroSection_valid_def
      required_def at_loc_Inr str_field_ok)

lemma Feature_roundtrip:
  assumes "Feature_valid f"
  shows "Feature_validate (Feature_dump f) = Inr f"
proof -
  have i: "icon f \<in> set ALLOWED_ICONS" using assms by (simp add: Feature_valid_def)
  have "py_strip (py_lower (icon f)) = icon f" by (rule allowed_icons_normal [OF i])
  then have "validate_icon (str_strip_whitespace (icon f)) = Inr (icon f)"
    using i by (simp add: validate_icon_def icon_normal_form)
  then show ?thesis
    using assms
    by (simp add: Feature_validate_def Feature_dump_def Feature_valid_def
        required_def at_loc_Inr str_field_ok str_field_strip_any)
qed

lemma Testimonial_roundtrip:
  "Testimonial_valid t \<Longrightarrow> Testimonial_validate (Testimonial_dump t) = Inr t"
  by (simp add: Testimonial_validate_def Testimonial_dump_def Testimonial_valid_def
      required_def at_loc_Inr str_field_ok)

lemma variants_list_roundtrip:
  assumes "length xs \<le> 3" and "list_all item_ok xs"
  shows "and_then (list_field 0 (Some 3) (str_field False 0 None) (JArr (map JStr xs)))
           validate_variants_not_empty_strings = Inr xs"
proof -
  have "list_field 0 (Some 3) (str_field False 0 None) (JArr (map JStr xs)) = Inr xs"
    by (rule list_field_dump) (use assms in \<open>simp_all add: str_field_plain\<close>)
  then show ?thesis
    using assms(2) by (simp add: validate_variants_not_empty_strings_def strip_items_ok)
qed

lemma ContentVariants_roundtrip:
  "ContentVariants_valid v \<Longrightarrow> ContentVariants_validate (ContentVariants_dump v) = Inr v"
  by (simp add: ContentVariants_validate_def ContentVariants_dump_def ContentVariants_valid_def
      with_default_def at_loc_Inr variants_list_roundtrip)

lemma SectionsConfig_roundtrip:
  "SectionsConfig_validate (SectionsConfig_dump s) = Inr s"
  by (simp add: SectionsConfig_validate_def SectionsConfig_dump_def with_default_def
      at_loc_Inr bool_field_def)

lemma dict_items_str_dump:
  "dict_items (str_field False 0 None) (map (\<lambda>(k, v). (k, JStr v)) kv) = Inr kv"
  by (induction kv) (auto simp add: str_field_plain at_loc_Inr)

lemma dict_items_any: "dict_items any_field kv = Inr kv"
  by (induction kv) (auto simp add: any_field_def at_loc_Inr)

lemma LandingContent_roundtrip:
  assumes "LandingContent_valid c"
  shows "LandingContent_validate (LandingContent_dump c) = Inr c"
proof -
  have f: "list_field 3 (Some 6) Feature_validate (JArr (map Feature_dump (features c)))
      = Inr (features c)"
    by (rule list_field_dump)
       (use assms in \<open>simp_all add: LandingContent_valid_def list_all_iff Feature_roundtrip\<close>)
  have q: "list_field 0 (Some 6) (dict_field (str_field False 0 None))
      (JArr (map (\<lambda>kv. JObj (map (\<lambda>(k, v). (k, JStr v)) kv)) (faq_items c))) = Inr (faq_items c)"
    by (rule list_field_dump)
       (use assms in \<open>simp_all add: LandingContent_valid_def dict_field_def dict_items_str_dump\<close>)
  have pp: "list_field 0 (Some 3) (dict_field any_field) (JArr (map JObj (pricing_plans c)))
      = Inr (pricing_plans c)"
    by (rule list_field_dump)
       (use assms in \<open>simp_all add: LandingContent_valid_def dict_field_def dict_items_any\<close>)
  have fc: "str_field False 5 (Some 100) (JStr (footer_cta c)) = Inr (footer_cta c)"
    using assms by (simp add: LandingContent_valid_def str_field_def)
  show ?thesis
    using assms f q pp fc
    by (simp add: LandingContent_validate_def LandingContent_dump_def LandingContent_valid_def
        required_def with_default_def at_loc_Inr HeroSection_roundtrip Testimonial_roundtrip
        ContentVariants_roundtrip SectionsConfig_roundtrip)
qed

lemma opt_str_field_dump: "opt_str_ok hi s \<Longrightarrow> opt_str_field hi (opt_str_dump s) = Inr s"
  by (cases s) (simp_all add: opt_str_ok_def opt_str_field_def opt_str_dump_def)

lemma AssetSlots_roundtrip:
  assumes "AssetSlots_valid a"
  shows "AssetSlots_validate (AssetSlots_dump a) = Inr a"
proof -
  have l: "list_field 0 (Some 4) (str_field False 0 None) (JArr (map JStr (screenshot_prompts a)))
      = Inr (screenshot_prompts a)"
    by (rule list_field_dump) (use assms in \<open>simp_all add: AssetSlots_valid_def str_field_plain\<close>)
  show ?thesis
    using assms l
    by (simp add: AssetSlots_validate_def AssetSlots_dump_def AssetSlots_valid_def
        with_default_def at_loc_Inr opt_str_field_dump)
qed

lemma RenderConfig_roundtrip:
  "RenderConfig_valid r \<Longrightarrow> RenderConfig_validate (RenderConfig_dump r) = Inr r"
  by (simp add: RenderConfig_validate_def RenderConfig_dump_def RenderConfig_valid_def
      with_default_def at_loc_Inr literal_field_def int_field_def)

lemma GenerationMeta_roundtrip:
  assumes "GenerationMeta_valid m"
  shows "GenerationMeta_validate now (GenerationMeta_dump m) = Inr m"
proof -
  have v: "validate_schema_version (schema_version m) = Inr (schema_version m)"
    using assms by (simp add: GenerationMeta_valid_def validate_schema_version_def Let_def)
  have l: "list_field 0 None (str_field False 0 None) (JArr (map JStr (pipeline_steps m)))
      = Inr (pipeline_steps m)"
    by (rule list_field_dump) (simp_all add: str_field_plain)
  show ?thesis
    using v l
    by (simp add: GenerationMeta_validate_def GenerationMeta_dump_def
        with_default_def at_loc_Inr str_field_plain)
qed

lemma optional_model_Some:
  "f j = Inr x \<Longrightarrow> j \<noteq> JNull \<Longrightarrow> optional_model f j = Inr (Some x)"
  by (cases j) (simp_all add: optional_model_def)

text \<open>
  Documents within the declared field constraints (\<open>CanonicalData_valid\<close>: the bounds,
  patterns, allow-lists and normal forms the fields declare) are reproduced by
  \<open>from_json\<close> from their \<open>to_json\<close>, in every field.
\<close>

lemma serialization_roundtrip:
  assumes "CanonicalData_valid d"
  shows "from_json now (to_json d) = Inr d"
proof -
  have b: "optional_model BrandIdentity_validate
      (case brand d of None \<Rightarrow> JNull | Some b \<Rightarrow> BrandIdentity_dump b) = Inr (brand d)"
  proof (cases "brand d")
    case None
    then show ?thesis by (simp add: optional_model_def)
  next
    case (Some x)
    then have "BrandIdentity_validate (BrandIdentity_dump x) = Inr x"
      using assms by (simp add: CanonicalData_valid_def BrandIdentity_roundtrip)
    moreover have "BrandIdentity_dump x \<noteq> JNull" by (simp add: BrandIdentity_dump_def)
    ultimately show ?thesis using Some by (simp add: optional_model_Some)
  qed
  have c: "optional_model LandingContent_validate
      (case content d of None \<Rightarrow> JNull | Some c \<Rightarrow> LandingContent_dump c) = Inr (content d)"
  proof (cases "content d")
    case None
    then show ?thesis by (simp add: optional_model_def)
  next
    case (Some x)
    then have "LandingContent_validate (LandingContent_dump x) = Inr x"
      using assms by (simp add: CanonicalData_valid_def LandingContent_roundtrip)
    moreover have "LandingContent_dump x \<noteq> JNull" by (simp add: LandingContent_dump_def)
    ultimately show ?thesis using Some by (simp add: optional_model_Some)
  qed
  show ?thesis
    using assms b c
    by (simp add: from_json_def CanonicalData_validate_def to_json_def CanonicalData_valid_def
        required_def with_default_def at_loc_Inr GenerationMeta_roundtrip ProjectInfo_roundtrip
        AssetSlots_roundtrip RenderConfig_roundtrip validate_variant_id_bounds_id)
qed

text \<open>The fixture \<open>valid_canonical_data\<close> is valid and survives the round trip.\<close>

lemma valid_canonical_data_roundtrip:
  "from_json ''2026-11-04T00:00:00'' (to_json (valid_canonical_data ''2026-01-01T00:00:00''))
     = Inr (valid_canonical_data ''2026-01-01T00:00:00'')"
proof -
  have "CanonicalData_valid (valid_canonical_data ''2026-01-01T00:00:00'')"
    by code_simp
  then show ?thesis by (rule serialization_roundtrip)
qed

section \<open>The documents the loader accepts\<close>

text \<open>
  What a successful validation guarantees of its result. Every field that was validated
  is within its declared constraints and in the form its validator gives it; a field
  that was absent has its default. The one default outside its own constraints is the
  empty \<open>keywords\<close> of \<open>ProjectInfo\<close>.
\<close>

lemma ap_InrE:
  assumes "ap f x = Inr y"
  obtains g a where "f = Inr g" and "x = Inr a" and "y = g a"
  using assms by (cases f; cases x) auto

lemma with_default_Inr:
  "with_default kv n d f = Inr x \<Longrightarrow> x = d \<or> (\<exists>j. f j = Inr x)"
  by (cases "map_of kv n"; cases "f (the (map_of kv n))")
     (simp_all add: with_default_def at_loc_def, blast)

lemma stripped_strip: "stripped (str_strip_whitespace s)"
  using strip_by_idem [of core_isspace s]
  by (simp add: stripped_def str_strip_whitespace_def strip_by_fixed_iff)

lemma py_stripped_strip: "py_stripped (py_strip s)"
  using strip_by_idem [of py_isspace s]
  by (simp add: py_stripped_def py_strip_def strip_by_fixed_iff)

lemma str_field_sound:
  "str_field True lo (Some hi) j = Inr s \<Longrightarrow> str_ok lo hi s"
  by (cases j) (auto simp add: str_field_def str_ok_def stripped_strip Let_def split: if_splits)

lemma str_field_min_sound:
  "str_field True lo None j = Inr s \<Longrightarrow> stripped s \<and> lo \<le> length s"
  by (cases j) (auto simp add: str_field_def stripped_strip Let_def split: if_splits)

lemma str_field_len_sound:
  "str_field False lo (Some hi) j = Inr s \<Longrightarrow> lo \<le> length s \<and> length s \<le> hi"
  by (cases j) (auto simp add: str_field_def Let_def split: if_splits)

lemma opt_str_field_sound: "opt_str_field hi j = Inr s \<Longrightarrow> opt_str_ok hi s"
  by (cases j) (auto simp add: opt_str_field_def opt_str_ok_def split: if_splits)

lemma literal_field_sound: "literal_field allowed j = Inr s \<Longrightarrow> s \<in> set allowed"
  by (cases j) (auto simp add: literal_field_def split: if_splits)

lemma int_field_sound: "int_field lo hi j = Inr n \<Longrightarrow> lo \<le> n \<and> n \<le> hi"
  by (cases j) (auto simp add: int_field_def split: if_splits)

lemma hex_color_field_sound: "hex_color_field j = Inr s \<Longrightarrow> matches_hex_color s"
  by (cases j) (auto simp add: hex_color_field_def split: if_splits)

lemma validate_items_sound:
  assumes "\<And>j x. f j = Inr x \<Longrightarrow> P x"
  shows "validate_items f i js = Inr xs \<Longrightarrow> list_all P xs \<and> length xs = length js"
proof (induction js arbitrary: i xs)
  case Nil
  then show ?case by simp
next
  case (Cons j js)
  from Cons.prems have "ap (ap (Inr (#)) (at_loc (str_nat i) (f j))) (validate_items f (Suc i) js) = Inr xs"
    by simp
  then obtain g ys where g: "ap (Inr (#)) (at_loc (str_nat i) (f j)) = Inr g"
    and ys: "validate_items f (Suc i) js = Inr ys" and xs: "xs = g ys"
    by (rule ap_InrE)
  from g obtain h x where h: "Inr (#) = (Inr h :: verr + ('a \<Rightarrow> 'a list \<Rightarrow> 'a list))"
    and x: "at_loc (str_nat i) (f j) = Inr x" and gx: "g = h x"
    by (rule ap_InrE)
  from h gx xs have xs': "xs = x # ys" by simp
  from x have "f j = Inr x" by (cases "f j") (simp_all add: at_loc_def)
  then have "P x" by (rule assms)
  with Cons.IH [OF ys] xs' show ?case by simp
qed

lemma list_field_sound:
  assumes "\<And>j x. f j = Inr x \<Longrightarrow> P x" and "list_field lo hi f j = Inr xs"
  shows "list_all P xs \<and> lo \<le> length xs \<and> (case hi of None \<Rightarrow> True | Some h \<Rightarrow> length xs \<le> h)"
proof -
  from assms(2) obtain js where JArr: "j = JArr js"
    by (cases j) (simp_all add: list_field_def)
  show ?thesis
  proof (cases "validate_items f 0 js")
    case (Inl e)
    with JArr assms(2) show ?thesis
      by (simp add: list_field_def split: if_splits)
  next
    case (Inr ys)
    with JArr assms(2) have xs: "ys = xs" and lo: "lo \<le> length xs"
      and hi: "\<not> (case hi of None \<Rightarrow> False | Some h \<Rightarrow> h < length js)"
      by (simp_all add: list_field_def split: if_splits)
    from validate_items_sound [of f P 0 js ys, OF assms(1) Inr] xs
    have "list_all P xs" and "length xs = length js" by simp_all
    with lo hi show ?thesis by (cases hi) simp_all
  qed
qed

lemma py_lower_char_idem: "py_lower_char (py_lower_char c) = py_lower_char c"
proof (cases "(65 \<le> (of_char c :: nat) \<and> (of_char c :: nat) \<le> 90)
    \<or> (192 \<le> (of_char c :: nat) \<and> (of_char c :: nat) \<le> 222 \<and> (of_char c :: nat) \<noteq> 215)")
  case True
  then have l: "py_lower_char c = char_of ((of_char c :: nat) + 32)"
    by (simp add: py_lower_char_def Let_def)
  have "(of_char (char_of ((of_char c :: nat) + 32)) :: nat) = ((of_char c :: nat) + 32) mod 256"
    by (rule of_char_of)
  also have "\<dots> = (of_char c :: nat) + 32" using True by auto
  finally have n: "(of_char (py_lower_char c) :: nat) = (of_char c :: nat) + 32"
    using l by simp
  have "\<not> ((65 \<le> (of_char (py_lower_char c) :: nat) \<and> (of_char (py_lower_char c) :: nat) \<le> 90)
    \<or> (192 \<le> (of_char (py_lower_char c) :: nat) \<and> (of_char (py_lower_char c) :: nat) \<le> 222
        \<and> (of_char (py_lower_char c) :: nat) \<noteq> 215))"
    unfolding n using True by arith
  then show ?thesis by (auto simp add: py_lower_char_def [of "py_lower_char c"] Let_def)
next
  case False
  then have "py_lower_char c = c" by (auto simp add: py_lower_char_def Let_def)
  then show ?thesis by simp
qed

lemma py_lower_idem: "py_lower (py_lower s) = py_lower s"
  by (simp add: py_lower_def py_lower_char_idem)

lemma py_stripped_lower: "py_stripped s \<Longrightarrow> py_stripped (py_lower s)"
  by (cases "s = []") (simp_all add: py_stripped_def py_lower_def hd_map last_map py_isspace_lower)

lemma keyword_ok_normalized: "py_strip kw \<noteq> [] \<Longrightarrow> keyword_ok (py_lower (py_strip kw))"
  using py_stripped_lower [OF py_stripped_strip [of kw]]
  by (simp add: keyword_ok_def py_lower_idem) (simp add: py_lower_def)

lemma validate_keywords_sound:
  assumes "validate_keywords v = Inr ks"
  shows "3 \<le> length ks \<and> length ks \<le> length v \<and> list_all keyword_ok ks"
proof -
  let ?n = "map (\<lambda>kw. py_lower (py_strip kw)) (filter (\<lambda>kw. py_strip kw \<noteq> []) v)"
  from assms have ks: "ks = ?n" and l: "3 \<le> length ?n"
    by (simp_all add: validate_keywords_def Let_def split: if_splits)
  have "list_all keyword_ok ?n"
    by (simp add: list_all_iff keyword_ok_normalized)
  moreover have "length ?n \<le> length v" by simp
  ultimately show ?thesis using ks l by simp
qed

lemma item_ok_strip: "py_strip s \<noteq> [] \<Longrightarrow> item_ok (py_strip s)"
  by (simp add: item_ok_def py_stripped_strip)

lemma validate_tone_rules_sound:
  assumes "validate_tone_rules_not_empty v = Inr rs"
  shows "2 \<le> length rs \<and> length rs \<le> length v \<and> list_all item_ok rs"
proof -
  let ?n = "map py_strip (filter (\<lambda>rule. py_strip rule \<noteq> []) v)"
  from assms have rs: "rs = ?n" and l: "2 \<le> length ?n"
    by (simp_all add: validate_tone_rules_not_empty_def Let_def split: if_splits)
  have "list_all item_ok ?n" by (simp add: list_all_iff item_ok_strip)
  moreover have "length ?n \<le> length v" by simp
  ultimately show ?thesis using rs l by simp
qed

lemma validate_variants_sound:
  assumes "validate_variants_not_empty_strings v = Inr rs"
  shows "length rs \<le> length v \<and> list_all item_ok rs"
proof -
  let ?n = "map py_strip (filter (\<lambda>item. py_strip item \<noteq> []) v)"
  from assms have rs: "rs = ?n"
    by (simp add: validate_variants_not_empty_strings_def Let_def)
  have "list_all item_ok ?n" by (simp add: list_all_iff item_ok_strip)
  moreover have "length ?n \<le> length v" by simp
  ultimately show ?thesis using rs by simp
qed

lemma validate_font_sound: "validate_font v = Inr f \<Longrightarrow> f \<in> set ALLOWED_FONTS"
  by (simp add: validate_font_def split: if_splits)

lemma validate_icon_sound: "validate_icon v = Inr i \<Longrightarrow> i \<in> set ALLOWED_ICONS"
  by (simp add: validate_icon_def Let_def split: if_splits)

lemma validate_schema_version_sound:
  "validate_schema_version v = Inr w \<Longrightarrow>
     2 \<le> length (split_dot w) \<and> split_dot w ! 0 = split_dot SCHEMA_VERSION ! 0
     \<and> split_dot w ! 1 = split_dot SCHEMA_VERSION ! 1"
  by (simp add: validate_schema_version_def Let_def split: if_splits)

lemma ap_Inr_iff: "ap f x = Inr y \<longleftrightarrow> (\<exists>g a. f = Inr g \<and> x = Inr a \<and> y = g a)"
  by (cases f; cases x) auto

lemma at_loc_Inr_iff: "at_loc n r = Inr x \<longleftrightarrow> r = Inr x"
  by (cases r) (simp_all add: at_loc_def)

lemma required_Inr_iff:
  "required kv n f = Inr x \<longleftrightarrow> (\<exists>j. map_of kv n = Some j \<and> f j = Inr x)"
  by (cases "map_of kv n") (simp_all add: required_def at_loc_Inr_iff)

lemma and_then_Inr_iff: "and_then r f = Inr y \<longleftrightarrow> (\<exists>x. r = Inr x \<and> f x = Inr y)"
  by (cases r) (auto split: sum.splits)

lemma HeroSection_sound:
  assumes "HeroSection_validate j = Inr h"
  shows "HeroSection_valid h"
  using assms
  by (cases j)
     (auto simp add: HeroSection_validate_def HeroSection_valid_def ap_Inr_iff required_Inr_iff
        dest: str_field_sound)

lemma list_field_length:
  assumes "list_field lo (Some hi) f j = Inr xs"
  shows "lo \<le> length xs \<and> length xs \<le> hi"
  using list_field_sound [of f "\<lambda>_. True" lo "Some hi" j xs] assms by simp

lemma keywords_field_sound:
  assumes "and_then (list_field 3 (Some 7) (str_field True 0 None) j) validate_keywords = Inr ks"
  shows "3 \<le> length ks \<and> length ks \<le> 7 \<and> list_all keyword_ok ks"
proof -
  from assms obtain xs where xs: "list_field 3 (Some 7) (str_field True 0 None) j = Inr xs"
    and ks: "validate_keywords xs = Inr ks"
    by (auto simp add: and_then_Inr_iff)
  from list_field_length [OF xs] validate_keywords_sound [OF ks] show ?thesis by simp
qed

lemma tone_rules_field_sound:
  assumes "and_then (list_field 2 (Some 5) (str_field False 0 None) j)
             validate_tone_rules_not_empty = Inr rs"
  shows "2 \<le> length rs \<and> length rs \<le> 5 \<and> list_all item_ok rs"
proof -
  from assms obtain xs where xs: "list_field 2 (Some 5) (str_field False 0 None) j = Inr xs"
    and rs: "validate_tone_rules_not_empty xs = Inr rs"
    by (auto simp add: and_then_Inr_iff)
  from list_field_length [OF xs] validate_tone_rules_sound [OF rs] show ?thesis by simp
qed

lemma variants_field_sound:
  assumes "and_then (list_field 0 (Some 3) (str_field False 0 None) j)
             validate_variants_not_empty_strings = Inr rs"
  shows "length rs \<le> 3 \<and> list_all item_ok rs"
proof -
  from assms obtain xs where xs: "list_field 0 (Some 3) (str_field False 0 None) j = Inr xs"
    and rs: "validate_variants_not_empty_strings xs = Inr rs"
    by (auto simp add: and_then_Inr_iff)
  from list_field_length [OF xs] validate_variants_sound [OF rs] show ?thesis by simp
qed

lemma Feature_sound:
  assumes "Feature_validate j = Inr f"
  shows "Feature_valid f"
  using assms
  by (cases j)
     (auto simp add: Feature_validate_def Feature_valid_def ap_Inr_iff required_Inr_iff
        and_then_Inr_iff dest: str_field_sound validate_icon_sound)

lemma Testimonial_sound:
  assumes "Testimonial_validate j = Inr t"
  shows "Testimonial_valid t"
  using assms
  by (cases j)
     (auto simp add: Testimonial_validate_def Testimonial_valid_def ap_Inr_iff required_Inr_iff
        dest: str_field_sound)

lemma ColorPalette_sound:
  assumes "ColorPalette_validate j = Inr c"
  shows "ColorPalette_valid c"
  using assms
  by (cases j)
     (auto simp add: ColorPalette_validate_def ColorPalette_valid_def ap_Inr_iff required_Inr_iff
        dest: hex_color_field_sound)

lemma Typography_sound:
  assumes "Typography_validate j = Inr t"
  shows "Typography_valid t"
  using assms
  by (cases j)
     (auto simp add: Typography_validate_def Typography_valid_def ap_Inr_iff required_Inr_iff
        and_then_Inr_iff dest: validate_font_sound)

lemma BrandIdentity_sound:
  assumes "BrandIdentity_validate j = Inr b"
  shows "BrandIdentity_valid b"
  using assms
  by (cases j)
     (auto simp add: BrandIdentity_validate_def BrandIdentity_valid_def ap_Inr_iff
        required_Inr_iff dest: ColorPalette_sound Typography_sound tone_rules_field_sound)

lemma ContentVariants_sound:
  assumes "ContentVariants_validate j = Inr v"
  shows "ContentVariants_valid v"
  using assms
  by (cases j)
     (auto simp add: ContentVariants_validate_def ContentVariants_valid_def ap_Inr_iff
        dest!: with_default_Inr dest: variants_field_sound)

lemma ContentVariants_default_valid: "ContentVariants_valid ContentVariants_default"
  by (simp add: ContentVariants_valid_def ContentVariants_default_def)

lemma features_field_sound:
  assumes "list_field 3 (Some 6) Feature_validate j = Inr fs"
  shows "3 \<le> length fs \<and> length fs \<le> 6 \<and> list_all Feature_valid fs"
  using list_field_sound [of Feature_validate Feature_valid 3 "Some 6" j fs] assms Feature_sound
  by simp

lemma LandingContent_sound:
  assumes "LandingContent_validate j = Inr c"
  shows "LandingContent_valid c"
proof -
  from assms obtain kv where JObj: "j = JObj kv"
    by (cases j) (simp_all add: LandingContent_validate_def)
  with assms have "\<exists>a b t d e f g h. c = \<lparr>hero = a, features = b, testimonial = t,
      footer_cta = d, variants = e, sections = f, faq_items = g, pricing_plans = h\<rparr>
    \<and> (\<exists>j. HeroSection_validate j = Inr a)
    \<and> (\<exists>j. list_field 3 (Some 6) Feature_validate j = Inr b)
    \<and> (\<exists>j. Testimonial_validate j = Inr t)
    \<and> (\<exists>j. str_field False 5 (Some 100) j = Inr d)
    \<and> with_default kv ''variants'' ContentVariants_default ContentVariants_validate = Inr e
    \<and> with_default kv ''faq_items'' []
               (list_field 0 (Some 6) (dict_field (str_field False 0 None))) = Inr g
    \<and> with_default kv ''pricing_plans'' []
               (list_field 0 (Some 3) (dict_field any_field)) = Inr h"
    by (auto simp add: LandingContent_validate_def ap_Inr_iff required_Inr_iff)
  then obtain a b t d e f g h where c: "c = \<lparr>hero = a, features = b, testimonial = t,
      footer_cta = d, variants = e, sections = f, faq_items = g, pricing_plans = h\<rparr>"
    and a: "\<exists>j. HeroSection_validate j = Inr a"
    and b: "\<exists>j. list_field 3 (Some 6) Feature_validate j = Inr b"
    and t: "\<exists>j. Testimonial_validate j = Inr t"
    and d: "\<exists>j. str_field False 5 (Some 100) j = Inr d"
    and e: "with_default kv ''variants'' ContentVariants_default ContentVariants_validate = Inr e"
    and g: "with_default kv ''faq_items'' []
               (list_field 0 (Some 6) (dict_field (str_field False 0 None))) = Inr g"
    and h: "with_default kv ''pricing_plans'' []
               (list_field 0 (Some 3) (dict_field any_field)) = Inr h"
    by blast
  have e': "ContentVariants_valid e"
    using with_default_Inr [OF e] ContentVariants_default_valid ContentVariants_sound by blast
  have g': "length g \<le> 6"
    using with_default_Inr [OF g] list_field_length by fastforce
  have h': "length h \<le> 3"
    using with_default_Inr [OF h] list_field_length by fastforce
  from a b t d e' g' h' c show ?thesis
    by (auto simp add: LandingContent_valid_def
        dest: HeroSection_sound features_field_sound Testimonial_sound str_field_len_sound)
qed

lemma AssetSlots_default_valid: "AssetSlots_valid AssetSlots_default"
  by (simp add: AssetSlots_valid_def AssetSlots_default_def opt_str_ok_def)

lemma AssetSlots_sound:
  assumes "AssetSlots_validate j = Inr a"
  shows "AssetSlots_valid a"
proof -
  from assms obtain kv where JObj: "j = JObj kv"
    by (cases j) (simp_all add: AssetSlots_validate_def)
  with assms have "\<exists>p q r s t. a = \<lparr>hero_image_prompt = p, hero_image_alt = q,
      og_image_prompt = r, logo_url = s, screenshot_prompts = t\<rparr>
    \<and> with_default kv ''hero_image_prompt'' None (opt_str_field 500) = Inr p
    \<and> with_default kv ''hero_image_alt'' None (opt_str_field 200) = Inr q
    \<and> with_default kv ''og_image_prompt'' None (opt_str_field 500) = Inr r
    \<and> with_default kv ''logo_url'' None (opt_str_field 500) = Inr s
    \<and> with_default kv ''screenshot_prompts'' []
               (list_field 0 (Some 4) (str_field False 0 None)) = Inr t"
    by (auto simp add: AssetSlots_validate_def ap_Inr_iff)
  then obtain p q r s t where a: "a = \<lparr>hero_image_prompt = p, hero_image_alt = q,
      og_image_prompt = r, logo_url = s, screenshot_prompts = t\<rparr>"
    and p: "with_default kv ''hero_image_prompt'' None (opt_str_field 500) = Inr p"
    and q: "with_default kv ''hero_image_alt'' None (opt_str_field 200) = Inr q"
    and r: "with_default kv ''og_image_prompt'' None (opt_str_field 500) = Inr r"
    and s: "with_default kv ''logo_url'' None (opt_str_field 500) = Inr s"
    and t: "with_default kv ''screenshot_prompts'' []
               (list_field 0 (Some 4) (str_field False 0 None)) = Inr t"
    by blast
  have none: "\<And>hi. opt_str_ok hi None" by (simp add: opt_str_ok_def)
  have p': "opt_str_ok 500 p" using with_default_Inr [OF p] none opt_str_field_sound by blast
  have q': "opt_str_ok 200 q" using with_default_Inr [OF q] none opt_str_field_sound by blast
  have r': "opt_str_ok 500 r" using with_default_Inr [OF r] none opt_str_field_sound by blast
  have s': "opt_str_ok 500 s" using with_default_Inr [OF s] none opt_str_field_sound by blast
  have t': "length t \<le> 4" using with_default_Inr [OF t] list_field_length by fastforce
  from a p' q' r' s' t' show ?thesis by (simp add: AssetSlots_valid_def)
qed

lemma RenderConfig_default_valid: "RenderConfig_valid RenderConfig_default"
  by (simp add: RenderConfig_valid_def RenderConfig_default_def TemplateType_def)

lemma RenderConfig_sound:
  assumes "RenderConfig_validate j = Inr r"
  shows "RenderConfig_valid r"
proof -
  from assms obtain kv where JObj: "j = JObj kv"
    by (cases j) (simp_all add: RenderConfig_validate_def)
  with assms have "\<exists>t v. r = \<lparr>template_type = t, variant_id = v\<rparr>
    \<and> with_default kv ''template_type'' ''saas'' (literal_field TemplateType) = Inr t
    \<and> with_default kv ''variant_id'' 0 (int_field 0 10) = Inr v"
    by (auto simp add: RenderConfig_validate_def ap_Inr_iff)
  then obtain t v where r: "r = \<lparr>template_type = t, variant_id = v\<rparr>"
    and t: "with_default kv ''template_type'' ''saas'' (literal_field TemplateType) = Inr t"
    and v: "with_default kv ''variant_id'' 0 (int_field 0 10) = Inr v"
    by blast
  have "''saas'' \<in> set TemplateType" by (simp add: TemplateType_def)
  then have t': "t \<in> set TemplateType"
    using with_default_Inr [OF t] literal_field_sound by blast
  have v': "0 \<le> v \<and> v \<le> 10"
    using with_default_Inr [OF v] int_field_sound by fastforce
  from r t' v' show ?thesis by (simp add: RenderConfig_valid_def)
qed

lemma GenerationMeta_default_valid: "GenerationMeta_valid (GenerationMeta_default now)"
  by (simp add: GenerationMeta_valid_def GenerationMeta_default_def) code_simp

lemma GenerationMeta_sound:
  assumes "GenerationMeta_validate now j = Inr m"
  shows "GenerationMeta_valid m"
proof -
  from assms obtain kv where JObj: "j = JObj kv"
    by (cases j) (simp_all add: GenerationMeta_validate_def)
  with assms have "\<exists>v g s. m = \<lparr>schema_version = v, generated_at = g, pipeline_steps = s\<rparr>
    \<and> with_default kv ''schema_version'' SCHEMA_VERSION
               (\<lambda>j. and_then (str_field False 0 None j) validate_schema_version) = Inr v"
    by (auto simp add: GenerationMeta_validate_def ap_Inr_iff)
  then obtain v g s where m: "m = \<lparr>schema_version = v, generated_at = g, pipeline_steps = s\<rparr>"
    and v: "with_default kv ''schema_version'' SCHEMA_VERSION
               (\<lambda>j. and_then (str_field False 0 None j) validate_schema_version) = Inr v"
    by blast
  have d: "2 \<le> length (split_dot SCHEMA_VERSION)" by code_simp
  from with_default_Inr [OF v]
  have "2 \<le> length (split_dot v) \<and> split_dot v ! 0 = split_dot SCHEMA_VERSION ! 0
     \<and> split_dot v ! 1 = split_dot SCHEMA_VERSION ! 1"
  proof
    assume "v = SCHEMA_VERSION"
    with d show ?thesis by simp
  next
    assume "\<exists>j. and_then (str_field False 0 None j) validate_schema_version = Inr v"
    then obtain w where "validate_schema_version w = Inr v"
      by (auto simp add: and_then_Inr_iff)
    then show ?thesis by (rule validate_schema_version_sound)
  qed
  with m show ?thesis by (simp add: GenerationMeta_valid_def)
qed

lemma ProjectInfo_sound:
  assumes "ProjectInfo_validate j = Inr p" and "keywords p \<noteq> []"
  shows "ProjectInfo_valid p"
proof -
  from assms(1) obtain kv where JObj: "j = JObj kv"
    by (cases j) (simp_all add: ProjectInfo_validate_def)
  with assms(1) have "\<exists>a b c d e f g. p = \<lparr>product_name = a, tagline = b, description = c,
       target_audience = d, value_proposition = e, tone = f, keywords = g\<rparr>
    \<and> (\<exists>j. str_field True 1 (Some 100) j = Inr a)
    \<and> (\<exists>j. str_field True 1 (Some 80) j = Inr b)
    \<and> (\<exists>j. str_field True 10 (Some 500) j = Inr c)
    \<and> (\<exists>j. str_field True 1 None j = Inr d)
    \<and> (\<exists>j. str_field True 1 None j = Inr e)
    \<and> (\<exists>j. literal_field ToneType j = Inr f)
    \<and> with_default kv ''keywords'' []
               (\<lambda>j. and_then (list_field 3 (Some 7) (str_field True 0 None) j)
                      validate_keywords) = Inr g"
    by (auto simp add: ProjectInfo_validate_def ap_Inr_iff required_Inr_iff and_then_Inr_iff
        validate_tone_exists_def split: if_splits)
  then obtain a b c d e f g where p: "p = \<lparr>product_name = a, tagline = b, description = c,
       target_audience = d, value_proposition = e, tone = f, keywords = g\<rparr>"
    and a: "\<exists>j. str_field True 1 (Some 100) j = Inr a"
    and b: "\<exists>j. str_field True 1 (Some 80) j = Inr b"
    and c: "\<exists>j. str_field True 10 (Some 500) j = Inr c"
    and d: "\<exists>j. str_field True 1 None j = Inr d"
    and e: "\<exists>j. str_field True 1 None j = Inr e"
    and f: "\<exists>j. literal_field ToneType j = Inr f"
    and g: "with_default kv ''keywords'' []
               (\<lambda>j. and_then (list_field 3 (Some 7) (str_field True 0 None) j)
                      validate_keywords) = Inr g"
    by blast
  from assms(2) p have "g \<noteq> []" by simp
  with with_default_Inr [OF g]
  have g': "3 \<le> length g \<and> length g \<le> 7 \<and> list_all keyword_ok g"
    using keywords_field_sound by blast
  from p a b c d e f g' show ?thesis
    by (auto simp add: ProjectInfo_valid_def
        dest: str_field_sound str_field_min_sound literal_field_sound)
qed

lemma optional_model_Inr:
  "optional_model f j = Inr x \<Longrightarrow> x = None \<or> (\<exists>y. x = Some y \<and> f j = Inr y)"
  by (cases j; cases "f j") (simp_all add: optional_model_def)

lemma map_sum_id_Inr_iff: "map_sum id f r = Inr y \<longleftrightarrow> (\<exists>x. r = Inr x \<and> y = f x)"
  by (cases r) auto

lemma from_json_sound:
  assumes "from_json now j = Inr d" and "keywords (project d) \<noteq> []"
  shows "CanonicalData_valid d"
proof -
  from assms(1) obtain kv where JObj: "j = JObj kv"
    by (cases j) (simp_all add: from_json_def CanonicalData_validate_def)
  with assms(1) have "\<exists>m p b c a r. d = \<lparr>meta = m, project = p, brand = b, content = c,
       assets = a, render = r\<rparr>
    \<and> with_default kv ''meta'' (GenerationMeta_default now) (GenerationMeta_validate now) = Inr m
    \<and> (\<exists>j. ProjectInfo_validate j = Inr p)
    \<and> with_default kv ''brand'' None (optional_model BrandIdentity_validate) = Inr b
    \<and> with_default kv ''content'' None (optional_model LandingContent_validate) = Inr c
    \<and> with_default kv ''assets'' AssetSlots_default AssetSlots_validate = Inr a
    \<and> with_default kv ''render'' RenderConfig_default RenderConfig_validate = Inr r"
    by (auto simp add: from_json_def CanonicalData_validate_def map_sum_id_Inr_iff
        validate_variant_id_bounds_id ap_Inr_iff required_Inr_iff)
  then obtain m p b c a r where d: "d = \<lparr>meta = m, project = p, brand = b, content = c,
       assets = a, render = r\<rparr>"
    and m: "with_default kv ''meta'' (GenerationMeta_default now) (GenerationMeta_validate now)
              = Inr m"
    and p: "\<exists>j. ProjectInfo_validate j = Inr p"
    and b: "with_default kv ''brand'' None (optional_model BrandIdentity_validate) = Inr b"
    and c: "with_default kv ''content'' None (optional_model LandingContent_validate) = Inr c"
    and a: "with_default kv ''assets'' AssetSlots_default AssetSlots_validate = Inr a"
    and r: "with_default kv ''render'' RenderConfig_default RenderConfig_validate = Inr r"
    by blast
  have m': "GenerationMeta_valid m"
    using with_default_Inr [OF m] GenerationMeta_default_valid GenerationMeta_sound by blast
  have p': "ProjectInfo_valid p"
    using p assms(2) d ProjectInfo_sound by auto
  have b': "case b of None \<Rightarrow> True | Some x \<Rightarrow> BrandIdentity_valid x"
  proof (cases b)
    case (Some x)
    with with_default_Inr [OF b] obtain j where "optional_model BrandIdentity_validate j = Inr (Some x)"
      by auto
    from optional_model_Inr [OF this] have "\<exists>j. BrandIdentity_validate j = Inr x" by auto
    with Some show ?thesis using BrandIdentity_sound by auto
  qed simp
  have c': "case c of None \<Rightarrow> True | Some x \<Rightarrow> LandingContent_valid x"
  proof (cases c)
    case (Some x)
    with with_default_Inr [OF c] obtain j where "optional_model LandingContent_validate j = Inr (Some x)"
      by auto
    from optional_model_Inr [OF this] have "\<exists>j. LandingContent_validate j = Inr x" by auto
    with Some show ?thesis using LandingContent_sound by auto
  qed simp
  have a': "AssetSlots_valid a"
    using with_default_Inr [OF a] AssetSlots_default_valid AssetSlots_sound by blast
  have r': "RenderConfig_valid r"
    using with_default_Inr [OF r] RenderConfig_default_valid RenderConfig_sound by blast
  from d m' p' b' c' a' r' show ?thesis by (simp add: CanonicalData_valid_def)
qed

text \<open>
  Hence the documents \<open>from_json\<close> returns are reproduced from their \<open>to_json\<close> exactly
  when their project has keywords: a document loaded without the \<open>keywords\<close> key is the
  only one the loader accepts and then rejects.
\<close>

lemma ProjectInfo_no_keywords_rejected:
  "keywords p = [] \<Longrightarrow> isl (ProjectInfo_validate (ProjectInfo_dump p))"
  by (simp add: ProjectInfo_validate_def ProjectInfo_dump_def isl_ap with_default_def
      isl_at_loc list_field_def)

lemma to_json_no_keywords_rejected:
  "keywords (project d) = [] \<Longrightarrow> isl (from_json now (to_json d))"
  by (simp add: from_json_def CanonicalData_validate_def to_json_def isl_map_sum isl_ap
      required_def isl_at_loc ProjectInfo_no_keywords_rejected)

lemma loaded_roundtrip_iff:
  assumes "from_json now j = Inr d"
  shows "from_json now' (to_json d) = Inr d \<longleftrightarrow> keywords (project d) \<noteq> []"
proof
  assume "from_json now' (to_json d) = Inr d"
  then have "\<not> isl (from_json now' (to_json d))" by simp
  then show "keywords (project d) \<noteq> []" using to_json_no_keywords_rejected by blast
next
  assume "keywords (project d) \<noteq> []"
  with assms have "CanonicalData_valid d" by (rule from_json_sound)
  then show "from_json now' (to_json d) = Inr d" by (rule serialization_roundtrip)
qed

text \<open>
  Claim C6. Serialization round trip, \<open>CanonicalData.from_json(d.to_json())\<close> equals \<open>d\<close>
  for every valid document \<open>d\<close>, does not hold of the code for a document that was loaded
  without \<open>project.keywords\<close>. The field is declared with \<open>default_factory=list\<close> next to
  \<open>min_length=3\<close>, and a default is not validated: \<open>from_json\<close> accepts the document and
  builds it with \<open>keywords = []\<close>; \<open>to_json\<close> writes the empty list, and \<open>from_json\<close>
  rejects that text, the list being shorter than 3.
\<close>

theorem roundtrip_without_keywords:
  "from_json ''2026-01-01T00:00:00'' canonical_json_without_keywords
     = Inr document_without_keywords
   \<and> keywords (project document_without_keywords) = []
   \<and> from_json ''2026-01-01T00:00:00'' (to_json document_without_keywords)
     = Inl [([''project'', ''keywords''], TooShort 3)]"
proof -
  have 1: "from_json ''2026-01-01T00:00:00'' canonical_json_without_keywords
     = Inr document_without_keywords"
    by code_simp
  have 2: "keywords (project document_without_keywords) = []"
    by (simp add: document_without_keywords_def)
  have 3: "from_json ''2026-01-01T00:00:00'' (to_json document_without_keywords)
     = Inl [([''project'', ''keywords''], TooShort 3)]"
    by code_simp
  from 1 2 3 show ?thesis by blast
qed

end
